theory Spec2Isabelle
  imports Main "HOL-Library.Sublist"
begin

text \<open>
  A shallow embedding of \<^verbatim>\<open>src/gen/ControllerGen.ts\<close> of Vesta, the generator of REST
  controllers: the handler bodies it emits as strings, the class and route table it
  assembles, and the patch of the registry file, with the properties of the design
  document stated and settled on them.
\<close>

section \<open>JavaScript string primitives used by the generator\<close>

text \<open>
  Strings are \<^typ>\<open>string\<close>. The generator only builds ASCII program text, so one
  \<^typ>\<open>char\<close> stands for one UTF-16 code unit.
\<close>

abbreviation tab2 :: string where
  \<open>tab2 \<equiv> [CHR 0x09, CHR 0x09]\<close>

abbreviation tab3 :: string where
  \<open>tab3 \<equiv> [CHR 0x09, CHR 0x09, CHR 0x09]\<close>

text \<open>Position of the first occurrence of \<open>pat\<close> in a string, if there is one.\<close>

fun firstIndex :: \<open>string \<Rightarrow> string \<Rightarrow> nat option\<close> where
  \<open>firstIndex pat [] = (if pat = [] then Some 0 else None)\<close>
| \<open>firstIndex pat (c # cs) =
     (if prefix pat (c # cs) then Some 0 else map_option Suc (firstIndex pat cs))\<close>

text \<open>\<^verbatim>\<open>s.indexOf(pat)\<close>: the index of the first occurrence, or -1.\<close>

definition indexOf :: \<open>string \<Rightarrow> string \<Rightarrow> int\<close> where
  \<open>indexOf s pat = (case firstIndex pat s of None \<Rightarrow> - 1 | Some i \<Rightarrow> int i)\<close>

text \<open>
  \<^verbatim>\<open>s.search(pat)\<close> with a string argument compiles the string to a regular expression
  and returns the index of its first match, or -1. The markers it is called with are plain
  text, for which that is the index of the first occurrence.
\<close>

definition search :: \<open>string \<Rightarrow> string \<Rightarrow> int\<close> where
  \<open>search s pat = (case firstIndex pat s of None \<Rightarrow> - 1 | Some i \<Rightarrow> int i)\<close>

text \<open>
  The replacement text of \<^verbatim>\<open>String.prototype.replace\<close> is expanded: \<^verbatim>\<open>$$\<close> is a dollar
  sign, \<^verbatim>\<open>$&\<close> the matched text, \<^verbatim>\<open>$`\<close> the text before the match and \<^verbatim>\<open>$'\<close> the text
  after it. A string pattern has no capture groups, so \<^verbatim>\<open>$1\<close> and the like stay as they
  are.
\<close>

fun getSubstitution :: \<open>string \<Rightarrow> string \<Rightarrow> string \<Rightarrow> string \<Rightarrow> string\<close> where
  \<open>getSubstitution matched pre post (c # d # r) =
     (if c = CHR ''$'' \<and> d = CHR ''$'' then CHR ''$'' # getSubstitution matched pre post r
      else if c = CHR ''$'' \<and> d = CHR ''&'' then matched @ getSubstitution matched pre post r
      else if c = CHR ''$'' \<and> d = CHR ''`'' then pre @ getSubstitution matched pre post r
      else if c = CHR ''$'' \<and> d = CHR 0x27 then post @ getSubstitution matched pre post r
      else c # getSubstitution matched pre post (d # r))\<close>
| \<open>getSubstitution matched pre post r = r\<close>

text \<open>\<^verbatim>\<open>s.replace(pat, rep)\<close> with a string pattern: only the first occurrence is replaced.\<close>

definition replace :: \<open>string \<Rightarrow> string \<Rightarrow> string \<Rightarrow> string\<close> where
  \<open>replace s pat rep =
     (case firstIndex pat s of
        None \<Rightarrow> s
      | Some i \<Rightarrow>
          take i s
          @ getSubstitution pat (take i s) (drop (i + length pat) s) rep
          @ drop (i + length pat) s)\<close>

text \<open>
  \<^verbatim>\<open>s.replace(/\/{n,}/g, rep)\<close>: every maximal run of at least \<open>n\<close> slashes becomes
  \<open>rep\<close> (\<open>n = 1\<close> is \<^verbatim>\<open>/\/+/g\<close>).
\<close>

function replaceSlashRuns :: \<open>nat \<Rightarrow> string \<Rightarrow> string \<Rightarrow> string\<close> where
  \<open>replaceSlashRuns n rep [] = []\<close>
| \<open>replaceSlashRuns n rep (c # cs) =
     (if c = CHR ''/''
      then (if n \<le> Suc (length (takeWhile (\<lambda>x. x = CHR ''/'') cs))
            then rep else c # takeWhile (\<lambda>x. x = CHR ''/'') cs)
           @ replaceSlashRuns n rep (dropWhile (\<lambda>x. x = CHR ''/'') cs)
      else c # replaceSlashRuns n rep cs)\<close>
  by pat_completeness auto
termination
  by (relation \<open>measure (\<lambda>(n, rep, s). length s)\<close>)
     (auto simp: length_dropWhile_le less_Suc_eq_le)

text \<open>\<^verbatim>\<open>xs.join(sep)\<close>\<close>

fun joinWith :: \<open>string \<Rightarrow> string list \<Rightarrow> string\<close> where
  \<open>joinWith sep [] = []\<close>
| \<open>joinWith sep [x] = x\<close>
| \<open>joinWith sep (x # y # r) = x @ sep @ joinWith sep (y # r)\<close>

section \<open>Data model\<close>

datatype FieldType = FT_File | FT_Relation | FT_List | FT_Text

record relation_meta =
  rel_model :: string
  rel_path :: \<open>string option\<close>

record field_meta =
  relation :: \<open>relation_meta option\<close>

record model_field =
  fieldName :: string
  properties_type :: FieldType

text \<open>
  \<^verbatim>\<open>IModelFields\<close> is an object from field names to fields; \<^verbatim>\<open>Object.keys\<close> lists the names
  in insertion order.
\<close>

type_synonym IModelFields = \<open>(string \<times> model_field) list\<close>

definition keys :: \<open>IModelFields \<Rightarrow> string list\<close> where
  \<open>keys fs = map fst fs\<close>

text \<open>
  The collaborators of the generator that live outside this file: lodash's \<^verbatim>\<open>camelCase\<close>,
  \<^verbatim>\<open>pascalCase\<close> and \<^verbatim>\<open>plural\<close> of \<^verbatim>\<open>util/StringUtil\<close>, \<^verbatim>\<open>genRelativePath\<close> of
  \<^verbatim>\<open>util/FsUtil\<close>, \<^verbatim>\<open>path.join\<close>, the schema lookups of \<^verbatim>\<open>util/Model\<close>, the text
  rendering of \<^verbatim>\<open>TsFileGen\<close>, the name \<^verbatim>\<open>addClass()\<close> gives the class of a file with a
  given name, and the two markers of \<^verbatim>\<open>core/Placeholder\<close>. They are
  parameters of every definition below.
\<close>

datatype Access = Public | Private | Protected

record MethodGen =
  methodName :: string
  access :: Access
  isAsync :: bool
  parameters :: \<open>(string \<times> string) list\<close>
  content :: \<open>string list\<close>

text \<open>
  A \<^verbatim>\<open>TsFileGen\<close> with the one class it holds, as the accumulator it is: the imports asked
  for, in the order of the calls, and the methods added to the class.
\<close>

record TsFileGen =
  fileName :: string
  importList :: \<open>(string list \<times> string) list\<close>
  exported :: bool
  parentClass :: \<open>string option\<close>
  methods :: \<open>MethodGen list\<close>

record util =
  camelCase :: \<open>string \<Rightarrow> string\<close>
  pascalCase :: \<open>string \<Rightarrow> string\<close>
  plural :: \<open>string \<Rightarrow> string\<close>
  genRelativePath :: \<open>string \<Rightarrow> string \<Rightarrow> string\<close>
  join :: \<open>string list \<Rightarrow> string\<close>
  getFieldsByType :: \<open>string \<Rightarrow> FieldType \<Rightarrow> IModelFields option\<close>
  getFieldMeta :: \<open>string \<Rightarrow> string \<Rightarrow> field_meta\<close>
  getConfidentialFields :: \<open>string \<Rightarrow> string list\<close>
  getOwnerVerifiedFields :: \<open>string \<Rightarrow> string list\<close>
  generateFile :: \<open>TsFileGen \<Rightarrow> string\<close>
  classNameOf :: \<open>string \<Rightarrow> string\<close>
  Placeholder_Import :: string
  Placeholder_ExpressController :: string

text \<open>
  The configuration a \<^verbatim>\<open>ControllerGen\<close> is constructed with. \<^verbatim>\<open>init\<close> constructs one only
  after \<^verbatim>\<open>config.model.toString()\<close> has returned, so \<open>model\<close> is a string here.
\<close>

record IControllerConfig =
  model :: string
  name :: string
  route :: string
  version :: string

text \<open>
  The fields of a \<^verbatim>\<open>ControllerGen\<close>. \<^verbatim>\<open>controllerClass\<close> is the class inside
  \<open>controllerFile\<close>, and \<^verbatim>\<open>routeMethod\<close> is the first method of that class.
\<close>

record ControllerGen =
  config :: IControllerConfig
  apiVersion :: string
  confidentialFields :: \<open>string list\<close>
  controllerFile :: TsFileGen
  filesFields :: \<open>IModelFields option\<close>
  ownerVerifiedFields :: \<open>string list\<close>
  path :: string
  rawName :: string
  relationsFields :: \<open>IModelFields option\<close>
  routingPath :: string

datatype exn = TypeError | ENOENT

definition addImport :: \<open>string list \<Rightarrow> string \<Rightarrow> ControllerGen \<Rightarrow> ControllerGen\<close> where
  \<open>addImport names from g =
     g\<lparr>controllerFile :=
         (controllerFile g)\<lparr>importList := importList (controllerFile g) @ [(names, from)]\<rparr>\<rparr>\<close>

section \<open>Handler bodies\<close>

definition getAuthUserCode :: \<open>ControllerGen \<Rightarrow> string\<close> where
  \<open>getAuthUserCode g =
     (if ownerVerifiedFields g \<noteq> []
      then ''const authUser = this.getUserFromSession(req);\<newline>''
           @ ''        const isAdmin = this.isAdmin(authUser);\<newline>'' @ tab2
      else [])\<close>

text \<open>
  The loop over the relation fields of \<^verbatim>\<open>getConfFieldRemovingCode\<close>, on the names still to
  visit (the source counts down, so the caller passes them reversed). Reading
  \<^verbatim>\<open>meta.relation.path\<close> of a field without relation metadata throws.
\<close>

fun relationRemovers ::
  \<open>util \<Rightarrow> string \<Rightarrow> string list \<Rightarrow> string list \<times> ControllerGen
     \<Rightarrow> exn + string list \<times> ControllerGen\<close> where
  \<open>relationRemovers u index [] (confRemovers, g) = Inr (confRemovers, g)\<close>
| \<open>relationRemovers u index (f # fs) (confRemovers, g) =
     (case relation (getFieldMeta u (model (config g)) f) of
        None \<Rightarrow> Inl TypeError
      | Some r \<Rightarrow>
          (let extPath = (case rel_path r of
                            None \<Rightarrow> []
                          | Some p \<Rightarrow> if p \<noteq> [] then ''/'' @ p else []);
               relConfFields = getConfidentialFields u (rel_model r)
           in if relConfFields \<noteq> []
              then relationRemovers u index fs
                     (confRemovers
                      @ map (\<lambda>cf. ''delete (result.items['' @ index @ ''].'' @ f @ '' as I''
                                    @ rel_model r @ '').'' @ cf @ '';'')
                            (rev relConfFields),
                      addImport [''I'' @ rel_model r]
                        (genRelativePath u (path g)
                           (''src/cmn/models'' @ extPath @ ''/'' @ rel_model r)) g)
              else relationRemovers u index fs (confRemovers, g)))\<close>

definition getConfFieldRemovingCode ::
  \<open>util \<Rightarrow> ControllerGen \<Rightarrow> bool \<Rightarrow> exn + string \<times> ControllerGen\<close> where
  \<open>getConfFieldRemovingCode u g singleRecord =
     (let index = (if singleRecord then ''0'' else ''i'');
          confRemovers =
            (if \<not> confidentialFields g \<noteq> []
             then map (\<lambda>cf. ''delete result.items['' @ index @ ''].'' @ cf @ '';'')
                      (rev (confidentialFields g))
             else [])
      in case (case relationsFields g of
                 None \<Rightarrow> Inr (confRemovers, g)
               | Some rf \<Rightarrow> relationRemovers u index (rev (keys rf)) (confRemovers, g)) of
           Inl e \<Rightarrow> Inl e
         | Inr (removers, g') \<Rightarrow>
             Inr (if removers \<noteq> []
                  then (if singleRecord
                        then ''\<newline>'' @ tab2 @ joinWith (''\<newline>'' @ tab2) removers
                        else ''\<newline>'' @ tab2 @ ''for (let i = result.items.length; i--;) {\<newline>''
                             @ ''            '' @ joinWith (''\<newline>'' @ tab3) removers
                             @ ''\<newline>        }'')
                  else [],
                  g'))\<close>

text \<open>
  The loop of \<^verbatim>\<open>getQueryCodeForSingleInstance\<close> over the owner-verified fields, on the
  names still to visit (reversed by the caller). The template interpolates the whole
  array \<^verbatim>\<open>this.ownerVerifiedFields\<close>, which JavaScript renders as its elements joined by
  commas.
\<close>

fun singleOwnerChecks ::
  \<open>util \<Rightarrow> string list \<Rightarrow> string list \<times> ControllerGen \<Rightarrow> string list \<times> ControllerGen\<close> where
  \<open>singleOwnerChecks u [] (ownerChecks, g) = (ownerChecks, g)\<close>
| \<open>singleOwnerChecks u (f # fs) (ownerChecks, g) =
     (case relation (getFieldMeta u (model (config g)) f) of
        Some r \<Rightarrow>
          (let extPath = (case rel_path r of
                            None \<Rightarrow> []
                          | Some p \<Rightarrow> if p \<noteq> [] then ''/'' @ p else [])
           in singleOwnerChecks u fs
                (ownerChecks
                 @ [''(result.items[0].'' @ joinWith '','' (ownerVerifiedFields g) @ '' as I''
                    @ rel_model r @ '').id !== authUser.id''],
                 addImport [''I'' @ rel_model r]
                   (genRelativePath u (path g)
                      (''src/cmn/models'' @ extPath @ ''/'' @ rel_model r)) g))
      | None \<Rightarrow>
          singleOwnerChecks u fs
            (ownerChecks
             @ [''result.items[0].'' @ joinWith '','' (ownerVerifiedFields g)
                @ '' !== authUser.id''],
             g))\<close>

definition getQueryCodeForSingleInstance ::
  \<open>util \<Rightarrow> ControllerGen \<Rightarrow> exn + string \<times> ControllerGen\<close> where
  \<open>getQueryCodeForSingleInstance u g =
     (let modelName = pascalCase u (model (config g));
          (ownerChecks, g1) = singleOwnerChecks u (rev (ownerVerifiedFields g)) ([], g);
          ownerCheckCode =
            (if ownerChecks \<noteq> []
             then '' || (!isAdmin && ('' @ joinWith '' || '' ownerChecks @ ''))'' else []);
          relationFields =
            (case relationsFields g1 of
               Some rf \<Rightarrow> '', { relations: ["'' @ joinWith ''", "'' (keys rf) @ ''"] }''
             | None \<Rightarrow> [])
      in case getConfFieldRemovingCode u g1 True of
           Inl e \<Rightarrow> Inl e
         | Inr (conf, g2) \<Rightarrow>
             Inr (getAuthUserCode g1 @ ''const id = this.retrieveId(req);\<newline>''
                  @ ''        const result = await '' @ modelName @ ''.find<I'' @ modelName
                  @ ''>(id'' @ relationFields @ '');\<newline>''
                  @ ''        if (!result.items.length'' @ ownerCheckCode @ '') {\<newline>''
                  @ ''            throw new DatabaseError(Err.Code.DBNoRecord, null);\<newline>''
                  @ ''        }'' @ conf @ ''\<newline>''
                  @ ''        res.json(result);'',
                  g2))\<close>

definition getQueryCodeForMultiInstance ::
  \<open>util \<Rightarrow> ControllerGen \<Rightarrow> exn + string \<times> ControllerGen\<close> where
  \<open>getQueryCodeForMultiInstance u g =
     (let modelName = pascalCase u (model (config g));
          ownerQueries = map (\<lambda>f. f @ '': authUser.id'') (rev (ownerVerifiedFields g));
          ownerQueriesCode =
            (if ownerQueries \<noteq> []
             then ''\<newline>'' @ tab2 @ ''if (!isAdmin) {\<newline>''
                  @ ''            query.filter({'' @ joinWith '', '' ownerQueries @ ''});\<newline>''
                  @ ''        }''
             else [])
      in case getConfFieldRemovingCode u g False of
           Inl e \<Rightarrow> Inl e
         | Inr (conf, g1) \<Rightarrow>
             Inr (getAuthUserCode g @ ''const query = this.query2vql('' @ modelName
                  @ '', req.query);'' @ ownerQueriesCode @ ''\<newline>''
                  @ ''        const result = await '' @ modelName @ ''.find<I'' @ modelName
                  @ ''>(query);'' @ conf @ ''\<newline>''
                  @ ''        res.json(result);'',
                  g1))\<close>

definition getCountCode :: \<open>util \<Rightarrow> ControllerGen \<Rightarrow> string\<close> where
  \<open>getCountCode u g =
     (let modelName = pascalCase u (model (config g))
      in ''const query = this.query2vql('' @ modelName @ '', req.query, true);\<newline>''
         @ ''        const result = await '' @ modelName @ ''.count<I'' @ modelName
         @ ''>(query);\<newline>''
         @ ''        res.json(result);'')\<close>

definition getQueryCode :: \<open>util \<Rightarrow> ControllerGen \<Rightarrow> bool \<Rightarrow> exn + string \<times> ControllerGen\<close> where
  \<open>getQueryCode u g isSingle =
     (if isSingle then getQueryCodeForSingleInstance u g
      else getQueryCodeForMultiInstance u g)\<close>

definition getInsertCode :: \<open>util \<Rightarrow> ControllerGen \<Rightarrow> exn + string \<times> ControllerGen\<close> where
  \<open>getInsertCode u g =
     (let modelName = pascalCase u (model (config g));
          modelInstanceName = camelCase u modelName;
          ownerAssigns = map (\<lambda>f. modelInstanceName @ ''.'' @ f @ '' = authUser.id;'')
                             (rev (ownerVerifiedFields g));
          ownerAssignCode =
            (if ownerAssigns \<noteq> []
             then ''\<newline>'' @ tab2 @ ''if (!isAdmin) {\<newline>''
                  @ ''            '' @ joinWith (''\<newline>'' @ tab2) ownerAssigns @ ''\<newline>''
                  @ ''        }''
             else [])
      in case getConfFieldRemovingCode u g True of
           Inl e \<Rightarrow> Inl e
         | Inr (conf, g1) \<Rightarrow>
             Inr (getAuthUserCode g @ ''const '' @ modelInstanceName @ '' = new '' @ modelName
                  @ ''(req.body);'' @ ownerAssignCode @ ''\<newline>''
                  @ ''        const validationError = '' @ modelInstanceName
                  @ ''.validate();\<newline>''
                  @ ''        if (validationError) {\<newline>''
                  @ ''            throw new ValidationError(validationError);\<newline>''
                  @ ''        }\<newline>''
                  @ ''        const result = await '' @ modelInstanceName @ ''.insert<I''
                  @ modelName @ ''>();'' @ conf @ ''\<newline>''
                  @ ''        res.json(result);'',
                  g1))\<close>

definition getUpdateCode :: \<open>util \<Rightarrow> ControllerGen \<Rightarrow> exn + string \<times> ControllerGen\<close> where
  \<open>getUpdateCode u g =
     (let modelName = pascalCase u (model (config g));
          modelInstanceName = camelCase u modelName;
          ownerChecks = map (\<lambda>f. modelInstanceName @ ''.'' @ f @ '' = authUser.id;'')
                            (rev (ownerVerifiedFields g));
          ownerInlineChecks = map (\<lambda>f. modelInstanceName @ ''.'' @ f @ '' !== authUser.id'')
                                  (rev (ownerVerifiedFields g));
          ownerCheckCode =
            (if ownerChecks \<noteq> []
             then ''\<newline>'' @ tab2 @ ''if (!isAdmin) {\<newline>'' @ tab3
                  @ joinWith (''\<newline>'' @ tab3) ownerChecks @ ''\<newline>'' @ tab2 @ ''}''
             else []);
          ownerCheckInlineCode =
            (if ownerInlineChecks \<noteq> []
             then '' || (!isAdmin && ('' @ joinWith '' || '' ownerInlineChecks @ ''))''
             else [])
      in case getConfFieldRemovingCode u g True of
           Inl e \<Rightarrow> Inl e
         | Inr (conf, g1) \<Rightarrow>
             Inr (getAuthUserCode g @ ''const '' @ modelInstanceName @ '' = new '' @ modelName
                  @ ''(req.body);'' @ ownerCheckCode @ ''\<newline>''
                  @ ''        const validationError = '' @ modelInstanceName
                  @ ''.validate();\<newline>''
                  @ ''        if (validationError) {\<newline>''
                  @ ''            throw new ValidationError(validationError);\<newline>''
                  @ ''        }\<newline>''
                  @ ''        const result = await '' @ modelName @ ''.find<I'' @ modelName
                  @ ''>('' @ modelInstanceName @ ''.id);\<newline>''
                  @ ''        if (!result.items.length'' @ ownerCheckInlineCode @ '') {\<newline>''
                  @ ''            throw new DatabaseError(Err.Code.DBNoRecord, null);\<newline>''
                  @ ''        }\<newline>''
                  @ ''        const uResult = await '' @ modelInstanceName @ ''.update<I''
                  @ modelName @ ''>();'' @ conf @ ''\<newline>''
                  @ ''        res.json(uResult);'',
                  g1))\<close>

text \<open>The statement \<^verbatim>\<open>getDeleteCode\<close> emits for one File-typed field.\<close>

definition deleteFileStatement :: \<open>string \<Rightarrow> model_field \<Rightarrow> string\<close> where
  \<open>deleteFileStatement modelInstanceName field =
     (if properties_type field = FT_List
      then ''if ('' @ modelInstanceName @ ''.'' @ fieldName field @ '') {\<newline>''
           @ ''            for (let i = '' @ modelInstanceName @ ''.'' @ fieldName field
           @ ''.length; i--; ) {\<newline>''
           @ ''                filesToBeDeleted.push('' @ [CHR 0x27] @ ''${baseDirectory}/${''
           @ modelInstanceName @ ''.'' @ fieldName field @ ''[i]}'' @ [CHR 0x27] @ '');\<newline>''
           @ ''            }\<newline>''
           @ ''        }''
      else ''filesToBeDeleted.push(`${baseDirectory}/${'' @ modelInstanceName @ ''.''
           @ fieldName field @ ''}`);'')\<close>

definition getDeleteCode :: \<open>util \<Rightarrow> ControllerGen \<Rightarrow> string \<times> ControllerGen\<close> where
  \<open>getDeleteCode u g =
     (let modelName = pascalCase u (model (config g));
          modelInstanceName = camelCase u modelName;
          ownerChecks =
            (if ownerVerifiedFields g \<noteq> []
             then map (\<lambda>f. ''result.items[0].'' @ joinWith '','' (ownerVerifiedFields g)
                            @ '' !== authUser.id'')
                      (rev (ownerVerifiedFields g))
             else []);
          fieldsOfTypeFile = getFieldsByType u modelName FT_File;
          (deleteFileCode, g1) =
            (case fieldsOfTypeFile of
               None \<Rightarrow> ([], g)
             | Some ff \<Rightarrow>
                 ([''\<newline>'' @ tab2 @ ''const filesToBeDeleted = [];'',
                   ''const baseDirectory = `${this.config.dir.upload}/'' @ modelInstanceName
                   @ ''`;'']
                  @ map (deleteFileStatement modelInstanceName) (map snd ff)
                  @ [''for (let i = filesToBeDeleted.length; i--;) {\<newline>''
                     @ ''            try {\<newline>''
                     @ ''                await FileUploader.checkAndDeleteFile(filesToBeDeleted[i]);\<newline>''
                     @ ''            } catch (error) {\<newline>''
                     @ ''                req.log(LogLevel.Warning, error.message, "remove''
                     @ modelName @ ''", "'' @ modelName @ ''Controller");\<newline>''
                     @ ''            }\<newline>''
                     @ ''        }''],
                  addImport [''LogLevel''] ''@vesta/services'' g));
          ownerCheckCode =
            (if ownerChecks \<noteq> []
             then ''\<newline>''
                  @ ''        if (!isAdmin && (!result.items.length || ''
                  @ joinWith '' || '' ownerChecks @ '')) {\<newline>''
                  @ ''            throw new DatabaseError(Err.Code.DBNoRecord, null);\<newline>''
                  @ ''        }''
             else [])
      in (getAuthUserCode g1 @ ''const id = this.retrieveId(req);\<newline>''
          @ ''        const result = await '' @ modelName @ ''.find<I'' @ modelName
          @ ''>(id);'' @ ownerCheckCode @ ''\<newline>''
          @ ''        const '' @ modelInstanceName @ '' = new '' @ modelName
          @ ''(result.items[0]);'' @ joinWith (''\<newline>'' @ tab2) deleteFileCode @ ''\<newline>''
          @ ''        const dResult = await '' @ modelInstanceName @ ''.remove();\<newline>''
          @ ''        res.json(dResult);'',
          g1))\<close>

text \<open>The block \<^verbatim>\<open>getUploadCode\<close> emits for one of several File-typed fields.\<close>

definition uploadFieldBlock :: \<open>util \<Rightarrow> string \<Rightarrow> string \<Rightarrow> string\<close> where
  \<open>uploadFieldBlock u modelInstanceName f =
     (let oldName = ''old'' @ pascalCase u f
      in ''\<newline>''
         @ ''        if (upl.'' @ f @ '') {\<newline>''
         @ ''            const '' @ oldName @ '' = '' @ modelInstanceName @ ''.'' @ f @ '';\<newline>''
         @ ''            delList.push(FileUploader.checkAndDeleteFile(`${destDirectory}/${''
         @ oldName @ ''}`)\<newline>''
         @ ''                .then(() => '' @ modelInstanceName @ ''.'' @ f @ '' = upl.'' @ f
         @ '' as string));\<newline>''
         @ ''        }'')\<close>

text \<open>\<^verbatim>\<open>Object.keys(this.filesFields)\<close> throws when \<^verbatim>\<open>filesFields\<close> is null.\<close>

definition getUploadCode :: \<open>util \<Rightarrow> ControllerGen \<Rightarrow> exn + string \<times> ControllerGen\<close> where
  \<open>getUploadCode u g =
     (let g1 = addImport [''FileUploader'']
                 (genRelativePath u (path g) ''src/helpers/FileUploader'') g;
          modelName = pascalCase u (model (config g1));
          modelInstanceName = camelCase u modelName
      in case filesFields g1 of
           None \<Rightarrow> Inl TypeError
         | Some ff \<Rightarrow>
             (let fileNames = keys ff;
                  code =
                    (case fileNames of
                       [f] \<Rightarrow>
                         ''const oldFileName = '' @ modelInstanceName @ ''.'' @ f @ '';\<newline>''
                         @ ''        '' @ modelInstanceName @ ''.'' @ f @ '' = upl.'' @ f
                         @ '';\<newline>''
                         @ ''        if (oldFileName) {\<newline>''
                         @ ''            await FileUploader.checkAndDeleteFile(`${destDirectory}/${oldFileName}`);\<newline>''
                         @ ''        }''
                     | _ \<Rightarrow>
                         ''const delList: Array<Promise<string>> = [];''
                         @ concat (map (uploadFieldBlock u modelInstanceName) fileNames)
                         @ ''\<newline>''
                         @ ''        await Promise.all(delList);'')
              in Inr (''const id = this.retrieveId(req);\<newline>''
                      @ ''        const destDirectory = join(this.config.dir.upload, "''
                      @ modelInstanceName @ ''");\<newline>''
                      @ ''        const result = await '' @ modelName @ ''.find<I'' @ modelName
                      @ ''>(id);\<newline>''
                      @ ''        if (result.items.length !== 1) {\<newline>''
                      @ ''            throw new Err(Err.Code.DBRecordCount, "'' @ modelName
                      @ '' not found");\<newline>''
                      @ ''        }\<newline>''
                      @ ''        const '' @ modelInstanceName @ '' = new '' @ modelName
                      @ ''(result.items[0]);\<newline>''
                      @ ''        const uploader = new FileUploader<I'' @ modelName
                      @ ''>(true);\<newline>''
                      @ ''        await uploader.parse(req);\<newline>''
                      @ ''        const upl = await uploader.upload(destDirectory);\<newline>''
                      @ ''        '' @ code @ ''\<newline>''
                      @ ''        const uResult = await '' @ modelInstanceName
                      @ ''.update();\<newline>''
                      @ ''        res.json(uResult);'',
                      g1)))\<close>

section \<open>The controller class and its route table\<close>

text \<open>
  \<^verbatim>\<open>addResponseMethod\<close> adds a private async method taking \<^verbatim>\<open>req\<close>, \<^verbatim>\<open>res\<close> and \<^verbatim>\<open>next\<close> to
  the class; the caller then appends the handler body to that method, the last one of
  the class.
\<close>

definition addResponseMethod :: \<open>string \<Rightarrow> ControllerGen \<Rightarrow> ControllerGen\<close> where
  \<open>addResponseMethod nm g =
     g\<lparr>controllerFile :=
         (controllerFile g)\<lparr>methods := methods (controllerFile g)
            @ [\<lparr>methodName = nm, access = Private, isAsync = True,
                parameters = [(''req'', ''IExtRequest''), (''res'', ''Response''),
                              (''next'', ''NextFunction'')],
                content = []\<rparr>]\<rparr>\<rparr>\<close>

definition appendContent :: \<open>string \<Rightarrow> MethodGen \<Rightarrow> MethodGen\<close> where
  \<open>appendContent code m = m\<lparr>content := content m @ [code]\<rparr>\<close>

definition appendToLastMethod :: \<open>string \<Rightarrow> ControllerGen \<Rightarrow> ControllerGen\<close> where
  \<open>appendToLastMethod code g =
     g\<lparr>controllerFile :=
         (controllerFile g)\<lparr>methods :=
            (case rev (methods (controllerFile g)) of
               [] \<Rightarrow> []
             | m # ms \<Rightarrow> rev ms @ [appendContent code m])\<rparr>\<rparr>\<close>

text \<open>\<^verbatim>\<open>this.routeMethod.appendContent(code)\<close>\<close>

definition appendToRouteMethod :: \<open>string \<Rightarrow> ControllerGen \<Rightarrow> ControllerGen\<close> where
  \<open>appendToRouteMethod code g =
     g\<lparr>controllerFile :=
         (controllerFile g)\<lparr>methods :=
            (case methods (controllerFile g) of
               [] \<Rightarrow> []
             | m # ms \<Rightarrow> appendContent code m # ms)\<rparr>\<rparr>\<close>

definition routeMethod :: \<open>ControllerGen \<Rightarrow> MethodGen option\<close> where
  \<open>routeMethod g = (case methods (controllerFile g) of [] \<Rightarrow> None | m # ms \<Rightarrow> Some m)\<close>

text \<open>
  One step of \<^verbatim>\<open>addCRUDOperations\<close>: add the response method, compute its body, append the
  body to it, and register the route.
\<close>

definition addOperation ::
  \<open>string \<Rightarrow> (ControllerGen \<Rightarrow> exn + string \<times> ControllerGen) \<Rightarrow> string \<Rightarrow> ControllerGen
     \<Rightarrow> exn + ControllerGen\<close> where
  \<open>addOperation nm body routeLine g =
     (case body (addResponseMethod nm g) of
        Inl e \<Rightarrow> Inl e
      | Inr (code, g1) \<Rightarrow> Inr (appendToRouteMethod routeLine (appendToLastMethod code g1)))\<close>

definition thenOperation ::
  \<open>exn + ControllerGen \<Rightarrow> (ControllerGen \<Rightarrow> exn + ControllerGen) \<Rightarrow> exn + ControllerGen\<close> where
  \<open>thenOperation r f = (case r of Inl e \<Rightarrow> Inl e | Inr g \<Rightarrow> f g)\<close>

text \<open>
  The dotted access-control identifier of a routing path: runs of slashes become dots,
  and a leading dot is dropped.
\<close>

definition aclOf :: \<open>string \<Rightarrow> string\<close> where
  \<open>aclOf p =
     (let acl = replaceSlashRuns 1 ''.'' p
      in case acl of c # cs \<Rightarrow> if c = CHR ''.'' then cs else acl | [] \<Rightarrow> acl)\<close>

text \<open>\<^verbatim>\<open>middleWares.replace("__ACTION__", action)\<close>\<close>

definition methodBasedMiddleWares :: \<open>string \<Rightarrow> string \<Rightarrow> string\<close> where
  \<open>methodBasedMiddleWares acl action =
     replace ('' this.checkAcl("'' @ acl @ ''", __ACTION__),'') ''__ACTION__'' action\<close>

text \<open>The statement appended to the \<^verbatim>\<open>route\<close> method for each operation.\<close>

definition registration :: \<open>string \<Rightarrow> string \<Rightarrow> string \<Rightarrow> string \<Rightarrow> string\<close> where
  \<open>registration verb p middleWares nm =
     ''router.'' @ verb @ ''("'' @ p @ ''",'' @ middleWares @ '' this.wrap(this.'' @ nm @ ''));''\<close>

definition addCRUDOperations :: \<open>util \<Rightarrow> ControllerGen \<Rightarrow> exn + ControllerGen\<close> where
  \<open>addCRUDOperations u g0 =
     (let modelName = pascalCase u (model (config g0));
          modelInstanceName = camelCase u modelName;
          modelClassName = pascalCase u modelInstanceName;
          g1 = g0\<lparr>relationsFields := getFieldsByType u (model (config g0)) FT_Relation,
                   ownerVerifiedFields := getOwnerVerifiedFields u (model (config g0)),
                   confidentialFields := getConfidentialFields u (model (config g0))\<rparr>;
          g2 = addImport [''Err'', ''DatabaseError'', ''ValidationError''] ''@vesta/core'' g1;
          g3 = addImport [modelClassName, ''I'' @ modelClassName]
                 (genRelativePath u (path g2) (''src/cmn/models/'' @ model (config g2))) g2;
          g = addImport [''AclAction''] ''@vesta/services'' g3;
          acl = aclOf (routingPath g);
          readMW = methodBasedMiddleWares acl ''AclAction.Read'';
          addMW = methodBasedMiddleWares acl ''AclAction.Add'';
          editMW = methodBasedMiddleWares acl ''AclAction.Edit'';
          deleteMW = methodBasedMiddleWares acl ''AclAction.Delete''
      in thenOperation (thenOperation (thenOperation (thenOperation (thenOperation
           (thenOperation
              (addOperation (''get'' @ modelClassName @ ''Count'')
                 (\<lambda>h. Inr (getCountCode u h, h))
                 (registration ''get'' (routingPath g @ ''/count'') readMW
                    (''get'' @ modelClassName @ ''Count'')) g)
              (\<lambda>h. addOperation (''get'' @ modelClassName)
                 (\<lambda>h. getQueryCode u h True)
                 (registration ''get'' (routingPath h @ ''/:id'') readMW
                    (''get'' @ modelClassName)) h))
           (\<lambda>h. addOperation (''get'' @ plural u modelClassName)
              (\<lambda>h. getQueryCode u h False)
              (registration ''get'' (routingPath h) readMW
                 (''get'' @ plural u modelClassName)) h))
           (\<lambda>h. addOperation (''add'' @ modelClassName) (getInsertCode u)
              (registration ''post'' (routingPath h) addMW (''add'' @ modelClassName)) h))
           (\<lambda>h. addOperation (''update'' @ modelClassName) (getUpdateCode u)
              (registration ''put'' (routingPath h) editMW (''update'' @ modelClassName)) h))
           (\<lambda>h. addOperation (''remove'' @ modelClassName) (\<lambda>h. Inr (getDeleteCode u h))
              (registration ''delete'' (routingPath h @ ''/:id'') deleteMW
                 (''remove'' @ modelClassName)) h))
           (\<lambda>h. if filesFields h \<noteq> None
                then addOperation ''upload'' (getUploadCode u)
                       (registration ''post'' (routingPath h @ ''/file/:id'') editMW ''upload'') h
                else Inr h))\<close>

definition normalizeRoutingPath :: \<open>util \<Rightarrow> ControllerGen \<Rightarrow> ControllerGen\<close> where
  \<open>normalizeRoutingPath u g =
     (let edge = camelCase u (name (config g));
          p0 = route (config g);
          p1 = (case p0 of
                  c # cs \<Rightarrow> if c \<noteq> CHR ''/'' then ''/'' @ p0 else p0
                | [] \<Rightarrow> ''/'' @ p0);
          p2 = p1 @ ''/'' @ edge
      in g\<lparr>routingPath := replaceSlashRuns 2 ''/'' p2\<rparr>)\<close>

section \<open>The file system and the generator's entry points\<close>

record world =
  files :: \<open>string \<rightharpoonup> string\<close>
  writes :: \<open>(string \<times> string) list\<close>
  dirs :: \<open>string list\<close>
  errors :: \<open>string list\<close>

definition writeFile :: \<open>string \<Rightarrow> string \<Rightarrow> world \<Rightarrow> world\<close> where
  \<open>writeFile p text w = w\<lparr>files := (files w)(p \<mapsto> text), writes := writes w @ [(p, text)]\<rparr>\<close>

definition mkdir :: \<open>string \<Rightarrow> world \<Rightarrow> world\<close> where
  \<open>mkdir p w = w\<lparr>dirs := dirs w @ [p]\<rparr>\<close>

definition Log_error :: \<open>string \<Rightarrow> world \<Rightarrow> world\<close> where
  \<open>Log_error msg w = w\<lparr>errors := errors w @ [msg]\<rparr>\<close>

text \<open>
  The constructor together with the private \<^verbatim>\<open>init()\<close> it calls: the field initialisers,
  then the class skeleton with its \<^verbatim>\<open>route\<close> method, then \<^verbatim>\<open>mkdir\<close>.
\<close>

definition new_ControllerGen :: \<open>util \<Rightarrow> IControllerConfig \<Rightarrow> world \<Rightarrow> ControllerGen \<times> world\<close> where
  \<open>new_ControllerGen u cfg w =
     (let path1 = join u [''src/api'', version cfg, ''controller'', route cfg];
          rawName1 = camelCase u (name cfg);
          controllerName = pascalCase u rawName1 @ ''Controller'';
          g0 = normalizeRoutingPath u
                 \<lparr>config = cfg, apiVersion = version cfg, confidentialFields = [],
                  controllerFile =
                    \<lparr>fileName = controllerName, importList = [], exported = True,
                     parentClass = None, methods = []\<rparr>,
                  filesFields = None, ownerVerifiedFields = [], path = path1,
                  rawName = rawName1, relationsFields = None, routingPath = ''/''\<rparr>;
          g1 = (if model cfg \<noteq> []
                then g0\<lparr>filesFields := getFieldsByType u (model cfg) FT_File\<rparr> else g0);
          g2 = (if filesFields g1 \<noteq> None then addImport [''join''] ''path'' g1 else g1);
          g3 = addImport [''NextFunction'', ''Response'', ''Router''] ''express'' g2;
          g4 = addImport [''BaseController'', ''IExtRequest'']
                 (genRelativePath u (path g3) ''src/api/BaseController'') g3;
          g5 = g4\<lparr>controllerFile :=
                    (controllerFile g4)\<lparr>parentClass := Some ''BaseController'',
                       methods := methods (controllerFile g4)
                         @ [\<lparr>methodName = ''route'', access = Public, isAsync = False,
                             parameters = [(''router'', ''Router'')], content = []\<rparr>]\<rparr>\<rparr>
      in (g5, mkdir (path g5) w))\<close>

datatype outcome = Returned | Threw exn

definition controllerClassName :: \<open>util \<Rightarrow> ControllerGen \<Rightarrow> string\<close> where
  \<open>controllerClassName u g = classNameOf u (fileName (controllerFile g))\<close>

text \<open>The local constants of \<^verbatim>\<open>generate\<close>.\<close>

definition controllerFilePath :: \<open>util \<Rightarrow> ControllerGen \<Rightarrow> string\<close> where
  \<open>controllerFilePath u g = join u [path g, controllerClassName u g @ ''.ts'']\<close>

definition registryFilePath :: \<open>ControllerGen \<Rightarrow> string\<close> where
  \<open>registryFilePath g = ''src/api/'' @ apiVersion g @ ''/import.ts''\<close>

definition importCode :: \<open>util \<Rightarrow> ControllerGen \<Rightarrow> string\<close> where
  \<open>importCode u g =
     (let relPath = genRelativePath u (''src/api/'' @ apiVersion g) (path g)
      in ''import {'' @ controllerClassName u g @ ''} from "'' @ relPath @ ''/''
         @ controllerClassName u g @ ''";'')\<close>

definition embedCode :: \<open>util \<Rightarrow> ControllerGen \<Rightarrow> string\<close> where
  \<open>embedCode u g = camelCase u (name (config g)) @ '': '' @ controllerClassName u g @ '',''\<close>

text \<open>The two \<^verbatim>\<open>replace\<close> calls that insert the import and the binding at the markers.\<close>

definition insertAtMarkers :: \<open>util \<Rightarrow> ControllerGen \<Rightarrow> string \<Rightarrow> string\<close> where
  \<open>insertAtMarkers u g code =
     replace
       (replace code (Placeholder_Import u)
          (importCode u g @ ''\<newline>'' @ Placeholder_Import u))
       (Placeholder_ExpressController u)
       (embedCode u g @ ''\<newline>'' @ tab2 @ Placeholder_ExpressController u)\<close>

text \<open>
  \<^verbatim>\<open>generate\<close> from the read of the registry file on. \<^verbatim>\<open>readFileSync\<close> throws when the
  file does not exist.
\<close>

definition patchRegistry :: \<open>util \<Rightarrow> ControllerGen \<Rightarrow> world \<Rightarrow> outcome \<times> world\<close> where
  \<open>patchRegistry u g w =
     (case files w (registryFilePath g) of
        None \<Rightarrow> (Threw ENOENT, w)
      | Some code \<Rightarrow>
          if search code (Placeholder_ExpressController u) \<noteq> 0
          then (if indexOf code (importCode u g) \<ge> 0 then (Returned, w)
                else (Returned, writeFile (registryFilePath g) (insertAtMarkers u g code) w))
          else (Returned, w))\<close>

definition generate :: \<open>util \<Rightarrow> ControllerGen \<Rightarrow> world \<Rightarrow> outcome \<times> world\<close> where
  \<open>generate u g0 w0 =
     (case (if model (config g0) \<noteq> [] then addCRUDOperations u g0 else Inr g0) of
        Inl e \<Rightarrow> (Threw e, w0)
      | Inr g \<Rightarrow>
          patchRegistry u g
            (writeFile (controllerFilePath u g) (generateFile u (controllerFile g)) w0))\<close>

text \<open>
  The arguments as \<^verbatim>\<open>ArgParser\<close> hands them to the static \<^verbatim>\<open>init\<close>: the name may be missing,
  and the model is \<^verbatim>\<open>null\<close> when no \<^verbatim>\<open>--model\<close> option was given.
\<close>

record arguments =
  arg_model :: \<open>string option\<close>
  arg_name :: \<open>string option\<close>
  arg_route :: string
  arg_version :: string

definition isLetter :: \<open>char \<Rightarrow> bool\<close> where
  \<open>isLetter c = ((97 \<le> (of_char c :: nat) \<and> (of_char c :: nat) \<le> 122)
                 \<or> (65 \<le> (of_char c :: nat) \<and> (of_char c :: nat) \<le> 90))\<close>

text \<open>\<^verbatim>\<open>/^[a-z]+$/i.exec(s)\<close> finds a match.\<close>

definition matchesName :: \<open>string \<Rightarrow> bool\<close> where
  \<open>matchesName s = (s \<noteq> [] \<and> list_all isLetter s)\<close>

definition invalidNameMessage :: string where
  \<open>invalidNameMessage =
     ''Missing/Invalid controller name\<newline>''
     @ ''See '' @ [CHR 0x27] @ ''vesta gen controller --help'' @ [CHR 0x27]
     @ '' for more information\<newline>''\<close>

definition invalidModelMessage :: string where
  \<open>invalidModelMessage =
     ''Missing/Invalid model name\<newline>''
     @ ''See '' @ [CHR 0x27] @ ''vesta gen controller --help'' @ [CHR 0x27]
     @ '' for more information\<newline>''\<close>

definition init :: \<open>util \<Rightarrow> arguments \<Rightarrow> world \<Rightarrow> outcome \<times> world\<close> where
  \<open>init u a w =
     (case (case arg_name a of
              None \<Rightarrow> None
            | Some n \<Rightarrow> if n \<noteq> [] \<and> matchesName n then Some n else None) of
        None \<Rightarrow>
          (Returned, Log_error invalidNameMessage w)
      | Some n \<Rightarrow>
          (case arg_model a of
             None \<Rightarrow> (Threw TypeError, w)
           | Some m \<Rightarrow>
               if m = ''true''
               then (Returned, Log_error invalidModelMessage w)
               else (let (g, w1) = new_ControllerGen u
                                     \<lparr>model = m, name = n, route = arg_route a,
                                      version = arg_version a\<rparr> w
                     in generate u g w1)))\<close>

section \<open>Sample collaborators\<close>

text \<open>
  Executable stand-ins for the collaborators, to run the generator on examples. On the
  words used below they give what the real ones give: \<^verbatim>\<open>camelCase\<close> lowers and
  \<^verbatim>\<open>pascalCase\<close> raises the first letter of a single word, \<^verbatim>\<open>plural\<close> appends an s, and
  \<^verbatim>\<open>genRelativePath\<close> walks up from one directory and down to the other. The sample schema
  has no fields; examples override the lookups they need.
\<close>

definition lowerFirst :: \<open>string \<Rightarrow> string\<close> where
  \<open>lowerFirst s =
     (case s of
        [] \<Rightarrow> []
      | c # cs \<Rightarrow>
          (case map_of (zip ''ABCDEFGHIJKLMNOPQRSTUVWXYZ'' ''abcdefghijklmnopqrstuvwxyz'') c of
             Some d \<Rightarrow> d | None \<Rightarrow> c) # cs)\<close>

definition upperFirst :: \<open>string \<Rightarrow> string\<close> where
  \<open>upperFirst s =
     (case s of
        [] \<Rightarrow> []
      | c # cs \<Rightarrow>
          (case map_of (zip ''abcdefghijklmnopqrstuvwxyz'' ''ABCDEFGHIJKLMNOPQRSTUVWXYZ'') c of
             Some d \<Rightarrow> d | None \<Rightarrow> c) # cs)\<close>

fun segments :: \<open>string \<Rightarrow> string \<Rightarrow> string list\<close> where
  \<open>segments acc [] = [acc]\<close>
| \<open>segments acc (c # cs) =
     (if c = CHR ''/'' then acc # segments [] cs else segments (acc @ [c]) cs)\<close>

fun dropCommon :: \<open>string list \<Rightarrow> string list \<Rightarrow> string list \<times> string list\<close> where
  \<open>dropCommon (x # xs) (y # ys) = (if x = y then dropCommon xs ys else (x # xs, y # ys))\<close>
| \<open>dropCommon xs ys = (xs, ys)\<close>

definition relativePath :: \<open>string \<Rightarrow> string \<Rightarrow> string\<close> where
  \<open>relativePath from to =
     (let (up, down) = dropCommon (segments [] from) (segments [] to);
          rel = joinWith ''/'' (map (\<lambda>_. ''..'') up @ down)
      in case rel of
           [] \<Rightarrow> ''./''
         | c # cs \<Rightarrow> if c = CHR ''.'' then rel else ''./'' @ rel)\<close>

definition sampleUtil :: util where
  \<open>sampleUtil =
     \<lparr>camelCase = lowerFirst,
      pascalCase = upperFirst,
      plural = (\<lambda>s. s @ ''s''),
      genRelativePath = relativePath,
      join = joinWith ''/'',
      getFieldsByType = (\<lambda>m t. None),
      getFieldMeta = (\<lambda>m f. \<lparr>relation = None\<rparr>),
      getConfidentialFields = (\<lambda>m. []),
      getOwnerVerifiedFields = (\<lambda>m. []),
      generateFile = (\<lambda>f. concat (concat (map content (methods f)))),
      classNameOf = (\<lambda>n. n),
      Placeholder_Import = ''///<vesta:import/>'',
      Placeholder_ExpressController = ''///<vesta:expressController/>''\<rparr>\<close>

definition emptyWorld :: world where
  \<open>emptyWorld = \<lparr>files = Map.empty, writes = [], dirs = [], errors = []\<rparr>\<close>

section \<open>Example inputs\<close>

definition letters :: string where
  \<open>letters = ''abcdefghijklmnopqrstuvwxyz'' @ ''ABCDEFGHIJKLMNOPQRSTUVWXYZ''\<close>

text \<open>
  A model \<^verbatim>\<open>User\<close> whose field \<^verbatim>\<open>password\<close> is confidential, and the generator for
  \<^verbatim>\<open>vesta gen controller profile --model=User --route=account\<close> once
  \<^verbatim>\<open>addCRUDOperations\<close> has loaded the confidential fields.
\<close>

definition passwordUtil :: util where
  \<open>passwordUtil = sampleUtil\<lparr>getConfidentialFields := (\<lambda>m. [''password''])\<rparr>\<close>

definition profileConfig :: IControllerConfig where
  \<open>profileConfig = \<lparr>model = ''User'', name = ''profile'', route = ''account'', version = ''v1''\<rparr>\<close>

definition passwordGen :: ControllerGen where
  \<open>passwordGen =
     (fst (new_ControllerGen passwordUtil profileConfig emptyWorld))
     \<lparr>confidentialFields := getConfidentialFields passwordUtil ''User''\<rparr>\<close>

text \<open>A model \<^verbatim>\<open>User\<close> with one File-typed field, \<^verbatim>\<open>avatar\<close>.\<close>

definition avatarUtil :: util where
  \<open>avatarUtil =
     sampleUtil\<lparr>getFieldsByType :=
       (\<lambda>m t. if t = FT_File
              then Some [(''avatar'', \<lparr>fieldName = ''avatar'', properties_type = FT_File\<rparr>)]
              else None)\<rparr>\<close>

definition avatarGen :: ControllerGen where
  \<open>avatarGen = fst (new_ControllerGen avatarUtil profileConfig emptyWorld)\<close>

text \<open>No statement of a handler body mentions \<open>pat\<close>.\<close>

definition mentions :: \<open>string \<Rightarrow> MethodGen \<Rightarrow> bool\<close> where
  \<open>mentions pat m = (firstIndex pat (concat (content m)) \<noteq> None)\<close>

text \<open>
  A model \<^verbatim>\<open>Post\<close> with the two owner-verified scalar fields \<^verbatim>\<open>userId\<close> and \<^verbatim>\<open>ownerId\<close>,
  and the generator for \<^verbatim>\<open>vesta gen controller post --model=Post --route=blog\<close> once
  \<^verbatim>\<open>addCRUDOperations\<close> has loaded the owner-verified fields.
\<close>

definition ownersUtil :: util where
  \<open>ownersUtil = sampleUtil\<lparr>getOwnerVerifiedFields := (\<lambda>m. [''userId'', ''ownerId''])\<rparr>\<close>

definition postConfig :: IControllerConfig where
  \<open>postConfig = \<lparr>model = ''Post'', name = ''post'', route = ''blog'', version = ''v1''\<rparr>\<close>

definition ownersGen :: ControllerGen where
  \<open>ownersGen =
     (fst (new_ControllerGen ownersUtil postConfig emptyWorld))
     \<lparr>ownerVerifiedFields := getOwnerVerifiedFields ownersUtil ''Post''\<rparr>\<close>

text \<open>
  The comparison the ownership clause is to make for one owner-verified scalar field of
  the retrieved record.
\<close>

definition ownerComparison :: \<open>string \<Rightarrow> string\<close> where
  \<open>ownerComparison f = ''result.items[0].'' @ f @ '' !== authUser.id''\<close>

section \<open>Clauses of the update handler\<close>

text \<open>
  The statements of the update handler that the ordering claim is about, as the template
  of \<^verbatim>\<open>getUpdateCode\<close> spells them: the assignment of the owner-verified fields for
  non-admin requests, the validation with its throw, the lookup of the stored record, the
  throw of the guard that follows it, and the update.
\<close>

definition updateInstanceName :: \<open>util \<Rightarrow> ControllerGen \<Rightarrow> string\<close> where
  \<open>updateInstanceName u g = camelCase u (pascalCase u (model (config g)))\<close>

definition ownerAssignClause :: \<open>util \<Rightarrow> ControllerGen \<Rightarrow> string\<close> where
  \<open>ownerAssignClause u g =
     ''if (!isAdmin) {\<newline>'' @ tab3
     @ joinWith (''\<newline>'' @ tab3)
         (map (\<lambda>f. updateInstanceName u g @ ''.'' @ f @ '' = authUser.id;'')
              (rev (ownerVerifiedFields g)))
     @ ''\<newline>'' @ tab2 @ ''}''\<close>

definition validationClause :: \<open>util \<Rightarrow> ControllerGen \<Rightarrow> string\<close> where
  \<open>validationClause u g =
     ''const validationError = '' @ updateInstanceName u g @ ''.validate();\<newline>''
     @ ''        if (validationError) {\<newline>''
     @ ''            throw new ValidationError(validationError);\<newline>''
     @ ''        }''\<close>

definition lookupClause :: \<open>util \<Rightarrow> ControllerGen \<Rightarrow> string\<close> where
  \<open>lookupClause u g =
     ''const result = await '' @ pascalCase u (model (config g)) @ ''.find<I''
     @ pascalCase u (model (config g)) @ ''>('' @ updateInstanceName u g @ ''.id);''\<close>

definition noRecordThrow :: string where
  \<open>noRecordThrow = ''throw new DatabaseError(Err.Code.DBNoRecord, null);''\<close>

definition persistClause :: \<open>util \<Rightarrow> ControllerGen \<Rightarrow> string\<close> where
  \<open>persistClause u g =
     ''const uResult = await '' @ updateInstanceName u g @ ''.update<I''
     @ pascalCase u (model (config g)) @ ''>();''\<close>

text \<open>Both texts occur in \<open>t\<close>, and the first occurrence of \<open>a\<close> comes before that of \<open>b\<close>.\<close>

definition occursBefore :: \<open>string \<Rightarrow> string \<Rightarrow> string \<Rightarrow> bool\<close> where
  \<open>occursBefore a b t =
     (case (firstIndex a t, firstIndex b t) of
        (Some i, Some j) \<Rightarrow> i < j
      | _ \<Rightarrow> False)\<close>

text \<open>The texts the generator emits for the model \<^verbatim>\<open>Post\<close> above.\<close>

definition ownersDetailText :: string where
  \<open>ownersDetailText =
     ''const authUser = this.getUserFromSession(req);\<newline>''
     @ ''        const isAdmin = this.isAdmin(authUser);\<newline>'' @ tab2
     @ ''const id = this.retrieveId(req);\<newline>''
     @ ''        const result = await Post.find<IPost>(id);\<newline>''
     @ ''        if (!result.items.length || (!isAdmin && (''
     @ ''result.items[0].userId,ownerId !== authUser.id''
     @ '' || ''
     @ ''result.items[0].userId,ownerId !== authUser.id''
     @ ''))) {\<newline>''
     @ ''            throw new DatabaseError(Err.Code.DBNoRecord, null);\<newline>''
     @ ''        }\<newline>''
     @ ''        res.json(result);''\<close>

definition ownersDeleteText :: string where
  \<open>ownersDeleteText =
     ''const authUser = this.getUserFromSession(req);\<newline>''
     @ ''        const isAdmin = this.isAdmin(authUser);\<newline>'' @ tab2
     @ ''const id = this.retrieveId(req);\<newline>''
     @ ''        const result = await Post.find<IPost>(id);\<newline>''
     @ ''        if (!isAdmin && (!result.items.length || ''
     @ ''result.items[0].userId,ownerId !== authUser.id''
     @ '' || ''
     @ ''result.items[0].userId,ownerId !== authUser.id''
     @ '')) {\<newline>''
     @ ''            throw new DatabaseError(Err.Code.DBNoRecord, null);\<newline>''
     @ ''        }\<newline>''
     @ ''        const post = new Post(result.items[0]);\<newline>''
     @ ''        const dResult = await post.remove();\<newline>''
     @ ''        res.json(dResult);''\<close>

definition ownersUpdateText :: string where
  \<open>ownersUpdateText =
     ''const authUser = this.getUserFromSession(req);\<newline>''
     @ ''        const isAdmin = this.isAdmin(authUser);\<newline>'' @ tab2
     @ ''const post = new Post(req.body);\<newline>'' @ tab2
     @ ''if (!isAdmin) {\<newline>'' @ tab3
     @ ''post.ownerId = authUser.id;\<newline>'' @ tab3
     @ ''post.userId = authUser.id;\<newline>'' @ tab2
     @ ''}\<newline>''
     @ ''        const validationError = post.validate();\<newline>''
     @ ''        if (validationError) {\<newline>''
     @ ''            throw new ValidationError(validationError);\<newline>''
     @ ''        }\<newline>''
     @ ''        const result = await Post.find<IPost>(post.id);\<newline>''
     @ ''        if (!result.items.length || (!isAdmin && (post.ownerId !== authUser.id || post.userId !== authUser.id))) {\<newline>''
     @ ''            throw new DatabaseError(Err.Code.DBNoRecord, null);\<newline>''
     @ ''        }\<newline>''
     @ ''        const uResult = await post.update<IPost>();\<newline>''
     @ ''        res.json(uResult);''\<close>

text \<open>The text of the upload handler for the model \<^verbatim>\<open>User\<close> with the File field \<^verbatim>\<open>avatar\<close>.\<close>

definition avatarUploadText :: string where
  \<open>avatarUploadText =
     ''const id = this.retrieveId(req);\<newline>''
     @ ''        const destDirectory = join(this.config.dir.upload, "user");\<newline>''
     @ ''        const result = await User.find<IUser>(id);\<newline>''
     @ ''        if (result.items.length !== 1) {\<newline>''
     @ ''            throw new Err(Err.Code.DBRecordCount, "User not found");\<newline>''
     @ ''        }\<newline>''
     @ ''        const user = new User(result.items[0]);\<newline>''
     @ ''        const uploader = new FileUploader<IUser>(true);\<newline>''
     @ ''        await uploader.parse(req);\<newline>''
     @ ''        const upl = await uploader.upload(destDirectory);\<newline>''
     @ ''        const oldFileName = user.avatar;\<newline>''
     @ ''        user.avatar = upl.avatar;\<newline>''
     @ ''        if (oldFileName) {\<newline>''
     @ ''            await FileUploader.checkAndDeleteFile(`${destDirectory}/${oldFileName}`);\<newline>''
     @ ''        }\<newline>''
     @ ''        const uResult = await user.update();\<newline>''
     @ ''        res.json(uResult);''\<close>

text \<open>A registry file with both markers, and a world that holds it.\<close>

definition sampleRegistry :: string where
  \<open>sampleRegistry =
     ''import {IndexController} from "./controller/IndexController";\<newline>''
     @ ''///<vesta:import/>\<newline>''
     @ ''\<newline>''
     @ ''export const controllers = {\<newline>'' @ tab2
     @ ''index: IndexController,\<newline>'' @ tab2
     @ ''///<vesta:expressController/>\<newline>''
     @ ''};\<newline>''\<close>

definition registryWorld :: \<open>string \<Rightarrow> world\<close> where
  \<open>registryWorld r = emptyWorld\<lparr>files := [''src/api/v1/import.ts'' \<mapsto> r]\<rparr>\<close>

definition sampleWorld :: world where
  \<open>sampleWorld = registryWorld sampleRegistry\<close>

text \<open>
  The generator for \<^verbatim>\<open>vesta gen controller profile --model=User --route=account\<close> on the
  sample schema, and the import statement it adds to the registry.
\<close>

definition profileGen :: ControllerGen where
  \<open>profileGen = fst (new_ControllerGen sampleUtil profileConfig emptyWorld)\<close>




definition bindingOnlyRegistry :: string where
  \<open>bindingOnlyRegistry =
     ''export const controllers = {\<newline>'' @ tab2
     @ ''///<vesta:expressController/>\<newline>''
     @ ''};\<newline>''\<close>

definition onceBoundRegistry :: string where
  \<open>onceBoundRegistry =
     ''export const controllers = {\<newline>'' @ tab2
     @ ''profile: ProfileController,\<newline>'' @ tab2
     @ ''///<vesta:expressController/>\<newline>''
     @ ''};\<newline>''\<close>

definition twiceBoundRegistry :: string where
  \<open>twiceBoundRegistry =
     ''export const controllers = {\<newline>'' @ tab2
     @ ''profile: ProfileController,\<newline>'' @ tab2
     @ ''profile: ProfileController,\<newline>'' @ tab2
     @ ''///<vesta:expressController/>\<newline>''
     @ ''};\<newline>''\<close>

text \<open>The sample registry after the controller \<^verbatim>\<open>profile\<close> has been registered.\<close>

definition registeredRegistry :: string where
  \<open>registeredRegistry =
     ''import {IndexController} from "./controller/IndexController";\<newline>''
     @ ''import {ProfileController} from "./controller/account/ProfileController";\<newline>''
     @ ''///<vesta:import/>\<newline>''
     @ ''\<newline>''
     @ ''export const controllers = {\<newline>'' @ tab2
     @ ''index: IndexController,\<newline>'' @ tab2
     @ ''profile: ProfileController,\<newline>'' @ tab2
     @ ''///<vesta:expressController/>\<newline>''
     @ ''};\<newline>''\<close>

text \<open>The pattern \<^verbatim>\<open>^[a-z]+$\<close>, read case-sensitively.\<close>

definition matchesLowercase :: \<open>string \<Rightarrow> bool\<close> where
  \<open>matchesLowercase s = (s \<noteq> [] \<and> list_all (\<lambda>c. c \<in> set ''abcdefghijklmnopqrstuvwxyz'') s)\<close>

text \<open>
  What an example looks at in a generator after \<^verbatim>\<open>addCRUDOperations\<close>: the confidential
  fields it loaded, and for each method of the class its name and whether its body
  contains a \<^verbatim>\<open>delete\<close> statement.
\<close>

definition handlerSummary :: \<open>ControllerGen \<Rightarrow> string list \<times> (string \<times> bool) list\<close> where
  \<open>handlerSummary g =
     (confidentialFields g,
      map (\<lambda>m. (methodName m, mentions ''delete '' m)) (methods (controllerFile g)))\<close>

text \<open>What an example looks at after a run: the outcome, the error log and the files written.\<close>

definition runSummary :: \<open>outcome \<times> world \<Rightarrow> outcome \<times> string list \<times> string list\<close> where
  \<open>runSummary r = (fst r, errors (snd r), map fst (writes (snd r)))\<close>

section \<open>Notions used in the statements\<close>

text \<open>
  \<open>g'\<close> is \<open>g\<close> up to the controller file, which keeps its name: the settings of the
  generator are the same.
\<close>

definition sameSettings :: \<open>ControllerGen \<Rightarrow> ControllerGen \<Rightarrow> bool\<close> where
  \<open>sameSettings g g' \<longleftrightarrow>
     config g' = config g \<and> apiVersion g' = apiVersion g \<and> path g' = path g
     \<and> rawName g' = rawName g \<and> routingPath g' = routingPath g
     \<and> filesFields g' = filesFields g \<and> relationsFields g' = relationsFields g
     \<and> ownerVerifiedFields g' = ownerVerifiedFields g
     \<and> confidentialFields g' = confidentialFields g
     \<and> fileName (controllerFile g') = fileName (controllerFile g)\<close>

text \<open>\<open>g'\<close> is \<open>g\<close> up to the imports asked of the controller file.\<close>

definition sameUpToImports :: \<open>ControllerGen \<Rightarrow> ControllerGen \<Rightarrow> bool\<close> where
  \<open>sameUpToImports g g' \<longleftrightarrow>
     sameSettings g g' \<and> methods (controllerFile g') = methods (controllerFile g)\<close>

text \<open>The statements of the \<^verbatim>\<open>route\<close> method.\<close>

definition routeContent :: \<open>ControllerGen \<Rightarrow> string list\<close> where
  \<open>routeContent g = (case routeMethod g of None \<Rightarrow> [] | Some m \<Rightarrow> content m)\<close>

text \<open>
  A route entry of the route plan: HTTP verb, URL path, ACL action and the name of the
  handler method; and the statement that registers it, wrapped with the access-control
  middleware for the dotted identifier \<open>acl\<close>.
\<close>

datatype HttpVerb = GET | POST | PUT | DELETE

datatype AclAction = Read | Add | Edit | Delete

record RouteEntry =
  httpVerb :: HttpVerb
  urlPath :: string
  aclAction :: AclAction
  handler :: string

definition verbMethod :: \<open>HttpVerb \<Rightarrow> string\<close> where
  \<open>verbMethod v = (case v of GET \<Rightarrow> ''get'' | POST \<Rightarrow> ''post'' | PUT \<Rightarrow> ''put''
                    | DELETE \<Rightarrow> ''delete'')\<close>

definition actionName :: \<open>AclAction \<Rightarrow> string\<close> where
  \<open>actionName a = (case a of Read \<Rightarrow> ''AclAction.Read'' | Add \<Rightarrow> ''AclAction.Add''
                    | Edit \<Rightarrow> ''AclAction.Edit'' | Delete \<Rightarrow> ''AclAction.Delete'')\<close>

definition routeStatement :: \<open>string \<Rightarrow> RouteEntry \<Rightarrow> string\<close> where
  \<open>routeStatement acl e =
     ''router.'' @ verbMethod (httpVerb e) @ ''("'' @ urlPath e @ ''", this.checkAcl("'' @ acl
     @ ''", '' @ actionName (aclAction e) @ ''), this.wrap(this.'' @ handler e @ ''));''\<close>

text \<open>
  The route base normalized to a leading slash, with the lower-camel-cased controller
  name appended as the final segment and repeated slashes collapsed.
\<close>

definition normalizedPath :: \<open>util \<Rightarrow> IControllerConfig \<Rightarrow> string\<close> where
  \<open>normalizedPath u cfg =
     replaceSlashRuns 2 ''/''
       ((if prefix ''/'' (route cfg) then route cfg else ''/'' @ route cfg)
        @ ''/'' @ camelCase u (name cfg))\<close>

text \<open>The route table of the specification for a model class name and a path.\<close>

definition routeTable :: \<open>util \<Rightarrow> string \<Rightarrow> string \<Rightarrow> bool \<Rightarrow> RouteEntry list\<close> where
  \<open>routeTable u modelClassName p hasFiles =
     [\<lparr>httpVerb = GET, urlPath = p @ ''/count'', aclAction = Read,
       handler = ''get'' @ modelClassName @ ''Count''\<rparr>,
      \<lparr>httpVerb = GET, urlPath = p @ ''/:id'', aclAction = Read,
       handler = ''get'' @ modelClassName\<rparr>,
      \<lparr>httpVerb = GET, urlPath = p, aclAction = Read,
       handler = ''get'' @ plural u modelClassName\<rparr>,
      \<lparr>httpVerb = POST, urlPath = p, aclAction = Add,
       handler = ''add'' @ modelClassName\<rparr>,
      \<lparr>httpVerb = PUT, urlPath = p, aclAction = Edit,
       handler = ''update'' @ modelClassName\<rparr>,
      \<lparr>httpVerb = DELETE, urlPath = p @ ''/:id'', aclAction = Delete,
       handler = ''remove'' @ modelClassName\<rparr>]
     @ (if hasFiles
        then [\<lparr>httpVerb = POST, urlPath = p @ ''/file/:id'', aclAction = Edit,
               handler = ''upload''\<rparr>]
        else [])\<close>

text \<open>
  The outcome of the first step of \<^verbatim>\<open>generate\<close>: the CRUD operations are added when the
  configuration names a model.
\<close>

definition crudResult :: \<open>util \<Rightarrow> ControllerGen \<Rightarrow> exn + ControllerGen\<close> where
  \<open>crudResult u g = (if model (config g) \<noteq> [] then addCRUDOperations u g else Inr g)\<close>

text \<open>The texts written to the file \<open>p\<close>, in the order of the writes.\<close>

definition writesTo :: \<open>string \<Rightarrow> world \<Rightarrow> string list\<close> where
  \<open>writesTo p w = map snd (filter (\<lambda>e. fst e = p) (writes w))\<close>

text \<open>
  The registry after a run of \<^verbatim>\<open>generate\<close> that found it with the content \<open>code\<close>.
\<close>

definition patchedRegistry :: \<open>util \<Rightarrow> ControllerGen \<Rightarrow> string \<Rightarrow> string\<close> where
  \<open>patchedRegistry u g code =
     (if search code (Placeholder_ExpressController u) \<noteq> 0 \<and> indexOf code (importCode u g) < 0
      then insertAtMarkers u g code else code)\<close>

text \<open>
  The same command with the route base \<^verbatim>\<open>__ACTION__\<close>, and the statements the generator
  appends to the \<^verbatim>\<open>route\<close> method for it.
\<close>

definition actionConfig :: IControllerConfig where
  \<open>actionConfig =
     \<lparr>model = ''User'', name = ''profile'', route = ''__ACTION__'', version = ''v1''\<rparr>\<close>

definition actionGen :: ControllerGen where
  \<open>actionGen = fst (new_ControllerGen sampleUtil actionConfig emptyWorld)\<close>

definition actionRouteLines :: \<open>string list\<close> where
  \<open>actionRouteLines =
     [''router.get("/__ACTION__/profile/count", this.checkAcl("AclAction.Read.profile", __ACTION__), this.wrap(this.getUserCount));'',
      ''router.get("/__ACTION__/profile/:id", this.checkAcl("AclAction.Read.profile", __ACTION__), this.wrap(this.getUser));'',
      ''router.get("/__ACTION__/profile", this.checkAcl("AclAction.Read.profile", __ACTION__), this.wrap(this.getUsers));'',
      ''router.post("/__ACTION__/profile", this.checkAcl("AclAction.Add.profile", __ACTION__), this.wrap(this.addUser));'',
      ''router.put("/__ACTION__/profile", this.checkAcl("AclAction.Edit.profile", __ACTION__), this.wrap(this.updateUser));'',
      ''router.delete("/__ACTION__/profile/:id", this.checkAcl("AclAction.Delete.profile", __ACTION__), this.wrap(this.removeUser));'']\<close>

text \<open>The statements for the route base \<^verbatim>\<open>account\<close>, and with the File field \<^verbatim>\<open>avatar\<close>.\<close>

definition profileRouteLines :: \<open>string list\<close> where
  \<open>profileRouteLines =
     [''router.get("/account/profile/count", this.checkAcl("account.profile", AclAction.Read), this.wrap(this.getUserCount));'',
      ''router.get("/account/profile/:id", this.checkAcl("account.profile", AclAction.Read), this.wrap(this.getUser));'',
      ''router.get("/account/profile", this.checkAcl("account.profile", AclAction.Read), this.wrap(this.getUsers));'',
      ''router.post("/account/profile", this.checkAcl("account.profile", AclAction.Add), this.wrap(this.addUser));'',
      ''router.put("/account/profile", this.checkAcl("account.profile", AclAction.Edit), this.wrap(this.updateUser));'',
      ''router.delete("/account/profile/:id", this.checkAcl("account.profile", AclAction.Delete), this.wrap(this.removeUser));'']\<close>

definition uploadRouteLine :: string where
  \<open>uploadRouteLine =
     ''router.post("/account/profile/file/:id", this.checkAcl("account.profile", AclAction.Edit), this.wrap(this.upload));''\<close>

text \<open>
  A model \<^verbatim>\<open>User\<close> with the two File-typed fields \<^verbatim>\<open>avatar\<close> and \<^verbatim>\<open>cover\<close>, and the text
  of its upload handler.
\<close>

definition twoFilesUtil :: util where
  \<open>twoFilesUtil =
     sampleUtil\<lparr>getFieldsByType :=
       (\<lambda>m t. if t = FT_File
              then Some [(''avatar'', \<lparr>fieldName = ''avatar'', properties_type = FT_File\<rparr>),
                         (''cover'', \<lparr>fieldName = ''cover'', properties_type = FT_File\<rparr>)]
              else None)\<rparr>\<close>

definition twoFilesGen :: ControllerGen where
  \<open>twoFilesGen = fst (new_ControllerGen twoFilesUtil profileConfig emptyWorld)\<close>

definition twoFilesUploadText :: string where
  \<open>twoFilesUploadText =
     ''const id = this.retrieveId(req);\<newline>''
     @ ''        const destDirectory = join(this.config.dir.upload, "user");\<newline>''
     @ ''        const result = await User.find<IUser>(id);\<newline>''
     @ ''        if (result.items.length !== 1) {\<newline>''
     @ ''            throw new Err(Err.Code.DBRecordCount, "User not found");\<newline>''
     @ ''        }\<newline>''
     @ ''        const user = new User(result.items[0]);\<newline>''
     @ ''        const uploader = new FileUploader<IUser>(true);\<newline>''
     @ ''        await uploader.parse(req);\<newline>''
     @ ''        const upl = await uploader.upload(destDirectory);\<newline>''
     @ ''        const delList: Array<Promise<string>> = [];\<newline>''
     @ ''        if (upl.avatar) {\<newline>''
     @ ''            const oldAvatar = user.avatar;\<newline>''
     @ ''            delList.push(FileUploader.checkAndDeleteFile(`${destDirectory}/${oldAvatar}`)\<newline>''
     @ ''                .then(() => user.avatar = upl.avatar as string));\<newline>''
     @ ''        }\<newline>''
     @ ''        if (upl.cover) {\<newline>''
     @ ''            const oldCover = user.cover;\<newline>''
     @ ''            delList.push(FileUploader.checkAndDeleteFile(`${destDirectory}/${oldCover}`)\<newline>''
     @ ''                .then(() => user.cover = upl.cover as string));\<newline>''
     @ ''        }\<newline>''
     @ ''        await Promise.all(delList);\<newline>''
     @ ''        const uResult = await user.update();\<newline>''
     @ ''        res.json(uResult);''\<close>

section \<open>Further example inputs\<close>

text \<open>
  The command \<^verbatim>\<open>vesta gen controller simple --model= --route=account\<close>: the option
  \<^verbatim>\<open>--model\<close> is given with an empty value. The generator it constructs, and for each
  method of a class its name with the statements of its body.
\<close>

definition simpleArgs :: arguments where
  \<open>simpleArgs = \<lparr>arg_model = Some [], arg_name = Some ''simple'', arg_route = ''account'',
                  arg_version = ''v1''\<rparr>\<close>

definition simpleConfig :: IControllerConfig where
  \<open>simpleConfig = \<lparr>model = [], name = ''simple'', route = ''account'', version = ''v1''\<rparr>\<close>

definition simpleGen :: ControllerGen where
  \<open>simpleGen = fst (new_ControllerGen sampleUtil simpleConfig sampleWorld)\<close>

definition methodBodies :: \<open>ControllerGen \<Rightarrow> (string \<times> string list) list\<close> where
  \<open>methodBodies g = map (\<lambda>m. (methodName m, content m)) (methods (controllerFile g))\<close>

text \<open>The same command for the model \<^verbatim>\<open>User\<close> with the names \<^verbatim>\<open>Zed\<close> and \<^verbatim>\<open>profile2\<close>.\<close>

definition zedArgs :: arguments where
  \<open>zedArgs = \<lparr>arg_model = Some ''User'', arg_name = Some ''Zed'', arg_route = ''account'',
               arg_version = ''v1''\<rparr>\<close>

definition digitArgs :: arguments where
  \<open>digitArgs = \<lparr>arg_model = Some ''User'', arg_name = Some ''profile2'',
                 arg_route = ''account'', arg_version = ''v1''\<rparr>\<close>

text \<open>
  The generator for \<^verbatim>\<open>vesta gen controller profile --model=User --route='p$$q'\<close>, and the
  sample registry after one and after two runs of it.
\<close>

definition dollarGen :: ControllerGen where
  \<open>dollarGen =
     fst (new_ControllerGen sampleUtil (profileConfig\<lparr>route := ''p$$q''\<rparr>) emptyWorld)\<close>

definition dollarImport :: string where
  \<open>dollarImport = ''import {ProfileController} from "./controller/p$$q/ProfileController";''\<close>

definition dollarOnceRegistry :: string where
  \<open>dollarOnceRegistry =
     ''import {IndexController} from "./controller/IndexController";\<newline>''
     @ ''import {ProfileController} from "./controller/p$q/ProfileController";\<newline>''
     @ ''///<vesta:import/>\<newline>''
     @ ''\<newline>''
     @ ''export const controllers = {\<newline>'' @ tab2
     @ ''index: IndexController,\<newline>'' @ tab2
     @ ''profile: ProfileController,\<newline>'' @ tab2
     @ ''///<vesta:expressController/>\<newline>''
     @ ''};\<newline>''\<close>

definition dollarTwiceRegistry :: string where
  \<open>dollarTwiceRegistry =
     ''import {IndexController} from "./controller/IndexController";\<newline>''
     @ ''import {ProfileController} from "./controller/p$q/ProfileController";\<newline>''
     @ ''import {ProfileController} from "./controller/p$q/ProfileController";\<newline>''
     @ ''///<vesta:import/>\<newline>''
     @ ''\<newline>''
     @ ''export const controllers = {\<newline>'' @ tab2
     @ ''index: IndexController,\<newline>'' @ tab2
     @ ''profile: ProfileController,\<newline>'' @ tab2
     @ ''profile: ProfileController,\<newline>'' @ tab2
     @ ''///<vesta:expressController/>\<newline>''
     @ ''};\<newline>''\<close>

text \<open>
  The names that \<^verbatim>\<open>getUploadCode\<close> interpolates into the handler: the model name, the
  instance name, the names of the File-typed fields and their Pascal-case forms. A plain
  name is an identifier that contains neither \<^verbatim>\<open>authUser\<close> nor \<^verbatim>\<open>isAdmin\<close>.
\<close>

definition isIdentifierChar :: \<open>char \<Rightarrow> bool\<close> where
  \<open>isIdentifierChar c = (isLetter c \<or> c \<in> set ''0123456789_$'')\<close>

definition plainName :: \<open>string \<Rightarrow> bool\<close> where
  \<open>plainName n \<longleftrightarrow>
     list_all isIdentifierChar n
     \<and> firstIndex ''authUser'' n = None \<and> firstIndex ''isAdmin'' n = None\<close>

definition uploadNames :: \<open>util \<Rightarrow> ControllerGen \<Rightarrow> string list\<close> where
  \<open>uploadNames u g =
     (let modelName = pascalCase u (model (config g));
          fileNames = (case filesFields g of None \<Rightarrow> [] | Some ff \<Rightarrow> keys ff)
      in modelName # camelCase u modelName # fileNames @ map (pascalCase u) fileNames)\<close>

text \<open>
  The model \<^verbatim>\<open>User\<close> with the File field \<^verbatim>\<open>avatar\<close>, the confidential field \<^verbatim>\<open>password\<close>
  and the owner-verified field \<^verbatim>\<open>userId\<close>.
\<close>

definition guardedAvatarUtil :: util where
  \<open>guardedAvatarUtil =
     avatarUtil\<lparr>getConfidentialFields := (\<lambda>m. [''password'']),
                getOwnerVerifiedFields := (\<lambda>m. [''userId''])\<rparr>\<close>

definition guardedAvatarGen :: ControllerGen where
  \<open>guardedAvatarGen =
     avatarGen\<lparr>confidentialFields := [''password''], ownerVerifiedFields := [''userId'']\<rparr>\<close>

section \<open>Properties\<close>

subsection \<open>Helper facts\<close>

lemma isLetter_iff: \<open>isLetter c \<longleftrightarrow> c \<in> set letters\<close>
  by (cases c) (simp add: isLetter_def letters_def)

lemma uploadFieldBlock_schema:
  \<open>uploadFieldBlock (u\<lparr>getConfidentialFields := cf', getOwnerVerifiedFields := ovf'\<rparr>) mi
   = uploadFieldBlock u mi\<close>
  by (rule ext) (simp add: uploadFieldBlock_def)

lemma own_fields_never_deleted:
  \<open>relationsFields g = None \<Longrightarrow> getConfFieldRemovingCode u g single = Inr ([], g)\<close>
  by (simp add: getConfFieldRemovingCode_def Let_def)

subsection \<open>Redaction of confidential fields\<close>

text \<open>
  C1. For a model with confidential fields, every response-producing handler is to delete
  those fields from every item of the result. At the model \<^verbatim>\<open>User\<close> with the confidential
  field \<^verbatim>\<open>password\<close> and no relation fields, the redaction clause is empty for single
  records and for collections, and none of the handlers \<^verbatim>\<open>addCRUDOperations\<close> synthesizes
  contains a \<^verbatim>\<open>delete\<close> statement: the loop that emits them runs only when the list of
  confidential fields is empty.
\<close>

theorem confidential_field_not_deleted:
  \<open>confidentialFields passwordGen = [''password'']
   \<and> getConfFieldRemovingCode passwordUtil passwordGen True = Inr ([], passwordGen)
   \<and> getConfFieldRemovingCode passwordUtil passwordGen False = Inr ([], passwordGen)
   \<and> map_sum id handlerSummary
         (addCRUDOperations passwordUtil
            (fst (new_ControllerGen passwordUtil profileConfig emptyWorld)))
       = Inr ([''password''],
              [(''route'', False), (''getUserCount'', False), (''getUser'', False),
               (''getUsers'', False), (''addUser'', False), (''updateUser'', False),
               (''removeUser'', False)])\<close>
  by code_simp

subsection \<open>The upload handler\<close>

text \<open>
  C4. Prior-file deletion in the upload handler is to be failure-isolated: logged, not
  fatal. The handler emitted for a model with the single File field \<^verbatim>\<open>avatar\<close> awaits
  \<^verbatim>\<open>FileUploader.checkAndDeleteFile\<close> with no \<^verbatim>\<open>try\<close>/\<^verbatim>\<open>catch\<close> around it and no log call, so
  a rejected deletion leaves the handler before the record is updated and the response
  sent. For the two File fields \<^verbatim>\<open>avatar\<close> and \<^verbatim>\<open>cover\<close> the deletions are collected as
  promises without a \<^verbatim>\<open>catch\<close> and awaited with \<^verbatim>\<open>Promise.all\<close>, which rejects as soon as
  one of them does. The delete handler of the same generator does wrap each deletion in
  \<^verbatim>\<open>try\<close>/\<^verbatim>\<open>catch\<close> and logs a warning.
\<close>

theorem upload_single_file_unguarded:
  \<open>map_sum id fst (getUploadCode avatarUtil avatarGen) = Inr avatarUploadText
   \<and> firstIndex ''catch'' avatarUploadText = None
   \<and> firstIndex ''req.log'' avatarUploadText = None
   \<and> map_sum id fst (getUploadCode twoFilesUtil twoFilesGen) = Inr twoFilesUploadText
   \<and> firstIndex ''catch'' twoFilesUploadText = None
   \<and> firstIndex ''req.log'' twoFilesUploadText = None\<close>
  by code_simp

subsection \<open>Argument validation\<close>

text \<open>
  C8, as stated: with a valid name and no \<^verbatim>\<open>--model\<close> option \<^verbatim>\<open>init\<close> throws a TypeError, and
  a plain controller without a model can never be generated through \<^verbatim>\<open>init\<close>. The command
  \<^verbatim>\<open>vesta gen controller simple --model= --route=account\<close> hands \<^verbatim>\<open>init\<close> the empty string
  as the model: \<^verbatim>\<open>init\<close> constructs the generator and runs \<^verbatim>\<open>generate\<close>, which skips
  \<^verbatim>\<open>addCRUDOperations\<close>, logs nothing and writes the controller and the registry. The
  class it writes has the method \<^verbatim>\<open>route\<close> alone, with an empty body.
\<close>

theorem empty_model_generates_plain_controller:
  \<open>arg_name simpleArgs = Some ''simple''
   \<and> matchesName ''simple''
   \<and> arg_model simpleArgs = Some []
   \<and> init sampleUtil simpleArgs sampleWorld
       = generate sampleUtil simpleGen
           (snd (new_ControllerGen sampleUtil simpleConfig sampleWorld))
   \<and> model (config simpleGen) = []
   \<and> methodBodies simpleGen = [(''route'', [])]
   \<and> runSummary (init sampleUtil simpleArgs sampleWorld)
       = (Returned, [],
          [''src/api/v1/controller/account/SimpleController.ts'', ''src/api/v1/import.ts''])\<close>
proof -
  have run: \<open>init sampleUtil simpleArgs sampleWorld
       = generate sampleUtil simpleGen
           (snd (new_ControllerGen sampleUtil simpleConfig sampleWorld))\<close>
    by (simp add: init_def simpleArgs_def simpleGen_def simpleConfig_def split_beta
          matchesName_def isLetter_def)
  have \<open>arg_name simpleArgs = Some ''simple''
   \<and> matchesName ''simple''
   \<and> arg_model simpleArgs = Some []
   \<and> model (config simpleGen) = []
   \<and> methodBodies simpleGen = [(''route'', [])]
   \<and> runSummary (init sampleUtil simpleArgs sampleWorld)
       = (Returned, [],
          [''src/api/v1/controller/account/SimpleController.ts'', ''src/api/v1/import.ts''])\<close>
    by code_simp
  with run show ?thesis
    by blast
qed

text \<open>
  C8, amended. With a valid name and no \<^verbatim>\<open>--model\<close> option, so that the parsed model is
  \<^verbatim>\<open>null\<close>, \<^verbatim>\<open>init\<close> throws a TypeError at \<^verbatim>\<open>config.model.toString()\<close>: no generator is
  constructed and the world is left as it was.
\<close>

theorem init_null_model_throws:
  assumes \<open>arg_name a = Some n\<close> and \<open>matchesName n\<close> and \<open>arg_model a = None\<close>
  shows \<open>init u a w = (Threw TypeError, w)\<close>
  using assms by (simp add: init_def matchesName_def)

theorem init_null_model_throws_witness:
  \<open>matchesName ''simple''
   \<and> init sampleUtil \<lparr>arg_model = None, arg_name = Some ''simple'', arg_route = ''/'',
                         arg_version = ''v1''\<rparr> emptyWorld
       = (Threw TypeError, emptyWorld)\<close>
  using init_null_model_throws
          [of \<open>\<lparr>arg_model = None, arg_name = Some ''simple'', arg_route = ''/'',
                 arg_version = ''v1''\<rparr>\<close> \<open>''simple''\<close> sampleUtil emptyWorld]
  by (simp add: matchesName_def isLetter_def)

subsection \<open>Ownership checks\<close>

text \<open>
  C3. The single-record read handler and the delete handler are to compare each
  owner-verified field of the retrieved record with \<^verbatim>\<open>authUser.id\<close>. For the model \<^verbatim>\<open>Post\<close>
  with the owner-verified fields \<^verbatim>\<open>userId\<close> and \<^verbatim>\<open>ownerId\<close> both handlers emit, once per
  field, a comparison of \<^verbatim>\<open>result.items[0].userId,ownerId\<close>: the template interpolates the
  whole list where the other handlers index it. Neither \<^verbatim>\<open>result.items[0].userId\<close> nor
  \<^verbatim>\<open>result.items[0].ownerId\<close> is compared.
\<close>

theorem owner_checks_interpolate_whole_list:
  \<open>ownerVerifiedFields ownersGen = [''userId'', ''ownerId'']
   \<and> map_sum id fst (getQueryCodeForSingleInstance ownersUtil ownersGen) = Inr ownersDetailText
   \<and> fst (getDeleteCode ownersUtil ownersGen) = ownersDeleteText
   \<and> firstIndex (ownerComparison ''userId'') ownersDetailText = None
   \<and> firstIndex (ownerComparison ''ownerId'') ownersDetailText = None
   \<and> firstIndex (ownerComparison ''userId'') ownersDeleteText = None
   \<and> firstIndex (ownerComparison ''ownerId'') ownersDeleteText = None\<close>
  by code_simp

subsection \<open>Order of the clauses of the update handler\<close>

text \<open>
  The text of the update handler for a model with owner-verified fields, clause by
  clause.
\<close>

lemma getUpdateCode_text:
  assumes \<open>ownerVerifiedFields g \<noteq> []\<close> and \<open>map_sum id fst (getUpdateCode u g) = Inr t\<close>
  shows \<open>\<exists>conf g'. getConfFieldRemovingCode u g True = Inr (conf, g')
     \<and> t = getAuthUserCode g @ ''const '' @ updateInstanceName u g @ '' = new ''
           @ pascalCase u (model (config g)) @ ''(req.body);\<newline>'' @ tab2
           @ ownerAssignClause u g @ ''\<newline>        ''
           @ validationClause u g @ ''\<newline>        ''
           @ lookupClause u g @ ''\<newline>        ''
           @ ''if (!result.items.length || (!isAdmin && (''
           @ joinWith '' || ''
               (map (\<lambda>f. updateInstanceName u g @ ''.'' @ f @ '' !== authUser.id'')
                    (rev (ownerVerifiedFields g)))
           @ ''))) {\<newline>            ''
           @ noRecordThrow @ ''\<newline>        }\<newline>        ''
           @ persistClause u g @ conf @ ''\<newline>        res.json(uResult);''\<close>
  using assms
  by (auto simp add: getUpdateCode_def Let_def updateInstanceName_def ownerAssignClause_def
        validationClause_def lookupClause_def noRecordThrow_def persistClause_def
      split: sum.splits)

text \<open>
  C5, as stated: the update handler checks ownership first, then validates, then
  persists, so that a request violating both gets the ownership error, and the stored
  record's ownership is re-checked before the update. In the handler emitted for the
  model \<^verbatim>\<open>Post\<close> with the owner-verified fields \<^verbatim>\<open>userId\<close> and \<^verbatim>\<open>ownerId\<close>, the validation
  clause and \<^verbatim>\<open>throw new ValidationError\<close> come before the lookup and
  \<^verbatim>\<open>throw new DatabaseError\<close>; and no field of the stored record \<^verbatim>\<open>result.items[0]\<close> is
  read: the guard compares \<^verbatim>\<open>post.ownerId\<close> and \<^verbatim>\<open>post.userId\<close>, the fields of the instance
  built from the request body.
\<close>

theorem update_validates_before_ownership_guard:
  \<open>ownerVerifiedFields ownersGen = [''userId'', ''ownerId'']
   \<and> map_sum id fst (getUpdateCode ownersUtil ownersGen) = Inr ownersUpdateText
   \<and> occursBefore (validationClause ownersUtil ownersGen)
         (lookupClause ownersUtil ownersGen) ownersUpdateText
   \<and> occursBefore ''throw new ValidationError'' ''throw new DatabaseError'' ownersUpdateText
   \<and> \<not> occursBefore ''throw new DatabaseError'' ''throw new ValidationError'' ownersUpdateText
   \<and> firstIndex ''result.items[0]'' ownersUpdateText = None
   \<and> firstIndex (ownerComparison ''userId'') ownersUpdateText = None
   \<and> firstIndex (ownerComparison ''ownerId'') ownersUpdateText = None
   \<and> firstIndex ''post.ownerId !== authUser.id || post.userId !== authUser.id''
         ownersUpdateText \<noteq> None\<close>
  by code_simp

text \<open>
  C5, amended. In the update handler for a model with owner-verified fields the clauses
  come in this order: the assignment of the owner-verified fields for non-admin
  requests, the validation with its \<^verbatim>\<open>ValidationError\<close>, the lookup of the stored record,
  the throw of \<^verbatim>\<open>DatabaseError\<close> by the guard on it, and the update.
\<close>

theorem update_handler_clause_order:
  assumes \<open>ownerVerifiedFields g \<noteq> []\<close> and \<open>map_sum id fst (getUpdateCode u g) = Inr t\<close>
  shows \<open>\<exists>a b c d e f.
           t = a @ ownerAssignClause u g @ b @ validationClause u g @ c
               @ lookupClause u g @ d @ noRecordThrow @ e @ persistClause u g @ f\<close>
proof -
  from getUpdateCode_text [OF assms] obtain conf where
    t: \<open>t = getAuthUserCode g @ ''const '' @ updateInstanceName u g @ '' = new ''
           @ pascalCase u (model (config g)) @ ''(req.body);\<newline>'' @ tab2
           @ ownerAssignClause u g @ ''\<newline>        ''
           @ validationClause u g @ ''\<newline>        ''
           @ lookupClause u g @ ''\<newline>        ''
           @ ''if (!result.items.length || (!isAdmin && (''
           @ joinWith '' || ''
               (map (\<lambda>f. updateInstanceName u g @ ''.'' @ f @ '' !== authUser.id'')
                    (rev (ownerVerifiedFields g)))
           @ ''))) {\<newline>            ''
           @ noRecordThrow @ ''\<newline>        }\<newline>        ''
           @ persistClause u g @ conf @ ''\<newline>        res.json(uResult);''\<close>
    by blast
  show ?thesis
    apply (rule exI [of _ \<open>getAuthUserCode g @ ''const '' @ updateInstanceName u g
           @ '' = new '' @ pascalCase u (model (config g)) @ ''(req.body);\<newline>'' @ tab2\<close>])
    apply (rule exI [of _ \<open>''\<newline>        ''\<close>])
    apply (rule exI [of _ \<open>''\<newline>        ''\<close>])
    apply (rule exI [of _ \<open>''\<newline>        ''
           @ ''if (!result.items.length || (!isAdmin && (''
           @ joinWith '' || ''
               (map (\<lambda>f. updateInstanceName u g @ ''.'' @ f @ '' !== authUser.id'')
                    (rev (ownerVerifiedFields g)))
           @ ''))) {\<newline>            ''\<close>])
    apply (rule exI [of _ \<open>''\<newline>        }\<newline>        ''\<close>])
    apply (rule exI [of _ \<open>conf @ ''\<newline>        res.json(uResult);''\<close>])
    apply (simp only: t append_assoc)
    done
qed

theorem update_handler_clause_order_witness:
  \<open>ownerVerifiedFields ownersGen \<noteq> []
   \<and> map_sum id fst (getUpdateCode ownersUtil ownersGen) = Inr ownersUpdateText
   \<and> (\<exists>a b c d e f.
         ownersUpdateText
         = a @ ownerAssignClause ownersUtil ownersGen @ b
           @ validationClause ownersUtil ownersGen @ c
           @ lookupClause ownersUtil ownersGen @ d
           @ noRecordThrow @ e
           @ persistClause ownersUtil ownersGen @ f)\<close>
proof -
  have h1: \<open>ownerVerifiedFields ownersGen \<noteq> []\<close>
    by code_simp
  have h2: \<open>map_sum id fst (getUpdateCode ownersUtil ownersGen) = Inr ownersUpdateText\<close>
    by code_simp
  from update_handler_clause_order [OF h1 h2] h1 h2 show ?thesis
    by blast
qed

subsection \<open>Validation of the controller name\<close>

lemma matchesName_iff: \<open>matchesName n \<longleftrightarrow> n \<noteq> [] \<and> set n \<subseteq> set letters\<close>
  by (auto simp add: matchesName_def list_all_iff isLetter_iff)

text \<open>
  C7, as stated: every name that does not match \<^verbatim>\<open>^[a-z]+$\<close>, such as one with an
  uppercase letter, aborts generation with an error and no file writes. The name
  \<^verbatim>\<open>Profile\<close> does not match that pattern, and \<^verbatim>\<open>init\<close> logs no error for it and writes the
  controller and the registry: the pattern of the source carries the flag \<^verbatim>\<open>i\<close>.
\<close>

theorem uppercase_name_is_accepted:
  \<open>\<not> matchesLowercase ''Profile''
   \<and> runSummary
         (init sampleUtil
            \<lparr>arg_model = Some ''User'', arg_name = Some ''Profile'', arg_route = ''account'',
             arg_version = ''v1''\<rparr> sampleWorld)
       = (Returned, [],
          [''src/api/v1/controller/account/ProfileController.ts'', ''src/api/v1/import.ts''])\<close>
  by code_simp

lemma errors_new_ControllerGen: \<open>errors (snd (new_ControllerGen u cfg w)) = errors w\<close>
  by (simp add: new_ControllerGen_def Let_def mkdir_def)

lemma errors_patchRegistry: \<open>errors (snd (patchRegistry u g w)) = errors w\<close>
  by (simp add: patchRegistry_def writeFile_def split: option.splits)

lemma errors_generate: \<open>errors (snd (generate u g w)) = errors w\<close>
  by (simp add: generate_def errors_patchRegistry writeFile_def split: sum.splits)

lemma messages_differ: \<open>invalidModelMessage \<noteq> invalidNameMessage\<close>
  by (simp add: invalidModelMessage_def invalidNameMessage_def)

text \<open>
  C7, amended. The name is validated against \<^verbatim>\<open>^[a-z]+$\<close> without regard to case. When the
  name is missing, empty, or has a character that is not one of the letters a to z or A
  to Z (a digit, say), \<^verbatim>\<open>init\<close> logs the error message and returns; no file is written and
  no directory made. Every other name, one or more letters of either case, is accepted:
  \<^verbatim>\<open>init\<close> goes on to the check of the model and to the generation for that name, and
  the error message for the name is not what it logs.
\<close>

theorem init_validates_name:
  \<open>(arg_name a = None \<or> arg_name a = Some []
       \<or> (\<exists>n c. arg_name a = Some n \<and> c \<in> set n \<and> c \<notin> set letters)
     \<longrightarrow> init u a w = (Returned, Log_error invalidNameMessage w)
         \<and> writes (Log_error invalidNameMessage w) = writes w
         \<and> files (Log_error invalidNameMessage w) = files w
         \<and> dirs (Log_error invalidNameMessage w) = dirs w
         \<and> errors (Log_error invalidNameMessage w) = errors w @ [invalidNameMessage])
   \<and> (\<forall>n. arg_name a = Some n \<and> n \<noteq> [] \<and> set n \<subseteq> set letters
         \<longrightarrow> init u a w
             = (case arg_model a of
                  None \<Rightarrow> (Threw TypeError, w)
                | Some m \<Rightarrow>
                    if m = ''true'' then (Returned, Log_error invalidModelMessage w)
                    else generate u
                           (fst (new_ControllerGen u
                                   \<lparr>model = m, name = n, route = arg_route a,
                                    version = arg_version a\<rparr> w))
                           (snd (new_ControllerGen u
                                   \<lparr>model = m, name = n, route = arg_route a,
                                    version = arg_version a\<rparr> w)))
           \<and> errors (snd (init u a w)) \<noteq> errors w @ [invalidNameMessage])\<close>
proof (intro conjI impI allI)
  assume inv: \<open>arg_name a = None \<or> arg_name a = Some []
       \<or> (\<exists>n c. arg_name a = Some n \<and> c \<in> set n \<and> c \<notin> set letters)\<close>
  have \<open>(case arg_name a of None \<Rightarrow> None
          | Some n \<Rightarrow> if n \<noteq> [] \<and> matchesName n then Some n else None) = None\<close>
    using inv by (auto simp add: matchesName_iff split: option.splits)
  then show \<open>init u a w = (Returned, Log_error invalidNameMessage w)\<close>
    by (simp add: init_def)
next
  show \<open>writes (Log_error invalidNameMessage w) = writes w\<close>
    by (simp add: Log_error_def)
next
  show \<open>files (Log_error invalidNameMessage w) = files w\<close>
    by (simp add: Log_error_def)
next
  show \<open>dirs (Log_error invalidNameMessage w) = dirs w\<close>
    by (simp add: Log_error_def)
next
  show \<open>errors (Log_error invalidNameMessage w) = errors w @ [invalidNameMessage]\<close>
    by (simp add: Log_error_def)
next
  fix n
  assume v: \<open>arg_name a = Some n \<and> n \<noteq> [] \<and> set n \<subseteq> set letters\<close>
  then have m: \<open>matchesName n\<close>
    by (simp add: matchesName_iff)
  with v show run: \<open>init u a w
             = (case arg_model a of
                  None \<Rightarrow> (Threw TypeError, w)
                | Some m \<Rightarrow>
                    if m = ''true'' then (Returned, Log_error invalidModelMessage w)
                    else generate u
                           (fst (new_ControllerGen u
                                   \<lparr>model = m, name = n, route = arg_route a,
                                    version = arg_version a\<rparr> w))
                           (snd (new_ControllerGen u
                                   \<lparr>model = m, name = n, route = arg_route a,
                                    version = arg_version a\<rparr> w)))\<close>
    by (simp add: init_def split_beta split: option.splits)
  show \<open>errors (snd (init u a w)) \<noteq> errors w @ [invalidNameMessage]\<close>
    unfolding run
    by (simp add: errors_generate errors_new_ControllerGen Log_error_def messages_differ
             split: option.splits)
qed

theorem init_validates_name_witness:
  \<open>(CHR ''2'' \<in> set ''profile2'' \<and> CHR ''2'' \<notin> set letters)
   \<and> init sampleUtil digitArgs sampleWorld = (Returned, Log_error invalidNameMessage sampleWorld)
   \<and> writes (Log_error invalidNameMessage sampleWorld) = writes sampleWorld
   \<and> (''Zed'' \<noteq> [] \<and> set ''Zed'' \<subseteq> set letters)
   \<and> errors (snd (init sampleUtil zedArgs sampleWorld))
       \<noteq> errors sampleWorld @ [invalidNameMessage]
   \<and> runSummary (init sampleUtil zedArgs sampleWorld)
       = (Returned, [],
          [''src/api/v1/controller/account/ZedController.ts'', ''src/api/v1/import.ts''])\<close>
proof -
  have d: \<open>arg_name digitArgs = Some ''profile2''\<close>
    by (simp add: digitArgs_def)
  have h: \<open>CHR ''2'' \<in> set ''profile2'' \<and> CHR ''2'' \<notin> set letters\<close>
    by (simp add: letters_def)
  with d have inv: \<open>arg_name digitArgs = None \<or> arg_name digitArgs = Some []
     \<or> (\<exists>n c. arg_name digitArgs = Some n \<and> c \<in> set n \<and> c \<notin> set letters)\<close>
    by blast
  have z: \<open>arg_name zedArgs = Some ''Zed'' \<and> ''Zed'' \<noteq> [] \<and> set ''Zed'' \<subseteq> set letters\<close>
    by (simp add: zedArgs_def letters_def)
  have r: \<open>runSummary (init sampleUtil zedArgs sampleWorld)
       = (Returned, [],
          [''src/api/v1/controller/account/ZedController.ts'', ''src/api/v1/import.ts''])\<close>
    by code_simp
  from init_validates_name [of digitArgs sampleUtil sampleWorld]
    init_validates_name [of zedArgs sampleUtil sampleWorld] inv z h r
  show ?thesis by blast
qed


subsection \<open>What the handler generators leave unchanged\<close>

lemma sameSettings_refl: \<open>sameSettings g g\<close>
  by (simp add: sameSettings_def)

lemma sameSettings_trans: \<open>sameSettings g h \<Longrightarrow> sameSettings h k \<Longrightarrow> sameSettings g k\<close>
  by (simp add: sameSettings_def)

lemma sameUpToImports_refl: \<open>sameUpToImports g g\<close>
  by (simp add: sameUpToImports_def sameSettings_def)

lemma sameUpToImports_trans:
  \<open>sameUpToImports g h \<Longrightarrow> sameUpToImports h k \<Longrightarrow> sameUpToImports g k\<close>
  by (simp add: sameUpToImports_def sameSettings_def)

lemma sameUpToImports_addImport: \<open>sameUpToImports g (addImport ns f g)\<close>
  by (simp add: sameUpToImports_def sameSettings_def addImport_def)

lemma relationRemovers_same:
  \<open>relationRemovers u idx fs (acc, g) = Inr (acc', g') \<Longrightarrow> sameUpToImports g g'\<close>
proof (induction fs arbitrary: acc g)
  case Nil
  then show ?case by (simp add: sameUpToImports_refl)
next
  case (Cons f fs)
  show ?case
  proof (cases \<open>relation (getFieldMeta u (model (config g)) f)\<close>)
    case None
    with Cons.prems show ?thesis by simp
  next
    case (Some r)
    show ?thesis
    proof (cases \<open>getConfidentialFields u (rel_model r) \<noteq> []\<close>)
      case True
      define g1 where
        \<open>g1 = addImport [''I'' @ rel_model r]
                (genRelativePath u (path g)
                   (''src/cmn/models''
                    @ (case rel_path r of None \<Rightarrow> [] | Some p \<Rightarrow> if p \<noteq> [] then ''/'' @ p else [])
                    @ ''/'' @ rel_model r)) g\<close>
      have g1: \<open>sameUpToImports g g1\<close>
        unfolding g1_def by (rule sameUpToImports_addImport)
      from Cons.prems Some True obtain acc1 where
        rec: \<open>relationRemovers u idx fs (acc1, g1) = Inr (acc', g')\<close>
        unfolding g1_def by (simp add: Let_def)
      from g1 Cons.IH [OF rec] show ?thesis
        by (rule sameUpToImports_trans)
    next
      case False
      with Cons.prems Some have \<open>relationRemovers u idx fs (acc, g) = Inr (acc', g')\<close>
        by (simp add: Let_def)
      then show ?thesis by (rule Cons.IH)
    qed
  qed
qed

lemma getConfFieldRemovingCode_same:
  \<open>getConfFieldRemovingCode u g single = Inr (code, g') \<Longrightarrow> sameUpToImports g g'\<close>
  by (auto simp add: getConfFieldRemovingCode_def Let_def sameUpToImports_refl
      split: option.splits sum.splits dest: relationRemovers_same)

lemma singleOwnerChecks_same:
  \<open>singleOwnerChecks u fs (acc, g) = (acc', g') \<Longrightarrow> sameUpToImports g g'\<close>
proof (induction fs arbitrary: acc g)
  case Nil
  then show ?case by (simp add: sameUpToImports_refl)
next
  case (Cons f fs)
  show ?case
  proof (cases \<open>relation (getFieldMeta u (model (config g)) f)\<close>)
    case None
    with Cons.prems Cons.IH show ?thesis by simp
  next
    case (Some r)
    define g1 where
      \<open>g1 = addImport [''I'' @ rel_model r]
              (genRelativePath u (path g)
                 (''src/cmn/models''
                  @ (case rel_path r of None \<Rightarrow> [] | Some p \<Rightarrow> if p \<noteq> [] then ''/'' @ p else [])
                  @ ''/'' @ rel_model r)) g\<close>
    have g1: \<open>sameUpToImports g g1\<close>
      unfolding g1_def by (rule sameUpToImports_addImport)
    from Cons.prems Some obtain acc1 where
      rec: \<open>singleOwnerChecks u fs (acc1, g1) = (acc', g')\<close>
      unfolding g1_def by (simp add: Let_def)
    from g1 Cons.IH [OF rec] show ?thesis
      by (rule sameUpToImports_trans)
  qed
qed

lemma getQueryCodeForSingleInstance_same:
  assumes \<open>getQueryCodeForSingleInstance u g = Inr (code, g')\<close>
  shows \<open>sameUpToImports g g'\<close>
proof -
  obtain oc g1 where s: \<open>singleOwnerChecks u (rev (ownerVerifiedFields g)) ([], g) = (oc, g1)\<close>
    by (cases \<open>singleOwnerChecks u (rev (ownerVerifiedFields g)) ([], g)\<close>)
  from assms s obtain conf where \<open>getConfFieldRemovingCode u g1 True = Inr (conf, g')\<close>
    by (auto simp add: getQueryCodeForSingleInstance_def Let_def split: sum.splits)
  then have \<open>sameUpToImports g1 g'\<close> by (rule getConfFieldRemovingCode_same)
  with singleOwnerChecks_same [OF s] show ?thesis by (rule sameUpToImports_trans)
qed

lemma getQueryCodeForMultiInstance_same:
  \<open>getQueryCodeForMultiInstance u g = Inr (code, g') \<Longrightarrow> sameUpToImports g g'\<close>
  by (auto simp add: getQueryCodeForMultiInstance_def Let_def
      split: sum.splits dest: getConfFieldRemovingCode_same)

lemma getQueryCode_same:
  \<open>getQueryCode u g b = Inr (code, g') \<Longrightarrow> sameUpToImports g g'\<close>
  by (auto simp add: getQueryCode_def split: if_splits
      dest: getQueryCodeForSingleInstance_same getQueryCodeForMultiInstance_same)

lemma getInsertCode_same:
  \<open>getInsertCode u g = Inr (code, g') \<Longrightarrow> sameUpToImports g g'\<close>
  by (auto simp add: getInsertCode_def Let_def
      split: sum.splits dest: getConfFieldRemovingCode_same)

lemma getUpdateCode_same:
  \<open>getUpdateCode u g = Inr (code, g') \<Longrightarrow> sameUpToImports g g'\<close>
  by (auto simp add: getUpdateCode_def Let_def
      split: sum.splits dest: getConfFieldRemovingCode_same)

lemma getDeleteCode_same:
  \<open>getDeleteCode u g = (code, g') \<Longrightarrow> sameUpToImports g g'\<close>
  by (auto simp add: getDeleteCode_def Let_def sameUpToImports_refl sameUpToImports_addImport
      split: option.splits)

lemma getUploadCode_same:
  \<open>getUploadCode u g = Inr (code, g') \<Longrightarrow> sameUpToImports g g'\<close>
  by (auto simp add: getUploadCode_def Let_def sameUpToImports_addImport
      split: option.splits)

lemma sameUpToImports_settings: \<open>sameUpToImports g g' \<Longrightarrow> sameSettings g g'\<close>
  by (simp add: sameUpToImports_def)

lemma routeContent_Cons:
  \<open>methods (controllerFile g) = r # ms \<Longrightarrow> routeContent g = content r\<close>
  by (simp add: routeContent_def routeMethod_def)

lemma addOperation_settings:
  assumes run: \<open>addOperation nm body line g = Inr g'\<close>
    and body: \<open>\<And>h c h'. body h = Inr (c, h') \<Longrightarrow> sameUpToImports h h'\<close>
  shows \<open>sameSettings g g'\<close>
proof -
  from run obtain c g2 where b: \<open>body (addResponseMethod nm g) = Inr (c, g2)\<close>
    and g': \<open>g' = appendToRouteMethod line (appendToLastMethod c g2)\<close>
    by (auto simp add: addOperation_def split: sum.splits)
  from body [OF b] have \<open>sameSettings g g2\<close>
    by (simp add: sameUpToImports_def sameSettings_def addResponseMethod_def)
  then show ?thesis
    unfolding g'
    by (simp add: sameSettings_def appendToRouteMethod_def appendToLastMethod_def)
qed

lemma addOperation_route:
  assumes run: \<open>addOperation nm body line g = Inr g'\<close>
    and ne: \<open>methods (controllerFile g) \<noteq> []\<close>
    and body: \<open>\<And>h c h'. body h = Inr (c, h') \<Longrightarrow> sameUpToImports h h'\<close>
  shows \<open>routeContent g' = routeContent g @ [line] \<and> methods (controllerFile g') \<noteq> []\<close>
proof -
  from ne obtain r ms where ms: \<open>methods (controllerFile g) = r # ms\<close>
    by (cases \<open>methods (controllerFile g)\<close>) auto
  from run obtain c g2 where b: \<open>body (addResponseMethod nm g) = Inr (c, g2)\<close>
    and g': \<open>g' = appendToRouteMethod line (appendToLastMethod c g2)\<close>
    by (auto simp add: addOperation_def split: sum.splits)
  from body [OF b] have s: \<open>sameUpToImports (addResponseMethod nm g) g2\<close> .
  then have m2: \<open>methods (controllerFile g2)
      = r # ms @ [\<lparr>methodName = nm, access = Private, isAsync = True,
                parameters = [(''req'', ''IExtRequest''), (''res'', ''Response''),
                              (''next'', ''NextFunction'')],
                content = []\<rparr>]\<close>
    by (simp add: sameUpToImports_def addResponseMethod_def ms)
  have \<open>\<exists>ms'. methods (controllerFile g') = appendContent line r # ms'\<close>
    unfolding g' by (simp add: appendToRouteMethod_def appendToLastMethod_def m2)
  then obtain ms' where m'': \<open>methods (controllerFile g') = appendContent line r # ms'\<close>
    by blast
  have \<open>routeContent g' = routeContent g @ [line]\<close>
    by (simp add: routeContent_Cons [OF m''] routeContent_Cons [OF ms] appendContent_def)
  with m'' show ?thesis by simp
qed

lemma thenOperation_Inr:
  \<open>thenOperation r f = Inr g \<Longrightarrow> \<exists>h. r = Inr h \<and> f h = Inr g\<close>
  by (cases r) (simp_all add: thenOperation_def)

subsection \<open>The statements of the route method\<close>

lemma thenOperation_InrE:
  assumes \<open>thenOperation r f = Inr g\<close>
  obtains h where \<open>r = Inr h\<close> and \<open>f h = Inr g\<close>
  using assms by (cases r) (simp_all add: thenOperation_def)

lemma sameSettings_routingPath: \<open>sameSettings g g' \<Longrightarrow> routingPath g' = routingPath g\<close>
  by (simp add: sameSettings_def)

lemma sameSettings_filesFields: \<open>sameSettings g g' \<Longrightarrow> filesFields g' = filesFields g\<close>
  by (simp add: sameSettings_def)

lemma getCountCode_same:
  \<open>Inr (getCountCode u h, h) = Inr (c, h') \<Longrightarrow> sameUpToImports h h'\<close>
  by (simp add: sameUpToImports_refl)

lemma getDeleteCode_same':
  \<open>Inr (getDeleteCode u h) = Inr (c, h') \<Longrightarrow> sameUpToImports h h'\<close>
  by (simp add: getDeleteCode_same)

lemma addCRUDOperations_settings:
  assumes run: \<open>addCRUDOperations u g0 = Inr g\<close>
  shows \<open>config g = config g0 \<and> apiVersion g = apiVersion g0 \<and> path g = path g0
         \<and> rawName g = rawName g0 \<and> routingPath g = routingPath g0
         \<and> filesFields g = filesFields g0
         \<and> fileName (controllerFile g) = fileName (controllerFile g0)\<close>
proof -
  define gA where
    \<open>gA = addImport [''AclAction''] ''@vesta/services''
       (addImport [pascalCase u (camelCase u (pascalCase u (model (config g0)))),
                   ''I'' @ pascalCase u (camelCase u (pascalCase u (model (config g0))))]
          (genRelativePath u
             (path (addImport [''Err'', ''DatabaseError'', ''ValidationError''] ''@vesta/core''
                (g0\<lparr>relationsFields := getFieldsByType u (model (config g0)) FT_Relation,
                   ownerVerifiedFields := getOwnerVerifiedFields u (model (config g0)),
                   confidentialFields := getConfidentialFields u (model (config g0))\<rparr>)))
             (''src/cmn/models/''
              @ model (config (addImport [''Err'', ''DatabaseError'', ''ValidationError'']
                  ''@vesta/core''
                  (g0\<lparr>relationsFields := getFieldsByType u (model (config g0)) FT_Relation,
                     ownerVerifiedFields := getOwnerVerifiedFields u (model (config g0)),
                     confidentialFields := getConfidentialFields u (model (config g0))\<rparr>)))))
          (addImport [''Err'', ''DatabaseError'', ''ValidationError''] ''@vesta/core''
             (g0\<lparr>relationsFields := getFieldsByType u (model (config g0)) FT_Relation,
                ownerVerifiedFields := getOwnerVerifiedFields u (model (config g0)),
                confidentialFields := getConfidentialFields u (model (config g0))\<rparr>)))\<close>
  have A: \<open>routingPath gA = routingPath g0\<close> \<open>filesFields gA = filesFields g0\<close>
    \<open>methods (controllerFile gA) = methods (controllerFile g0)\<close>
    \<open>config gA = config g0\<close> \<open>apiVersion gA = apiVersion g0\<close> \<open>path gA = path g0\<close>
    \<open>rawName gA = rawName g0\<close>
    \<open>fileName (controllerFile gA) = fileName (controllerFile g0)\<close>
    by (simp_all add: gA_def addImport_def)
  from run [unfolded addCRUDOperations_def Let_def, folded gA_def]
  obtain h1 h2 h3 h4 h5 h6 where
    o1: \<open>addOperation (''get'' @ pascalCase u (camelCase u (pascalCase u (model (config g0)))) @ ''Count'')
           (\<lambda>h. Inr (getCountCode u h, h))
           (registration ''get'' (routingPath gA @ ''/count'')
              (methodBasedMiddleWares (aclOf (routingPath gA)) ''AclAction.Read'')
              (''get'' @ pascalCase u (camelCase u (pascalCase u (model (config g0)))) @ ''Count'')) gA
         = Inr h1\<close>
    and o2: \<open>addOperation (''get'' @ pascalCase u (camelCase u (pascalCase u (model (config g0)))))
           (\<lambda>h. getQueryCode u h True)
           (registration ''get'' (routingPath h1 @ ''/:id'')
              (methodBasedMiddleWares (aclOf (routingPath gA)) ''AclAction.Read'')
              (''get'' @ pascalCase u (camelCase u (pascalCase u (model (config g0)))))) h1
         = Inr h2\<close>
    and o3: \<open>addOperation (''get'' @ plural u (pascalCase u (camelCase u (pascalCase u (model (config g0))))))
           (\<lambda>h. getQueryCode u h False)
           (registration ''get'' (routingPath h2)
              (methodBasedMiddleWares (aclOf (routingPath gA)) ''AclAction.Read'')
              (''get'' @ plural u (pascalCase u (camelCase u (pascalCase u (model (config g0))))))) h2
         = Inr h3\<close>
    and o4: \<open>addOperation (''add'' @ pascalCase u (camelCase u (pascalCase u (model (config g0)))))
           (getInsertCode u)
           (registration ''post'' (routingPath h3)
              (methodBasedMiddleWares (aclOf (routingPath gA)) ''AclAction.Add'')
              (''add'' @ pascalCase u (camelCase u (pascalCase u (model (config g0)))))) h3
         = Inr h4\<close>
    and o5: \<open>addOperation (''update'' @ pascalCase u (camelCase u (pascalCase u (model (config g0)))))
           (getUpdateCode u)
           (registration ''put'' (routingPath h4)
              (methodBasedMiddleWares (aclOf (routingPath gA)) ''AclAction.Edit'')
              (''update'' @ pascalCase u (camelCase u (pascalCase u (model (config g0)))))) h4
         = Inr h5\<close>
    and o6: \<open>addOperation (''remove'' @ pascalCase u (camelCase u (pascalCase u (model (config g0)))))
           (\<lambda>h. Inr (getDeleteCode u h))
           (registration ''delete'' (routingPath h5 @ ''/:id'')
              (methodBasedMiddleWares (aclOf (routingPath gA)) ''AclAction.Delete'')
              (''remove'' @ pascalCase u (camelCase u (pascalCase u (model (config g0)))))) h5
         = Inr h6\<close>
    and o7: \<open>(if filesFields h6 \<noteq> None
              then addOperation ''upload'' (getUploadCode u)
                     (registration ''post'' (routingPath h6 @ ''/file/:id'')
                        (methodBasedMiddleWares (aclOf (routingPath gA)) ''AclAction.Edit'')
                        ''upload'') h6
              else Inr h6) = Inr g\<close>
    by (elim thenOperation_InrE) blast
  note r1 = addOperation_settings [OF o1 getCountCode_same]
  note r2 = addOperation_settings [OF o2 getQueryCode_same]
  note r3 = addOperation_settings [OF o3 getQueryCode_same]
  note r4 = addOperation_settings [OF o4 getInsertCode_same]
  note r5 = addOperation_settings [OF o5 getUpdateCode_same]
  note r6 = addOperation_settings [OF o6 getDeleteCode_same']
  have s6: \<open>sameSettings gA h6\<close>
    using r1 r2 r3 r4 r5 r6 by (simp add: sameSettings_def)
  have \<open>sameSettings h6 g\<close>
  proof (cases \<open>filesFields h6 \<noteq> None\<close>)
    case True
    with o7 have \<open>addOperation ''upload'' (getUploadCode u)
                     (registration ''post'' (routingPath h6 @ ''/file/:id'')
                        (methodBasedMiddleWares (aclOf (routingPath gA)) ''AclAction.Edit'')
                        ''upload'') h6 = Inr g\<close>
      by simp
    from addOperation_settings [OF this getUploadCode_same] show ?thesis .
  next
    case False
    with o7 have \<open>g = h6\<close> by simp
    then show ?thesis by (simp add: sameSettings_refl)
  qed
  with s6 A show ?thesis
    by (simp add: sameSettings_def)
qed

lemma addCRUDOperations_routes:
  assumes ne: \<open>methods (controllerFile g0) \<noteq> []\<close>
    and run: \<open>addCRUDOperations u g0 = Inr g\<close>
  shows \<open>routeContent g
     = routeContent g0
       @ [registration ''get'' (routingPath g0 @ ''/count'')
            (methodBasedMiddleWares (aclOf (routingPath g0)) ''AclAction.Read'')
            (''get'' @ pascalCase u (camelCase u (pascalCase u (model (config g0)))) @ ''Count''),
          registration ''get'' (routingPath g0 @ ''/:id'')
            (methodBasedMiddleWares (aclOf (routingPath g0)) ''AclAction.Read'')
            (''get'' @ pascalCase u (camelCase u (pascalCase u (model (config g0))))),
          registration ''get'' (routingPath g0)
            (methodBasedMiddleWares (aclOf (routingPath g0)) ''AclAction.Read'')
            (''get'' @ plural u (pascalCase u (camelCase u (pascalCase u (model (config g0)))))),
          registration ''post'' (routingPath g0)
            (methodBasedMiddleWares (aclOf (routingPath g0)) ''AclAction.Add'')
            (''add'' @ pascalCase u (camelCase u (pascalCase u (model (config g0))))),
          registration ''put'' (routingPath g0)
            (methodBasedMiddleWares (aclOf (routingPath g0)) ''AclAction.Edit'')
            (''update'' @ pascalCase u (camelCase u (pascalCase u (model (config g0))))),
          registration ''delete'' (routingPath g0 @ ''/:id'')
            (methodBasedMiddleWares (aclOf (routingPath g0)) ''AclAction.Delete'')
            (''remove'' @ pascalCase u (camelCase u (pascalCase u (model (config g0)))))]
       @ (if filesFields g0 \<noteq> None
          then [registration ''post'' (routingPath g0 @ ''/file/:id'')
                  (methodBasedMiddleWares (aclOf (routingPath g0)) ''AclAction.Edit'')
                  ''upload'']
          else [])\<close>
proof -
  define gA where
    \<open>gA = addImport [''AclAction''] ''@vesta/services''
       (addImport [pascalCase u (camelCase u (pascalCase u (model (config g0)))),
                   ''I'' @ pascalCase u (camelCase u (pascalCase u (model (config g0))))]
          (genRelativePath u
             (path (addImport [''Err'', ''DatabaseError'', ''ValidationError''] ''@vesta/core''
                (g0\<lparr>relationsFields := getFieldsByType u (model (config g0)) FT_Relation,
                   ownerVerifiedFields := getOwnerVerifiedFields u (model (config g0)),
                   confidentialFields := getConfidentialFields u (model (config g0))\<rparr>)))
             (''src/cmn/models/''
              @ model (config (addImport [''Err'', ''DatabaseError'', ''ValidationError'']
                  ''@vesta/core''
                  (g0\<lparr>relationsFields := getFieldsByType u (model (config g0)) FT_Relation,
                     ownerVerifiedFields := getOwnerVerifiedFields u (model (config g0)),
                     confidentialFields := getConfidentialFields u (model (config g0))\<rparr>)))))
          (addImport [''Err'', ''DatabaseError'', ''ValidationError''] ''@vesta/core''
             (g0\<lparr>relationsFields := getFieldsByType u (model (config g0)) FT_Relation,
                ownerVerifiedFields := getOwnerVerifiedFields u (model (config g0)),
                confidentialFields := getConfidentialFields u (model (config g0))\<rparr>)))\<close>
  have A: \<open>routingPath gA = routingPath g0\<close> \<open>filesFields gA = filesFields g0\<close>
    \<open>methods (controllerFile gA) = methods (controllerFile g0)\<close>
    \<open>config gA = config g0\<close> \<open>apiVersion gA = apiVersion g0\<close> \<open>path gA = path g0\<close>
    \<open>rawName gA = rawName g0\<close>
    \<open>fileName (controllerFile gA) = fileName (controllerFile g0)\<close>
    by (simp_all add: gA_def addImport_def)
  have neA: \<open>methods (controllerFile gA) \<noteq> []\<close>
    using ne A by simp
  have rcA: \<open>routeContent gA = routeContent g0\<close>
    using A by (simp add: routeContent_def routeMethod_def)
  from run [unfolded addCRUDOperations_def Let_def, folded gA_def]
  obtain h1 h2 h3 h4 h5 h6 where
    o1: \<open>addOperation (''get'' @ pascalCase u (camelCase u (pascalCase u (model (config g0)))) @ ''Count'')
           (\<lambda>h. Inr (getCountCode u h, h))
           (registration ''get'' (routingPath gA @ ''/count'')
              (methodBasedMiddleWares (aclOf (routingPath gA)) ''AclAction.Read'')
              (''get'' @ pascalCase u (camelCase u (pascalCase u (model (config g0)))) @ ''Count'')) gA
         = Inr h1\<close>
    and o2: \<open>addOperation (''get'' @ pascalCase u (camelCase u (pascalCase u (model (config g0)))))
           (\<lambda>h. getQueryCode u h True)
           (registration ''get'' (routingPath h1 @ ''/:id'')
              (methodBasedMiddleWares (aclOf (routingPath gA)) ''AclAction.Read'')
              (''get'' @ pascalCase u (camelCase u (pascalCase u (model (config g0)))))) h1
         = Inr h2\<close>
    and o3: \<open>addOperation (''get'' @ plural u (pascalCase u (camelCase u (pascalCase u (model (config g0))))))
           (\<lambda>h. getQueryCode u h False)
           (registration ''get'' (routingPath h2)
              (methodBasedMiddleWares (aclOf (routingPath gA)) ''AclAction.Read'')
              (''get'' @ plural u (pascalCase u (camelCase u (pascalCase u (model (config g0))))))) h2
         = Inr h3\<close>
    and o4: \<open>addOperation (''add'' @ pascalCase u (camelCase u (pascalCase u (model (config g0)))))
           (getInsertCode u)
           (registration ''post'' (routingPath h3)
              (methodBasedMiddleWares (aclOf (routingPath gA)) ''AclAction.Add'')
              (''add'' @ pascalCase u (camelCase u (pascalCase u (model (config g0)))))) h3
         = Inr h4\<close>
    and o5: \<open>addOperation (''update'' @ pascalCase u (camelCase u (pascalCase u (model (config g0)))))
           (getUpdateCode u)
           (registration ''put'' (routingPath h4)
              (methodBasedMiddleWares (aclOf (routingPath gA)) ''AclAction.Edit'')
              (''update'' @ pascalCase u (camelCase u (pascalCase u (model (config g0)))))) h4
         = Inr h5\<close>
    and o6: \<open>addOperation (''remove'' @ pascalCase u (camelCase u (pascalCase u (model (config g0)))))
           (\<lambda>h. Inr (getDeleteCode u h))
           (registration ''delete'' (routingPath h5 @ ''/:id'')
              (methodBasedMiddleWares (aclOf (routingPath gA)) ''AclAction.Delete'')
              (''remove'' @ pascalCase u (camelCase u (pascalCase u (model (config g0)))))) h5
         = Inr h6\<close>
    and o7: \<open>(if filesFields h6 \<noteq> None
              then addOperation ''upload'' (getUploadCode u)
                     (registration ''post'' (routingPath h6 @ ''/file/:id'')
                        (methodBasedMiddleWares (aclOf (routingPath gA)) ''AclAction.Edit'')
                        ''upload'') h6
              else Inr h6) = Inr g\<close>
    by (elim thenOperation_InrE) blast
  note s1 = addOperation_settings [OF o1 getCountCode_same]
  note r1 = addOperation_route [OF o1 neA getCountCode_same]
  from r1 have ne1: \<open>methods (controllerFile h1) \<noteq> []\<close> by simp
  note s2 = addOperation_settings [OF o2 getQueryCode_same]
  note r2 = addOperation_route [OF o2 ne1 getQueryCode_same]
  from r2 have ne2: \<open>methods (controllerFile h2) \<noteq> []\<close> by simp
  note s3 = addOperation_settings [OF o3 getQueryCode_same]
  note r3 = addOperation_route [OF o3 ne2 getQueryCode_same]
  from r3 have ne3: \<open>methods (controllerFile h3) \<noteq> []\<close> by simp
  note s4 = addOperation_settings [OF o4 getInsertCode_same]
  note r4 = addOperation_route [OF o4 ne3 getInsertCode_same]
  from r4 have ne4: \<open>methods (controllerFile h4) \<noteq> []\<close> by simp
  note s5 = addOperation_settings [OF o5 getUpdateCode_same]
  note r5 = addOperation_route [OF o5 ne4 getUpdateCode_same]
  from r5 have ne5: \<open>methods (controllerFile h5) \<noteq> []\<close> by simp
  note s6' = addOperation_settings [OF o6 getDeleteCode_same']
  note r6 = addOperation_route [OF o6 ne5 getDeleteCode_same']
  have s6: \<open>sameSettings gA h6\<close>
    using s1 s2 s3 s4 s5 s6' by (simp add: sameSettings_def)
  have c6: \<open>routeContent h6 = routeContent gA
      @ [registration ''get'' (routingPath gA @ ''/count'')
            (methodBasedMiddleWares (aclOf (routingPath gA)) ''AclAction.Read'')
            (''get'' @ pascalCase u (camelCase u (pascalCase u (model (config g0)))) @ ''Count''),
          registration ''get'' (routingPath gA @ ''/:id'')
            (methodBasedMiddleWares (aclOf (routingPath gA)) ''AclAction.Read'')
            (''get'' @ pascalCase u (camelCase u (pascalCase u (model (config g0))))),
          registration ''get'' (routingPath gA)
            (methodBasedMiddleWares (aclOf (routingPath gA)) ''AclAction.Read'')
            (''get'' @ plural u (pascalCase u (camelCase u (pascalCase u (model (config g0)))))),
          registration ''post'' (routingPath gA)
            (methodBasedMiddleWares (aclOf (routingPath gA)) ''AclAction.Add'')
            (''add'' @ pascalCase u (camelCase u (pascalCase u (model (config g0))))),
          registration ''put'' (routingPath gA)
            (methodBasedMiddleWares (aclOf (routingPath gA)) ''AclAction.Edit'')
            (''update'' @ pascalCase u (camelCase u (pascalCase u (model (config g0))))),
          registration ''delete'' (routingPath gA @ ''/:id'')
            (methodBasedMiddleWares (aclOf (routingPath gA)) ''AclAction.Delete'')
            (''remove'' @ pascalCase u (camelCase u (pascalCase u (model (config g0)))))]\<close>
    using r1 r2 r3 r4 r5 r6 s1 s2 s3 s4 s5 s6' by (simp add: sameSettings_def)
  have ne6: \<open>methods (controllerFile h6) \<noteq> []\<close>
    using r1 r2 r3 r4 r5 r6 by simp
  have fin: \<open>routeContent g = routeContent h6
      @ (if filesFields g0 \<noteq> None
          then [registration ''post'' (routingPath gA @ ''/file/:id'')
                  (methodBasedMiddleWares (aclOf (routingPath gA)) ''AclAction.Edit'')
                  ''upload'']
          else [])\<close>
  proof (cases \<open>filesFields g0 \<noteq> None\<close>)
    case True
    then have \<open>filesFields h6 \<noteq> None\<close>
      using s6 A by (simp add: sameSettings_def)
    with o7 have \<open>addOperation ''upload'' (getUploadCode u)
                     (registration ''post'' (routingPath h6 @ ''/file/:id'')
                        (methodBasedMiddleWares (aclOf (routingPath gA)) ''AclAction.Edit'')
                        ''upload'') h6 = Inr g\<close>
      by simp
    from addOperation_route [OF this ne6 getUploadCode_same] True s6 show ?thesis
      by (simp add: sameSettings_def)
  next
    case False
    then have \<open>filesFields h6 = None\<close>
      using s6 A by (simp add: sameSettings_def)
    with o7 have \<open>g = h6\<close> by simp
    with False show ?thesis by simp
  qed
  show ?thesis
    using fin c6 rcA A by simp
qed

subsection \<open>The registry after a run\<close>

lemma crudResult_settings:
  assumes \<open>crudResult u g0 = Inr g\<close>
  shows \<open>config g = config g0 \<and> apiVersion g = apiVersion g0 \<and> path g = path g0
         \<and> rawName g = rawName g0 \<and> routingPath g = routingPath g0
         \<and> filesFields g = filesFields g0
         \<and> fileName (controllerFile g) = fileName (controllerFile g0)\<close>
proof (cases \<open>model (config g0) \<noteq> []\<close>)
  case True
  with assms have \<open>addCRUDOperations u g0 = Inr g\<close>
    by (simp add: crudResult_def)
  then show ?thesis by (rule addCRUDOperations_settings)
next
  case False
  with assms show ?thesis by (simp add: crudResult_def)
qed

lemma crudResult_names:
  assumes \<open>crudResult u g0 = Inr g\<close>
  shows \<open>controllerClassName u g = controllerClassName u g0\<close>
    \<open>controllerFilePath u g = controllerFilePath u g0\<close>
    \<open>registryFilePath g = registryFilePath g0\<close>
    \<open>importCode u g = importCode u g0\<close>
    \<open>embedCode u g = embedCode u g0\<close>
    \<open>insertAtMarkers u g = insertAtMarkers u g0\<close>
  using crudResult_settings [OF assms]
  by (simp_all add: controllerClassName_def controllerFilePath_def registryFilePath_def
        importCode_def embedCode_def insertAtMarkers_def fun_eq_iff)

lemma generate_unfold:
  assumes \<open>crudResult u g0 = Inr g\<close>
  shows \<open>generate u g0 w0
         = patchRegistry u g
             (writeFile (controllerFilePath u g0) (generateFile u (controllerFile g)) w0)\<close>
  using assms crudResult_names(2) [OF assms]
  by (simp add: generate_def crudResult_def)

lemma generate_registry:
  assumes ok: \<open>\<not> isl (crudResult u g0)\<close>
    and reg: \<open>files w0 (registryFilePath g0) = Some code\<close>
    and distinct: \<open>controllerFilePath u g0 \<noteq> registryFilePath g0\<close>
  shows \<open>fst (generate u g0 w0) = Returned\<close>
    and \<open>files (snd (generate u g0 w0)) (registryFilePath g0)
         = Some (patchedRegistry u g0 code)\<close>
    and \<open>writesTo (registryFilePath g0) (snd (generate u g0 w0))
         = writesTo (registryFilePath g0) w0
           @ (if search code (Placeholder_ExpressController u) \<noteq> 0
                 \<and> indexOf code (importCode u g0) < 0
              then [insertAtMarkers u g0 code] else [])\<close>
proof -
  from ok obtain g where g: \<open>crudResult u g0 = Inr g\<close>
    by (cases \<open>crudResult u g0\<close>) auto
  note n = crudResult_names [OF g]
  note unf = generate_unfold [OF g]
  show \<open>fst (generate u g0 w0) = Returned\<close>
    using reg distinct
    by (simp add: unf patchRegistry_def n writeFile_def)
  show \<open>files (snd (generate u g0 w0)) (registryFilePath g0)
         = Some (patchedRegistry u g0 code)\<close>
    using reg distinct
    by (simp add: unf patchRegistry_def n writeFile_def patchedRegistry_def)
  show \<open>writesTo (registryFilePath g0) (snd (generate u g0 w0))
         = writesTo (registryFilePath g0) w0
           @ (if search code (Placeholder_ExpressController u) \<noteq> 0
                 \<and> indexOf code (importCode u g0) < 0
              then [insertAtMarkers u g0 code] else [])\<close>
    using reg distinct
    by (simp add: unf patchRegistry_def n writeFile_def writesTo_def)
qed




lemma profile_crud_succeeds: \<open>\<not> isl (crudResult sampleUtil profileGen)\<close>
  by code_simp




subsection \<open>Searching and replacing in strings\<close>

lemma firstIndex_SomeD:
  \<open>firstIndex pat s = Some i \<Longrightarrow>
     i + length pat \<le> length s \<and> s = take i s @ pat @ drop (i + length pat) s\<close>
proof (induction s arbitrary: i)
  case Nil
  then show ?case by (simp split: if_splits)
next
  case (Cons c cs)
  show ?case
  proof (cases \<open>prefix pat (c # cs)\<close>)
    case True
    then obtain zs where zs: \<open>c # cs = pat @ zs\<close>
      by (auto simp add: prefix_def)
    from True Cons.prems have \<open>i = 0\<close> by simp
    then show ?thesis
      using zs by simp
  next
    case False
    with Cons.prems obtain j where j: \<open>firstIndex pat cs = Some j\<close> and i: \<open>i = Suc j\<close>
      by auto
    from Cons.IH [OF j] show ?thesis
      by (simp add: i)
  qed
qed

lemma firstIndex_occurrence: \<open>firstIndex pat (a @ pat @ b) \<noteq> None\<close>
proof (induction a)
  case Nil
  have \<open>prefix pat (pat @ b)\<close> by simp
  then show ?case by (cases \<open>pat @ b\<close>) auto
next
  case (Cons c a)
  then show ?case by auto
qed

lemma firstIndex_None_iff: \<open>firstIndex pat s = None \<longleftrightarrow> \<not> sublist pat s\<close>
proof
  assume n: \<open>firstIndex pat s = None\<close>
  show \<open>\<not> sublist pat s\<close>
  proof
    assume \<open>sublist pat s\<close>
    then obtain ps ss where \<open>s = ps @ pat @ ss\<close>
      unfolding sublist_def by blast
    with firstIndex_occurrence [of pat ps ss] n show False by simp
  qed
next
  assume n: \<open>\<not> sublist pat s\<close>
  show \<open>firstIndex pat s = None\<close>
  proof (rule ccontr)
    assume \<open>firstIndex pat s \<noteq> None\<close>
    then obtain i where \<open>firstIndex pat s = Some i\<close> by auto
    from firstIndex_SomeD [OF this] have \<open>s = take i s @ pat @ drop (i + length pat) s\<close>
      by simp
    then have \<open>sublist pat s\<close>
      unfolding sublist_def by blast
    with n show False by simp
  qed
qed

lemma getSubstitution_plain:
  \<open>CHR ''$'' \<notin> set rep \<Longrightarrow> getSubstitution m pre post rep = rep\<close>
  by (induction m pre post rep rule: getSubstitution.induct) auto

lemma replace_Some:
  \<open>firstIndex pat s = Some i \<Longrightarrow> CHR ''$'' \<notin> set rep \<Longrightarrow>
     replace s pat rep = take i s @ rep @ drop (i + length pat) s\<close>
  by (simp add: replace_def getSubstitution_plain)

lemma replace_at:
  \<open>firstIndex pat (a @ pat @ b) = Some (length a) \<Longrightarrow> CHR ''$'' \<notin> set rep \<Longrightarrow>
     replace (a @ pat @ b) pat rep = a @ rep @ b\<close>
  by (simp add: replace_Some)

lemma firstIndex_skip_hd:
  \<open>c \<notin> set a \<Longrightarrow>
     firstIndex (c # ps) (a @ s) = map_option (\<lambda>i. length a + i) (firstIndex (c # ps) s)\<close>
  by (induction a) (cases \<open>firstIndex (c # ps) s\<close>; simp)+

lemma firstIndex_skip_none:
  \<open>firstIndex pat a = None \<Longrightarrow> d \<notin> set pat \<Longrightarrow>
     firstIndex pat (a @ d # s) = map_option (\<lambda>i. length a + i) (firstIndex pat (d # s))\<close>
proof (induction a)
  case Nil
  then show ?case by (cases \<open>firstIndex pat (d # s)\<close>) simp_all
next
  case (Cons x a)
  from Cons.prems have np: \<open>\<not> prefix pat (x # a)\<close> and n: \<open>firstIndex pat a = None\<close>
    by (auto split: if_splits)
  have \<open>\<not> prefix pat ((x # a) @ d # s)\<close>
  proof
    assume \<open>prefix pat ((x # a) @ d # s)\<close>
    then consider \<open>prefix pat (x # a)\<close>
      | us where \<open>pat = (x # a) @ us\<close> \<open>prefix us (d # s)\<close>
      unfolding prefix_append by blast
    then show False
    proof cases
      case 1
      with np show False by simp
    next
      case 2
      show False
      proof (cases us)
        case Nil
        with 2 np show False by simp
      next
        case (Cons e es)
        with 2 have \<open>e = d\<close> by simp
        with 2 Cons \<open>d \<notin> set pat\<close> show False by simp
      qed
    qed
  qed
  then have \<open>firstIndex pat ((x # a) @ d # s)
             = map_option Suc (firstIndex pat (a @ d # s))\<close>
    by simp
  also have \<open>\<dots> = map_option Suc (map_option (\<lambda>i. length a + i) (firstIndex pat (d # s)))\<close>
    using Cons.IH [OF n Cons.prems(2)] by simp
  also have \<open>\<dots> = map_option (\<lambda>i. length (x # a) + i) (firstIndex pat (d # s))\<close>
    by (cases \<open>firstIndex pat (d # s)\<close>) simp_all
  finally show ?case .
qed

lemma methodBasedMiddleWares_plain:
  assumes clean: \<open>firstIndex ''__ACTION__'' acl = None\<close>
    and plain: \<open>CHR ''$'' \<notin> set action\<close>
  shows \<open>methodBasedMiddleWares acl action
         = '' this.checkAcl("'' @ acl @ ''", '' @ action @ ''),''\<close>
proof -
  have 1: \<open>firstIndex ''__ACTION__'' ([CHR 0x22] @ '', '' @ ''__ACTION__'' @ ''),'') = Some 3\<close>
    by simp
  have 2: \<open>firstIndex ''__ACTION__'' (acl @ CHR 0x22 # ('', '' @ ''__ACTION__'' @ ''),''))
           = Some (length acl + 3)\<close>
    using firstIndex_skip_none [OF clean, of \<open>CHR 0x22\<close> \<open>'', '' @ ''__ACTION__'' @ ''),''\<close>] 1
    by simp
  have 3: \<open>firstIndex ''__ACTION__''
             ('' this.checkAcl("'' @ (acl @ CHR 0x22 # ('', '' @ ''__ACTION__'' @ ''),'')))
           = Some (length '' this.checkAcl("'' + (length acl + 3))\<close>
    using firstIndex_skip_hd [of \<open>CHR ''_''\<close> \<open>'' this.checkAcl("''\<close> \<open>''_ACTION__''\<close>
            \<open>acl @ CHR 0x22 # ('', '' @ ''__ACTION__'' @ ''),'')\<close>] 2
    by simp
  have 4: \<open>firstIndex ''__ACTION__''
             (('' this.checkAcl("'' @ acl @ ''", '') @ ''__ACTION__'' @ ''),'')
           = Some (length ('' this.checkAcl("'' @ acl @ ''", ''))\<close>
    using 3 by simp
  have \<open>methodBasedMiddleWares acl action
        = replace (('' this.checkAcl("'' @ acl @ ''", '') @ ''__ACTION__'' @ ''),'')
            ''__ACTION__'' action\<close>
    by (simp add: methodBasedMiddleWares_def)
  also have \<open>\<dots> = ('' this.checkAcl("'' @ acl @ ''", '') @ action @ ''),''\<close>
    using 4 plain by (rule replace_at)
  finally show ?thesis by simp
qed

subsection \<open>The route table\<close>

lemma registration_routeStatement:
  \<open>registration (verbMethod v) p ('' this.checkAcl("'' @ acl @ ''", '' @ actionName a @ ''),'') h
   = routeStatement acl \<lparr>httpVerb = v, urlPath = p, aclAction = a, handler = h\<rparr>\<close>
  by (simp add: registration_def routeStatement_def)

lemma new_ControllerGen_facts:
  assumes \<open>new_ControllerGen u cfg w = (g0, w')\<close>
  shows \<open>routingPath g0 = normalizedPath u cfg\<close>
    and \<open>config g0 = cfg\<close>
    and \<open>methods (controllerFile g0) \<noteq> []\<close>
    and \<open>routeContent g0 = []\<close>
    and \<open>filesFields g0 = (if model cfg \<noteq> [] then getFieldsByType u (model cfg) FT_File else None)\<close>
proof -
  have g0: \<open>g0 = fst (new_ControllerGen u cfg w)\<close>
    using assms by simp
  show \<open>routingPath g0 = normalizedPath u cfg\<close>
    unfolding g0
    by (cases \<open>route cfg\<close>)
       (simp_all add: new_ControllerGen_def normalizeRoutingPath_def normalizedPath_def
          addImport_def Let_def)
  show \<open>config g0 = cfg\<close>
    unfolding g0
    by (simp add: new_ControllerGen_def normalizeRoutingPath_def addImport_def Let_def)
  show \<open>methods (controllerFile g0) \<noteq> []\<close>
    unfolding g0
    by (simp add: new_ControllerGen_def normalizeRoutingPath_def addImport_def Let_def)
  show \<open>routeContent g0 = []\<close>
    unfolding g0
    by (simp add: new_ControllerGen_def normalizeRoutingPath_def addImport_def Let_def
          routeContent_def routeMethod_def)
  show \<open>filesFields g0 = (if model cfg \<noteq> [] then getFieldsByType u (model cfg) FT_File else None)\<close>
    unfolding g0
    by (simp add: new_ControllerGen_def normalizeRoutingPath_def addImport_def Let_def)
qed

text \<open>
  For a route base whose access-control identifier does not contain the text
  \<^verbatim>\<open>__ACTION__\<close>, the statements of the \<^verbatim>\<open>route\<close> method are those of the route table: six
  routes, and the upload route when the model has File-typed fields.
\<close>

lemma route_table_without_placeholder:
  assumes new: \<open>new_ControllerGen u cfg w = (g0, w')\<close>
    and m: \<open>model cfg \<noteq> []\<close>
    and run: \<open>addCRUDOperations u g0 = Inr g\<close>
    and clean: \<open>firstIndex ''__ACTION__'' (aclOf (normalizedPath u cfg)) = None\<close>
  shows \<open>routeContent g
         = map (routeStatement (aclOf (normalizedPath u cfg)))
             (routeTable u (pascalCase u (camelCase u (pascalCase u (model cfg))))
                (normalizedPath u cfg) (getFieldsByType u (model cfg) FT_File \<noteq> None))\<close>
proof -
  note f = new_ControllerGen_facts [OF new]
  have mw: \<open>methodBasedMiddleWares (aclOf (normalizedPath u cfg)) (actionName a)
            = '' this.checkAcl("'' @ aclOf (normalizedPath u cfg) @ ''", '' @ actionName a @ ''),''\<close>
    for a
    by (rule methodBasedMiddleWares_plain [OF clean]) (cases a; simp add: actionName_def)
  have names: \<open>''AclAction.Read'' = actionName Read\<close> \<open>''AclAction.Add'' = actionName Add\<close>
    \<open>''AclAction.Edit'' = actionName Edit\<close> \<open>''AclAction.Delete'' = actionName Delete\<close>
    by (simp_all add: actionName_def)
  have verbs: \<open>''get'' = verbMethod GET\<close> \<open>''post'' = verbMethod POST\<close>
    \<open>''put'' = verbMethod PUT\<close> \<open>''delete'' = verbMethod DELETE\<close>
    by (simp_all add: verbMethod_def)
  have reg: \<open>registration (verbMethod v) p
               (methodBasedMiddleWares (aclOf (normalizedPath u cfg)) (actionName a)) h
             = routeStatement (aclOf (normalizedPath u cfg))
                 \<lparr>httpVerb = v, urlPath = p, aclAction = a, handler = h\<rparr>\<close> for v p a h
    unfolding mw by (rule registration_routeStatement)
  show ?thesis
    unfolding addCRUDOperations_routes [OF f(3) run] f names verbs reg routeTable_def
    using m by simp
qed

lemma route_table_without_placeholder_witness:
  \<open>model profileConfig \<noteq> []
   \<and> firstIndex ''__ACTION__'' (aclOf (normalizedPath sampleUtil profileConfig)) = None
   \<and> map_sum id routeContent (addCRUDOperations sampleUtil profileGen) = Inr profileRouteLines
   \<and> profileRouteLines
       = map (routeStatement ''account.profile'')
           (routeTable sampleUtil ''User'' ''/account/profile'' False)\<close>
proof -
  have m: \<open>model profileConfig \<noteq> []\<close>
    by code_simp
  have clean: \<open>firstIndex ''__ACTION__'' (aclOf (normalizedPath sampleUtil profileConfig)) = None\<close>
    by code_simp
  have new: \<open>new_ControllerGen sampleUtil profileConfig emptyWorld
             = (profileGen, snd (new_ControllerGen sampleUtil profileConfig emptyWorld))\<close>
    by (simp add: profileGen_def)
  have \<open>model (config profileGen) \<noteq> []\<close>
    using new_ControllerGen_facts(2) [OF new] m by simp
  with profile_crud_succeeds obtain g where g: \<open>addCRUDOperations sampleUtil profileGen = Inr g\<close>
    by (cases \<open>addCRUDOperations sampleUtil profileGen\<close>) (auto simp add: crudResult_def)
  have e: \<open>map (routeStatement (aclOf (normalizedPath sampleUtil profileConfig)))
             (routeTable sampleUtil
                (pascalCase sampleUtil (camelCase sampleUtil (pascalCase sampleUtil (model profileConfig))))
                (normalizedPath sampleUtil profileConfig)
                (getFieldsByType sampleUtil (model profileConfig) FT_File \<noteq> None))
           = profileRouteLines\<close>
    by code_simp
  have e': \<open>profileRouteLines
            = map (routeStatement ''account.profile'')
                (routeTable sampleUtil ''User'' ''/account/profile'' False)\<close>
    by code_simp
  from route_table_without_placeholder [OF new m g clean] e
  have \<open>routeContent g = profileRouteLines\<close>
    by simp
  with g m clean e' show ?thesis
    by simp
qed

text \<open>
  With the File field \<^verbatim>\<open>avatar\<close> the upload route is registered as the seventh.
\<close>

lemma upload_route_registered:
  \<open>map_sum id routeContent (addCRUDOperations avatarUtil avatarGen)
   = Inr (profileRouteLines @ [uploadRouteLine])\<close>
  by code_simp

text \<open>
  C2. The route table is to bind each route to its ACL action: Read for the three GET
  routes, Add, Edit and Delete for the others. With the route base \<^verbatim>\<open>__ACTION__\<close> the
  access-control identifier is \<^verbatim>\<open>__ACTION__.profile\<close>, and the first occurrence of the
  placeholder that \<^verbatim>\<open>replace\<close> fills is the one inside the identifier: every route is
  registered with \<^verbatim>\<open>this.checkAcl("AclAction.Read.profile", __ACTION__)\<close> and the like,
  not with the statements of the route table.
\<close>

theorem route_placeholder_collision:
  \<open>map_sum id routeContent (addCRUDOperations sampleUtil actionGen) = Inr actionRouteLines
   \<and> normalizedPath sampleUtil actionConfig = ''/__ACTION__/profile''
   \<and> aclOf ''/__ACTION__/profile'' = ''__ACTION__.profile''
   \<and> actionRouteLines
      \<noteq> map (routeStatement ''__ACTION__.profile'')
          (routeTable sampleUtil ''User'' ''/__ACTION__/profile'' False)\<close>
  by code_simp

subsection \<open>Idempotence of the registration\<close>

lemma indexOf_nonneg_iff: \<open>indexOf s pat \<ge> 0 \<longleftrightarrow> sublist pat s\<close>
  using firstIndex_None_iff [of pat s]
  by (auto simp add: indexOf_def split: option.splits)

lemma search_zero_iff: \<open>search s pat = 0 \<longleftrightarrow> firstIndex pat s = Some 0\<close>
  by (simp add: search_def split: option.splits)

lemma replace_keeps_occurrence:
  assumes occ: \<open>s = A @ x @ nl # R\<close>
    and plain: \<open>CHR ''$'' \<notin> set (e @ pat)\<close>
    and single: \<open>nl \<notin> set pat\<close>
    and apart: \<open>\<not> sublist pat x\<close>
  shows \<open>sublist x (replace s pat (e @ pat))\<close>
proof (cases \<open>firstIndex pat s\<close>)
  case None
  then have \<open>replace s pat (e @ pat) = s\<close>
    by (simp add: replace_def)
  then show ?thesis
    unfolding occ sublist_def by auto
next
  case (Some j)
  define C where \<open>C = take j s\<close>
  define D where \<open>D = drop (j + length pat) s\<close>
  from firstIndex_SomeD [OF Some] have s: \<open>s = C @ pat @ D\<close>
    by (simp add: C_def D_def)
  have r: \<open>replace s pat (e @ pat) = C @ e @ pat @ D\<close>
    using replace_Some [OF Some plain] by (simp add: C_def D_def)
  from occ s have \<open>A @ (x @ nl # R) = C @ (pat @ D)\<close>
    by simp
  then have \<open>\<exists>us. A = C @ us \<and> us @ (x @ nl # R) = pat @ D
                \<or> A @ us = C \<and> x @ nl # R = us @ (pat @ D)\<close>
    by (rule append_eq_append_conv2 [THEN iffD1])
  then consider us where \<open>A = C @ us\<close> \<open>us @ x @ nl # R = pat @ D\<close>
    | us where \<open>A @ us = C\<close> \<open>x @ nl # R = us @ pat @ D\<close>
    by auto
  then show ?thesis
  proof cases
    case 1
    then have \<open>replace s pat (e @ pat) = (C @ e @ us) @ x @ (nl # R)\<close>
      by (simp add: r)
    then show ?thesis
      unfolding sublist_def by blast
  next
    case 2
    from 2(2) have \<open>x @ (nl # R) = us @ (pat @ D)\<close>
      by simp
    then have \<open>\<exists>vs. x = us @ vs \<and> vs @ (nl # R) = pat @ D
                  \<or> x @ vs = us \<and> nl # R = vs @ (pat @ D)\<close>
      by (rule append_eq_append_conv2 [THEN iffD1])
    then consider vs where \<open>x = us @ vs\<close> \<open>vs @ nl # R = pat @ D\<close>
      | vs where \<open>x @ vs = us\<close> \<open>nl # R = vs @ pat @ D\<close>
      by auto
    then show ?thesis
    proof cases
      case 2
      with \<open>A @ us = C\<close> have \<open>replace s pat (e @ pat) = A @ x @ (vs @ e @ pat @ D)\<close>
        by (auto simp add: r)
      then show ?thesis
        unfolding sublist_def by blast
    next
      case 1
      show ?thesis
      proof (cases \<open>vs = []\<close>)
        case True
        with 1 \<open>A @ us = C\<close> have \<open>replace s pat (e @ pat) = A @ x @ (e @ pat @ D)\<close>
          by (auto simp add: r)
        then show ?thesis
          unfolding sublist_def by blast
      next
        case False
        from 1(2) have \<open>vs @ (nl # R) = pat @ D\<close>
          by simp
        then have \<open>\<exists>ws. vs = pat @ ws \<and> ws @ (nl # R) = D
                      \<or> vs @ ws = pat \<and> nl # R = ws @ D\<close>
          by (rule append_eq_append_conv2 [THEN iffD1])
        then consider ws where \<open>vs = pat @ ws\<close>
          | ws where \<open>vs @ ws = pat\<close> \<open>nl # R = ws @ D\<close>
          by auto
        then have False
        proof cases
          case 1
          with \<open>x = us @ vs\<close> have \<open>x = us @ pat @ ws\<close>
            by simp
          then have \<open>sublist pat x\<close>
            unfolding sublist_def by blast
          with apart show False by simp
        next
          case 2
          show False
          proof (cases ws)
            case Nil
            with 2 \<open>x = us @ vs\<close> have \<open>x = us @ pat @ []\<close>
              by simp
            then have \<open>sublist pat x\<close>
              unfolding sublist_def by blast
            with apart show False by simp
          next
            case (Cons w ws')
            with 2 have \<open>w = nl\<close> by simp
            with 2(1) Cons have \<open>nl \<in> set pat\<close>
              by auto
            with single show False by simp
          qed
        qed
        then show ?thesis ..
      qed
    qed
  qed
qed

lemma insertAtMarkers_keeps_import:
  assumes marker: \<open>firstIndex (Placeholder_Import u) code \<noteq> None\<close>
    and plain1: \<open>CHR ''$'' \<notin> set (importCode u g @ Placeholder_Import u)\<close>
    and plain2: \<open>CHR ''$'' \<notin> set (embedCode u g @ Placeholder_ExpressController u)\<close>
    and single: \<open>CHR ''\<newline>'' \<notin> set (Placeholder_ExpressController u)\<close>
    and apart: \<open>firstIndex (Placeholder_ExpressController u) (importCode u g) = None\<close>
  shows \<open>sublist (importCode u g) (insertAtMarkers u g code)\<close>
proof -
  from marker obtain i where i: \<open>firstIndex (Placeholder_Import u) code = Some i\<close>
    by auto
  have p1: \<open>CHR ''$'' \<notin> set (importCode u g @ ''\<newline>'' @ Placeholder_Import u)\<close>
    using plain1 by simp
  have 1: \<open>replace code (Placeholder_Import u) (importCode u g @ ''\<newline>'' @ Placeholder_Import u)
           = take i code @ importCode u g @ CHR ''\<newline>''
             # (Placeholder_Import u @ drop (i + length (Placeholder_Import u)) code)\<close>
    using replace_Some [OF i p1] by simp
  have p2: \<open>CHR ''$'' \<notin> set ((embedCode u g @ ''\<newline>'' @ tab2) @ Placeholder_ExpressController u)\<close>
    using plain2 by simp
  have \<open>sublist (importCode u g)
          (replace
             (replace code (Placeholder_Import u)
                (importCode u g @ ''\<newline>'' @ Placeholder_Import u))
             (Placeholder_ExpressController u)
             ((embedCode u g @ ''\<newline>'' @ tab2) @ Placeholder_ExpressController u))\<close>
    using 1 p2 single apart
    by (intro replace_keeps_occurrence) (simp_all add: firstIndex_None_iff)
  then show ?thesis
    by (simp add: insertAtMarkers_def)
qed

lemma generate_second_run:
  assumes ok: \<open>\<not> isl (crudResult u g0)\<close>
    and reg: \<open>files w (registryFilePath g0) = Some code\<close>
    and distinct: \<open>controllerFilePath u g0 \<noteq> registryFilePath g0\<close>
    and marker: \<open>firstIndex (Placeholder_Import u) code \<noteq> None\<close>
    and plain1: \<open>CHR ''$'' \<notin> set (importCode u g0 @ Placeholder_Import u)\<close>
    and plain2: \<open>CHR ''$'' \<notin> set (embedCode u g0 @ Placeholder_ExpressController u)\<close>
    and single: \<open>CHR ''\<newline>'' \<notin> set (Placeholder_ExpressController u)\<close>
    and apart: \<open>firstIndex (Placeholder_ExpressController u) (importCode u g0) = None\<close>
  shows \<open>fst (generate u g0 (snd (generate u g0 w))) = Returned\<close>
    and \<open>files (snd (generate u g0 (snd (generate u g0 w)))) (registryFilePath g0)
         = files (snd (generate u g0 w)) (registryFilePath g0)\<close>
    and \<open>writesTo (registryFilePath g0) (snd (generate u g0 (snd (generate u g0 w))))
         = writesTo (registryFilePath g0) (snd (generate u g0 w))\<close>
proof -
  define w1 where \<open>w1 = snd (generate u g0 w)\<close>
  define code1 where \<open>code1 = patchedRegistry u g0 code\<close>
  have reg1: \<open>files w1 (registryFilePath g0) = Some code1\<close>
    unfolding w1_def code1_def by (rule generate_registry(2) [OF ok reg distinct])
  have settled: \<open>\<not> (search code1 (Placeholder_ExpressController u) \<noteq> 0
                     \<and> indexOf code1 (importCode u g0) < 0)\<close>
  proof (cases \<open>search code (Placeholder_ExpressController u) \<noteq> 0
                \<and> indexOf code (importCode u g0) < 0\<close>)
    case True
    then have \<open>code1 = insertAtMarkers u g0 code\<close>
      by (simp add: code1_def patchedRegistry_def)
    with insertAtMarkers_keeps_import [OF marker plain1 plain2 single apart]
    have \<open>sublist (importCode u g0) code1\<close>
      by simp
    then have \<open>indexOf code1 (importCode u g0) \<ge> 0\<close>
      by (simp add: indexOf_nonneg_iff)
    then show ?thesis by simp
  next
    case False
    then have \<open>code1 = code\<close>
      unfolding code1_def patchedRegistry_def by (simp only: if_False)
    with False show ?thesis by simp
  qed
  show \<open>fst (generate u g0 (snd (generate u g0 w))) = Returned\<close>
    using generate_registry(1) [OF ok reg1 distinct] by (simp add: w1_def)
  show \<open>files (snd (generate u g0 (snd (generate u g0 w)))) (registryFilePath g0)
         = files (snd (generate u g0 w)) (registryFilePath g0)\<close>
    using generate_registry(2) [OF ok reg1 distinct] settled reg1
    by (simp add: w1_def patchedRegistry_def)
  show \<open>writesTo (registryFilePath g0) (snd (generate u g0 (snd (generate u g0 w))))
         = writesTo (registryFilePath g0) (snd (generate u g0 w))\<close>
    using generate_registry(3) [OF ok reg1 distinct] settled
    by (simp add: w1_def)
qed

text \<open>
  Where the patch is idempotent. When the registry already holds the import statement of
  the controller, a run of \<^verbatim>\<open>generate\<close> writes nothing to it. When the registry holds the
  import marker and the inserted texts are plain (no dollar sign in the import
  statement, the binding or the markers; the controller marker is one line and does not
  occur in the import statement), a second run for the same generator leaves the
  registry as the first run left it and writes nothing to it.
\<close>

theorem registration_patch_idempotent:
  assumes ok: \<open>\<not> isl (crudResult u g0)\<close>
    and reg: \<open>files w (registryFilePath g0) = Some code\<close>
    and distinct: \<open>controllerFilePath u g0 \<noteq> registryFilePath g0\<close>
  shows \<open>(indexOf code (importCode u g0) \<ge> 0
          \<longrightarrow> writesTo (registryFilePath g0) (snd (generate u g0 w))
                = writesTo (registryFilePath g0) w
              \<and> files (snd (generate u g0 w)) (registryFilePath g0) = Some code)
       \<and> (firstIndex (Placeholder_Import u) code \<noteq> None
          \<and> CHR ''$'' \<notin> set (importCode u g0 @ Placeholder_Import u)
          \<and> CHR ''$'' \<notin> set (embedCode u g0 @ Placeholder_ExpressController u)
          \<and> CHR ''\<newline>'' \<notin> set (Placeholder_ExpressController u)
          \<and> firstIndex (Placeholder_ExpressController u) (importCode u g0) = None
          \<longrightarrow> fst (generate u g0 (snd (generate u g0 w))) = Returned
              \<and> files (snd (generate u g0 (snd (generate u g0 w)))) (registryFilePath g0)
                = files (snd (generate u g0 w)) (registryFilePath g0)
              \<and> writesTo (registryFilePath g0) (snd (generate u g0 (snd (generate u g0 w))))
                = writesTo (registryFilePath g0) (snd (generate u g0 w)))\<close>
proof (intro conjI impI)
  assume \<open>indexOf code (importCode u g0) \<ge> 0\<close>
  then show \<open>writesTo (registryFilePath g0) (snd (generate u g0 w))
             = writesTo (registryFilePath g0) w\<close>
    using generate_registry(3) [OF ok reg distinct] by simp
  from \<open>indexOf code (importCode u g0) \<ge> 0\<close>
  show \<open>files (snd (generate u g0 w)) (registryFilePath g0) = Some code\<close>
    using generate_registry(2) [OF ok reg distinct] by (simp add: patchedRegistry_def)
next
  assume h: \<open>firstIndex (Placeholder_Import u) code \<noteq> None
          \<and> CHR ''$'' \<notin> set (importCode u g0 @ Placeholder_Import u)
          \<and> CHR ''$'' \<notin> set (embedCode u g0 @ Placeholder_ExpressController u)
          \<and> CHR ''\<newline>'' \<notin> set (Placeholder_ExpressController u)
          \<and> firstIndex (Placeholder_ExpressController u) (importCode u g0) = None\<close>
  then have h1: \<open>firstIndex (Placeholder_Import u) code \<noteq> None\<close>
    and h2: \<open>CHR ''$'' \<notin> set (importCode u g0 @ Placeholder_Import u)\<close>
    and h3: \<open>CHR ''$'' \<notin> set (embedCode u g0 @ Placeholder_ExpressController u)\<close>
    and h4: \<open>CHR ''\<newline>'' \<notin> set (Placeholder_ExpressController u)\<close>
    and h5: \<open>firstIndex (Placeholder_ExpressController u) (importCode u g0) = None\<close>
    by blast+
  note s = generate_second_run [OF ok reg distinct h1 h2 h3 h4 h5]
  from s(1) show \<open>fst (generate u g0 (snd (generate u g0 w))) = Returned\<close> .
  from s(2) show \<open>files (snd (generate u g0 (snd (generate u g0 w)))) (registryFilePath g0)
                = files (snd (generate u g0 w)) (registryFilePath g0)\<close> .
  from s(3) show \<open>writesTo (registryFilePath g0) (snd (generate u g0 (snd (generate u g0 w))))
                = writesTo (registryFilePath g0) (snd (generate u g0 w))\<close> .
qed

theorem registration_patch_idempotent_witness:
  \<open>\<not> isl (crudResult sampleUtil profileGen)
   \<and> files sampleWorld (registryFilePath profileGen) = Some sampleRegistry
   \<and> controllerFilePath sampleUtil profileGen \<noteq> registryFilePath profileGen
   \<and> firstIndex (Placeholder_Import sampleUtil) sampleRegistry \<noteq> None
   \<and> CHR ''$'' \<notin> set (importCode sampleUtil profileGen @ Placeholder_Import sampleUtil)
   \<and> CHR ''$'' \<notin> set (embedCode sampleUtil profileGen @ Placeholder_ExpressController sampleUtil)
   \<and> CHR ''\<newline>'' \<notin> set (Placeholder_ExpressController sampleUtil)
   \<and> firstIndex (Placeholder_ExpressController sampleUtil) (importCode sampleUtil profileGen) = None
   \<and> files (snd (generate sampleUtil profileGen sampleWorld)) (registryFilePath profileGen)
       = Some registeredRegistry
   \<and> files (snd (generate sampleUtil profileGen (snd (generate sampleUtil profileGen sampleWorld))))
        (registryFilePath profileGen)
       = Some registeredRegistry
   \<and> writesTo (registryFilePath profileGen)
        (snd (generate sampleUtil profileGen (snd (generate sampleUtil profileGen sampleWorld))))
       = [registeredRegistry]
   \<and> indexOf registeredRegistry (importCode sampleUtil profileGen) \<ge> 0
   \<and> writesTo (registryFilePath profileGen)
        (snd (generate sampleUtil profileGen (registryWorld registeredRegistry)))
       = []\<close>
proof -
  note ok = profile_crud_succeeds
  have reg: \<open>files sampleWorld (registryFilePath profileGen) = Some sampleRegistry\<close>
    by code_simp
  have distinct: \<open>controllerFilePath sampleUtil profileGen \<noteq> registryFilePath profileGen\<close>
    by code_simp
  have h1: \<open>firstIndex (Placeholder_Import sampleUtil) sampleRegistry \<noteq> None\<close>
    by code_simp
  have h2: \<open>CHR ''$'' \<notin> set (importCode sampleUtil profileGen @ Placeholder_Import sampleUtil)\<close>
    by code_simp
  have h3: \<open>CHR ''$'' \<notin> set (embedCode sampleUtil profileGen
                               @ Placeholder_ExpressController sampleUtil)\<close>
    by code_simp
  have h4: \<open>CHR ''\<newline>'' \<notin> set (Placeholder_ExpressController sampleUtil)\<close>
    by code_simp
  have h5: \<open>firstIndex (Placeholder_ExpressController sampleUtil)
              (importCode sampleUtil profileGen) = None\<close>
    by code_simp
  have p: \<open>patchedRegistry sampleUtil profileGen sampleRegistry = registeredRegistry\<close>
    by code_simp
  have first: \<open>files (snd (generate sampleUtil profileGen sampleWorld))
                  (registryFilePath profileGen) = Some registeredRegistry\<close>
    using generate_registry(2) [OF ok reg distinct] p by simp
  have w0: \<open>writesTo (registryFilePath profileGen) sampleWorld = []\<close>
    by code_simp
  have c: \<open>search sampleRegistry (Placeholder_ExpressController sampleUtil) \<noteq> 0
           \<and> indexOf sampleRegistry (importCode sampleUtil profileGen) < 0\<close>
    by code_simp
  have firstw: \<open>writesTo (registryFilePath profileGen) (snd (generate sampleUtil profileGen sampleWorld))
                = [registeredRegistry]\<close>
    using generate_registry(3) [OF ok reg distinct] w0 c p
    by (simp add: patchedRegistry_def)
  have reg': \<open>files (registryWorld registeredRegistry) (registryFilePath profileGen)
              = Some registeredRegistry\<close>
    by code_simp
  have i: \<open>indexOf registeredRegistry (importCode sampleUtil profileGen) \<ge> 0\<close>
    by code_simp
  have w0': \<open>writesTo (registryFilePath profileGen) (registryWorld registeredRegistry) = []\<close>
    by code_simp
  from registration_patch_idempotent [OF ok reg distinct]
    registration_patch_idempotent [OF ok reg' distinct]
    ok reg distinct h1 h2 h3 h4 h5 first firstw i w0'
  show ?thesis by simp
qed

text \<open>
  C6. Running generation twice is to leave the registry byte-identical after the second
  run, with neither the import nor the binding duplicated. The only guard of \<^verbatim>\<open>generate\<close>
  is the test that the import statement occurs in the registry, and it misses on two
  inputs. For a registry that has the controller marker but no import marker, no import
  statement can be inserted, and each run inserts the binding again. For the sample
  registry and the route \<^verbatim>\<open>p$$q\<close>, \<^verbatim>\<open>replace\<close> expands the \<^verbatim>\<open>$$\<close> of the import statement to
  \<^verbatim>\<open>$\<close>: the statement looked for never occurs in the registry, and each run inserts the
  import and the binding again.
\<close>

theorem registration_patch_not_idempotent:
  \<open>files (registryWorld bindingOnlyRegistry) ''src/api/v1/import.ts'' = Some bindingOnlyRegistry
   \<and> files (snd (generate sampleUtil profileGen (registryWorld bindingOnlyRegistry)))
        ''src/api/v1/import.ts''
       = Some onceBoundRegistry
   \<and> files (snd (generate sampleUtil profileGen
                  (snd (generate sampleUtil profileGen (registryWorld bindingOnlyRegistry)))))
        ''src/api/v1/import.ts''
       = Some twiceBoundRegistry
   \<and> onceBoundRegistry \<noteq> twiceBoundRegistry
   \<and> files sampleWorld ''src/api/v1/import.ts'' = Some sampleRegistry
   \<and> files (snd (generate sampleUtil dollarGen sampleWorld)) ''src/api/v1/import.ts''
       = Some dollarOnceRegistry
   \<and> files (snd (generate sampleUtil dollarGen (snd (generate sampleUtil dollarGen sampleWorld))))
        ''src/api/v1/import.ts''
       = Some dollarTwiceRegistry
   \<and> dollarOnceRegistry \<noteq> dollarTwiceRegistry
   \<and> importCode sampleUtil dollarGen = dollarImport
   \<and> firstIndex dollarImport dollarOnceRegistry = None\<close>
proof -
  note ok = profile_crud_succeeds
  have path: \<open>registryFilePath profileGen = ''src/api/v1/import.ts''\<close>
    by code_simp
  have reg: \<open>files (registryWorld bindingOnlyRegistry) (registryFilePath profileGen)
             = Some bindingOnlyRegistry\<close>
    by code_simp
  have distinct: \<open>controllerFilePath sampleUtil profileGen \<noteq> registryFilePath profileGen\<close>
    by code_simp
  have p1: \<open>patchedRegistry sampleUtil profileGen bindingOnlyRegistry = onceBoundRegistry\<close>
    by code_simp
  have p2: \<open>patchedRegistry sampleUtil profileGen onceBoundRegistry = twiceBoundRegistry\<close>
    by code_simp
  have ne: \<open>onceBoundRegistry \<noteq> twiceBoundRegistry\<close>
    by code_simp
  have first: \<open>files (snd (generate sampleUtil profileGen (registryWorld bindingOnlyRegistry)))
                  (registryFilePath profileGen) = Some onceBoundRegistry\<close>
    using generate_registry(2) [OF ok reg distinct] p1 by simp
  have second: \<open>files (snd (generate sampleUtil profileGen
                  (snd (generate sampleUtil profileGen (registryWorld bindingOnlyRegistry)))))
                  (registryFilePath profileGen) = Some twiceBoundRegistry\<close>
    using generate_registry(2) [OF ok first distinct] p2 by simp
  have ok': \<open>\<not> isl (crudResult sampleUtil dollarGen)\<close>
    by code_simp
  have path': \<open>registryFilePath dollarGen = ''src/api/v1/import.ts''\<close>
    by code_simp
  have reg': \<open>files sampleWorld (registryFilePath dollarGen) = Some sampleRegistry\<close>
    by code_simp
  have distinct': \<open>controllerFilePath sampleUtil dollarGen \<noteq> registryFilePath dollarGen\<close>
    by code_simp
  have q1: \<open>patchedRegistry sampleUtil dollarGen sampleRegistry = dollarOnceRegistry\<close>
    by code_simp
  have q2: \<open>patchedRegistry sampleUtil dollarGen dollarOnceRegistry = dollarTwiceRegistry\<close>
    by code_simp
  have ne': \<open>dollarOnceRegistry \<noteq> dollarTwiceRegistry\<close>
    by code_simp
  have imp: \<open>importCode sampleUtil dollarGen = dollarImport
             \<and> firstIndex dollarImport dollarOnceRegistry = None\<close>
    by code_simp
  have first': \<open>files (snd (generate sampleUtil dollarGen sampleWorld))
                  (registryFilePath dollarGen) = Some dollarOnceRegistry\<close>
    using generate_registry(2) [OF ok' reg' distinct'] q1 by simp
  have second': \<open>files (snd (generate sampleUtil dollarGen
                  (snd (generate sampleUtil dollarGen sampleWorld))))
                  (registryFilePath dollarGen) = Some dollarTwiceRegistry\<close>
    using generate_registry(2) [OF ok' first' distinct'] q2 by simp
  from reg first second ne reg' first' second' ne' imp show ?thesis
    unfolding path path' by blast
qed


subsection \<open>The upload handler and the security profile\<close>

lemma firstIndex_None_sublist:
  assumes \<open>firstIndex m t = None\<close> and \<open>sublist m s\<close>
  shows \<open>firstIndex s t = None\<close>
proof -
  from assms(2) obtain a b where s: \<open>s = a @ m @ b\<close>
    unfolding sublist_def by blast
  have \<open>\<not> sublist s t\<close>
  proof
    assume \<open>sublist s t\<close>
    then obtain c d where \<open>t = c @ s @ d\<close>
      unfolding sublist_def by blast
    with s have \<open>t = (c @ a) @ m @ (b @ d)\<close>
      by simp
    then have \<open>sublist m t\<close>
      unfolding sublist_def by blast
    with assms(1) show False
      by (simp add: firstIndex_None_iff)
  qed
  then show ?thesis
    by (simp add: firstIndex_None_iff)
qed

lemma firstIndex_Cons_None:
  \<open>firstIndex pat (x # xs) = None \<longleftrightarrow> \<not> prefix pat (x # xs) \<and> firstIndex pat xs = None\<close>
  by simp

lemma firstIndex_skip_name:
  assumes \<open>firstIndex pat v = None\<close> and \<open>c \<notin> set pat\<close>
  shows \<open>firstIndex pat (v @ c # s) = None \<longleftrightarrow> firstIndex pat s = None\<close>
proof -
  have ne: \<open>pat \<noteq> []\<close>
    using assms(1) by (cases v) auto
  have v: \<open>\<not> sublist pat v\<close>
    using assms(1) by (simp add: firstIndex_None_iff)
  have \<open>sublist pat (v @ c # s) \<longleftrightarrow> sublist pat s\<close>
  proof
    assume \<open>sublist pat (v @ c # s)\<close>
    then consider \<open>sublist pat v\<close> | \<open>sublist pat (c # s)\<close>
      | xs1 xs2 where \<open>pat = xs1 @ xs2\<close> \<open>suffix xs1 v\<close> \<open>prefix xs2 (c # s)\<close>
      unfolding sublist_append by blast
    then show \<open>sublist pat s\<close>
    proof cases
      case 1
      with v show ?thesis by simp
    next
      case 2
      then have \<open>prefix pat (c # s) \<or> sublist pat s\<close>
        by (simp add: sublist_Cons_right)
      moreover have \<open>\<not> prefix pat (c # s)\<close>
        using ne assms(2) by (cases pat) auto
      ultimately show ?thesis by simp
    next
      case 3
      show ?thesis
      proof (cases xs2)
        case Nil
        with 3 have \<open>suffix pat v\<close> by simp
        then have \<open>sublist pat v\<close> by (rule suffix_imp_sublist)
        with v show ?thesis by simp
      next
        case (Cons y ys)
        with 3(3) have \<open>y = c\<close> by simp
        with Cons 3(1) have \<open>c \<in> set pat\<close> by simp
        with assms(2) show ?thesis by simp
      qed
    qed
  next
    assume \<open>sublist pat s\<close>
    then show \<open>sublist pat (v @ c # s)\<close>
      by (simp add: sublist_append sublist_Cons_right)
  qed
  then show ?thesis
    by (simp add: firstIndex_None_iff)
qed

lemma firstIndex_skip_free:
  assumes \<open>c \<notin> set v\<close>
  shows \<open>firstIndex (c # ps) (v @ s) = None \<longleftrightarrow> firstIndex (c # ps) s = None\<close>
proof -
  have \<open>sublist (c # ps) (v @ s) \<longleftrightarrow> sublist (c # ps) s\<close>
  proof
    assume \<open>sublist (c # ps) (v @ s)\<close>
    then consider \<open>sublist (c # ps) v\<close> | \<open>sublist (c # ps) s\<close>
      | xs1 xs2 where \<open>c # ps = xs1 @ xs2\<close> \<open>suffix xs1 v\<close> \<open>prefix xs2 s\<close>
      unfolding sublist_append by blast
    then show \<open>sublist (c # ps) s\<close>
    proof cases
      case 1
      then have \<open>set (c # ps) \<subseteq> set v\<close> by (rule set_mono_sublist)
      with assms show ?thesis by simp
    next
      case 2
      then show ?thesis .
    next
      case 3
      show ?thesis
      proof (cases xs1)
        case Nil
        with 3 have \<open>prefix (c # ps) s\<close> by simp
        then show ?thesis by (rule prefix_imp_sublist)
      next
        case (Cons y ys)
        with 3(1) have \<open>y = c\<close> by simp
        with Cons 3(2) have \<open>c \<in> set v\<close>
          by (auto simp add: suffix_def)
        with assms show ?thesis by simp
      qed
    qed
  next
    assume \<open>sublist (c # ps) s\<close>
    then show \<open>sublist (c # ps) (v @ s)\<close>
      by (simp add: sublist_append)
  qed
  then show ?thesis
    by (simp only: firstIndex_None_iff)
qed

lemma bracket_not_identifier: \<open>list_all isIdentifierChar n \<Longrightarrow> CHR ''['' \<notin> set n\<close>
  by (auto simp add: list_all_iff isIdentifierChar_def isLetter_def)

lemma uploadFieldBlock_skip_name:
  assumes \<open>pat = ''authUser'' \<or> pat = ''isAdmin''\<close>
    and \<open>firstIndex pat mi = None\<close>
    and \<open>firstIndex pat f = None\<close> and \<open>firstIndex pat (pascalCase u f) = None\<close>
  shows \<open>firstIndex pat (uploadFieldBlock u mi f @ rest) = None
         \<longleftrightarrow> firstIndex pat rest = None\<close>
  using assms(1)
proof
  assume p: \<open>pat = ''authUser''\<close>
  show ?thesis
    using assms(2-4) unfolding p
    by (simp add: uploadFieldBlock_def Let_def firstIndex_Cons_None firstIndex_skip_name
             del: firstIndex.simps(2))
next
  assume p: \<open>pat = ''isAdmin''\<close>
  show ?thesis
    using assms(2-4) unfolding p
    by (simp add: uploadFieldBlock_def Let_def firstIndex_Cons_None firstIndex_skip_name
             del: firstIndex.simps(2))
qed

lemma uploadFieldBlocks_skip_name:
  assumes \<open>pat = ''authUser'' \<or> pat = ''isAdmin''\<close>
    and \<open>firstIndex pat mi = None\<close>
    and \<open>\<forall>f\<in>set fs. firstIndex pat f = None \<and> firstIndex pat (pascalCase u f) = None\<close>
  shows \<open>firstIndex pat (concat (map (uploadFieldBlock u mi) fs) @ rest) = None
         \<longleftrightarrow> firstIndex pat rest = None\<close>
  using assms(3)
proof (induction fs)
  case Nil
  show ?case by simp
next
  case (Cons f fs)
  then have ih: \<open>firstIndex pat (concat (map (uploadFieldBlock u mi) fs) @ rest) = None
                 \<longleftrightarrow> firstIndex pat rest = None\<close>
    and f: \<open>firstIndex pat f = None\<close> \<open>firstIndex pat (pascalCase u f) = None\<close>
    by simp_all
  have \<open>concat (map (uploadFieldBlock u mi) (f # fs)) @ rest
        = uploadFieldBlock u mi f @ (concat (map (uploadFieldBlock u mi) fs) @ rest)\<close>
    by (simp only: list.map concat.simps append_assoc)
  then show ?case
    using uploadFieldBlock_skip_name [OF assms(1,2) f] ih by (simp only:)
qed

lemma uploadFieldBlock_skip_bracket:
  assumes \<open>CHR ''['' \<notin> set mi\<close>
    and \<open>CHR ''['' \<notin> set f\<close> and \<open>CHR ''['' \<notin> set (pascalCase u f)\<close>
  shows \<open>firstIndex (CHR ''['' # ps) (uploadFieldBlock u mi f @ rest) = None
         \<longleftrightarrow> firstIndex (CHR ''['' # ps) rest = None\<close>
  using assms
  by (simp add: uploadFieldBlock_def Let_def firstIndex_Cons_None firstIndex_skip_free
           del: firstIndex.simps(2))

lemma uploadFieldBlocks_skip_bracket:
  assumes \<open>CHR ''['' \<notin> set mi\<close>
    and \<open>\<forall>f\<in>set fs. CHR ''['' \<notin> set f \<and> CHR ''['' \<notin> set (pascalCase u f)\<close>
  shows \<open>firstIndex (CHR ''['' # ps) (concat (map (uploadFieldBlock u mi) fs) @ rest) = None
         \<longleftrightarrow> firstIndex (CHR ''['' # ps) rest = None\<close>
  using assms(2)
proof (induction fs)
  case Nil
  show ?case by simp
next
  case (Cons f fs)
  then have ih: \<open>firstIndex (CHR ''['' # ps) (concat (map (uploadFieldBlock u mi) fs) @ rest) = None
                 \<longleftrightarrow> firstIndex (CHR ''['' # ps) rest = None\<close>
    and f: \<open>CHR ''['' \<notin> set f\<close> \<open>CHR ''['' \<notin> set (pascalCase u f)\<close>
    by simp_all
  have \<open>concat (map (uploadFieldBlock u mi) (f # fs)) @ rest
        = uploadFieldBlock u mi f @ (concat (map (uploadFieldBlock u mi) fs) @ rest)\<close>
    by (simp only: list.map concat.simps append_assoc)
  then show ?case
    using uploadFieldBlock_skip_bracket [OF assms(1) f] ih by (simp only:)
qed


lemma getUploadCode_text:
  assumes \<open>map_sum id fst (getUploadCode u g) = Inr t\<close>
  shows \<open>\<exists>ff. filesFields g = Some ff
     \<and> t = ''const id = this.retrieveId(req);\<newline>''
           @ ''        const destDirectory = join(this.config.dir.upload, "''
           @ camelCase u (pascalCase u (model (config g))) @ ''");\<newline>''
           @ ''        const result = await '' @ pascalCase u (model (config g)) @ ''.find<I''
           @ pascalCase u (model (config g)) @ ''>(id);\<newline>''
           @ ''        if (result.items.length !== 1) {\<newline>''
           @ ''            throw new Err(Err.Code.DBRecordCount, "''
           @ pascalCase u (model (config g)) @ '' not found");\<newline>''
           @ ''        }\<newline>''
           @ ''        const '' @ camelCase u (pascalCase u (model (config g))) @ '' = new ''
           @ pascalCase u (model (config g)) @ ''(result.items[0]);\<newline>''
           @ ''        const uploader = new FileUploader<I'' @ pascalCase u (model (config g))
           @ ''>(true);\<newline>''
           @ ''        await uploader.parse(req);\<newline>''
           @ ''        const upl = await uploader.upload(destDirectory);\<newline>''
           @ ''        ''
           @ (case keys ff of
                [f] \<Rightarrow>
                  ''const oldFileName = '' @ camelCase u (pascalCase u (model (config g)))
                  @ ''.'' @ f @ '';\<newline>''
                  @ ''        '' @ camelCase u (pascalCase u (model (config g))) @ ''.'' @ f
                  @ '' = upl.'' @ f @ '';\<newline>''
                  @ ''        if (oldFileName) {\<newline>''
                  @ ''            await FileUploader.checkAndDeleteFile(`${destDirectory}/${oldFileName}`);\<newline>''
                  @ ''        }''
              | _ \<Rightarrow>
                  ''const delList: Array<Promise<string>> = [];''
                  @ concat (map (uploadFieldBlock u (camelCase u (pascalCase u (model (config g)))))
                              (keys ff))
                  @ ''\<newline>''
                  @ ''        await Promise.all(delList);'')
           @ ''\<newline>''
           @ ''        const uResult = await '' @ camelCase u (pascalCase u (model (config g)))
           @ ''.update();\<newline>''
           @ ''        res.json(uResult);''\<close>
  using assms
  by (cases \<open>filesFields g\<close>)
     (auto simp add: getUploadCode_def addImport_def Let_def split: list.splits)


lemma getUploadCode_no_name_marker:
  assumes run: \<open>map_sum id fst (getUploadCode u g) = Inr t\<close>
    and names: \<open>\<forall>n\<in>set (uploadNames u g). firstIndex pat n = None\<close>
    and pat: \<open>pat = ''authUser'' \<or> pat = ''isAdmin''\<close>
  shows \<open>firstIndex pat t = None\<close>
proof -
  define mn where \<open>mn = pascalCase u (model (config g))\<close>
  define mi where \<open>mi = camelCase u mn\<close>
  from getUploadCode_text [OF run] obtain ff where ff: \<open>filesFields g = Some ff\<close>
    and t: \<open>t = ''const id = this.retrieveId(req);\<newline>''
           @ ''        const destDirectory = join(this.config.dir.upload, "''
           @ mi @ ''");\<newline>''
           @ ''        const result = await '' @ mn @ ''.find<I''
           @ mn @ ''>(id);\<newline>''
           @ ''        if (result.items.length !== 1) {\<newline>''
           @ ''            throw new Err(Err.Code.DBRecordCount, "''
           @ mn @ '' not found");\<newline>''
           @ ''        }\<newline>''
           @ ''        const '' @ mi @ '' = new ''
           @ mn @ ''(result.items[0]);\<newline>''
           @ ''        const uploader = new FileUploader<I'' @ mn
           @ ''>(true);\<newline>''
           @ ''        await uploader.parse(req);\<newline>''
           @ ''        const upl = await uploader.upload(destDirectory);\<newline>''
           @ ''        ''
           @ (case keys ff of
                [f] \<Rightarrow>
                  ''const oldFileName = '' @ mi
                  @ ''.'' @ f @ '';\<newline>''
                  @ ''        '' @ mi @ ''.'' @ f
                  @ '' = upl.'' @ f @ '';\<newline>''
                  @ ''        if (oldFileName) {\<newline>''
                  @ ''            await FileUploader.checkAndDeleteFile(`${destDirectory}/${oldFileName}`);\<newline>''
                  @ ''        }''
              | _ \<Rightarrow>
                  ''const delList: Array<Promise<string>> = [];''
                  @ concat (map (uploadFieldBlock u mi) (keys ff))
                  @ ''\<newline>''
                  @ ''        await Promise.all(delList);'')
           @ ''\<newline>''
           @ ''        const uResult = await '' @ mi
           @ ''.update();\<newline>''
           @ ''        res.json(uResult);''\<close>
    unfolding mi_def mn_def by blast
  have n1: \<open>firstIndex pat mn = None\<close> and n2: \<open>firstIndex pat mi = None\<close>
    and n3: \<open>\<forall>f\<in>set (keys ff). firstIndex pat f = None \<and> firstIndex pat (pascalCase u f) = None\<close>
    using names by (simp_all add: uploadNames_def Let_def ff mn_def mi_def)
  have blocks: \<open>firstIndex pat (concat (map (uploadFieldBlock u mi) (keys ff)) @ rest) = None
                 \<longleftrightarrow> firstIndex pat rest = None\<close> for rest
    using pat n2 n3 by (rule uploadFieldBlocks_skip_name)
  from pat show ?thesis
  proof
    assume p: \<open>pat = ''authUser''\<close>
    show ?thesis
    proof (cases \<open>keys ff\<close>)
      case Nil
      show ?thesis
        using n1 n2 unfolding t Nil p
        by (simp add: firstIndex_Cons_None firstIndex_skip_name del: firstIndex.simps(2))
    next
      case (Cons f fs)
      show ?thesis
      proof (cases fs)
        case Nil
        from n3 Cons have \<open>firstIndex pat f = None\<close>
          by simp
        then show ?thesis
          using n1 n2 unfolding t Cons Nil p
          by (simp add: firstIndex_Cons_None firstIndex_skip_name del: firstIndex.simps(2))
      next
        case (Cons f2 fs2)
        with \<open>keys ff = f # fs\<close> have k: \<open>keys ff = f # f2 # fs2\<close>
          by simp
        have c: \<open>(case keys ff of
                    [x] \<Rightarrow> A x
                  | _ \<Rightarrow> B) = B\<close> for A :: \<open>string \<Rightarrow> string\<close> and B
          by (simp add: k)
        show ?thesis
          using n1 n2 blocks unfolding t c p
          by (simp add: firstIndex_Cons_None firstIndex_skip_name del: firstIndex.simps(2))
      qed
    qed
  next
    assume p: \<open>pat = ''isAdmin''\<close>
    show ?thesis
    proof (cases \<open>keys ff\<close>)
      case Nil
      show ?thesis
        using n1 n2 unfolding t Nil p
        by (simp add: firstIndex_Cons_None firstIndex_skip_name del: firstIndex.simps(2))
    next
      case (Cons f fs)
      show ?thesis
      proof (cases fs)
        case Nil
        from n3 Cons have \<open>firstIndex pat f = None\<close>
          by simp
        then show ?thesis
          using n1 n2 unfolding t Cons Nil p
          by (simp add: firstIndex_Cons_None firstIndex_skip_name del: firstIndex.simps(2))
      next
        case (Cons f2 fs2)
        with \<open>keys ff = f # fs\<close> have k: \<open>keys ff = f # f2 # fs2\<close>
          by simp
        have c: \<open>(case keys ff of
                    [x] \<Rightarrow> A x
                  | _ \<Rightarrow> B) = B\<close> for A :: \<open>string \<Rightarrow> string\<close> and B
          by (simp add: k)
        show ?thesis
          using n1 n2 blocks unfolding t c p
          by (simp add: firstIndex_Cons_None firstIndex_skip_name del: firstIndex.simps(2))
      qed
    qed
  qed
qed

lemma getUploadCode_no_bracket_marker:
  assumes run: \<open>map_sum id fst (getUploadCode u g) = Inr t\<close>
    and names: \<open>\<forall>n\<in>set (uploadNames u g). CHR ''['' \<notin> set n\<close>
    and pat: \<open>pat = ''[0].'' \<or> pat = ''[i].''\<close>
  shows \<open>firstIndex pat t = None\<close>
proof -
  define mn where \<open>mn = pascalCase u (model (config g))\<close>
  define mi where \<open>mi = camelCase u mn\<close>
  from getUploadCode_text [OF run] obtain ff where ff: \<open>filesFields g = Some ff\<close>
    and t: \<open>t = ''const id = this.retrieveId(req);\<newline>''
           @ ''        const destDirectory = join(this.config.dir.upload, "''
           @ mi @ ''");\<newline>''
           @ ''        const result = await '' @ mn @ ''.find<I''
           @ mn @ ''>(id);\<newline>''
           @ ''        if (result.items.length !== 1) {\<newline>''
           @ ''            throw new Err(Err.Code.DBRecordCount, "''
           @ mn @ '' not found");\<newline>''
           @ ''        }\<newline>''
           @ ''        const '' @ mi @ '' = new ''
           @ mn @ ''(result.items[0]);\<newline>''
           @ ''        const uploader = new FileUploader<I'' @ mn
           @ ''>(true);\<newline>''
           @ ''        await uploader.parse(req);\<newline>''
           @ ''        const upl = await uploader.upload(destDirectory);\<newline>''
           @ ''        ''
           @ (case keys ff of
                [f] \<Rightarrow>
                  ''const oldFileName = '' @ mi
                  @ ''.'' @ f @ '';\<newline>''
                  @ ''        '' @ mi @ ''.'' @ f
                  @ '' = upl.'' @ f @ '';\<newline>''
                  @ ''        if (oldFileName) {\<newline>''
                  @ ''            await FileUploader.checkAndDeleteFile(`${destDirectory}/${oldFileName}`);\<newline>''
                  @ ''        }''
              | _ \<Rightarrow>
                  ''const delList: Array<Promise<string>> = [];''
                  @ concat (map (uploadFieldBlock u mi) (keys ff))
                  @ ''\<newline>''
                  @ ''        await Promise.all(delList);'')
           @ ''\<newline>''
           @ ''        const uResult = await '' @ mi
           @ ''.update();\<newline>''
           @ ''        res.json(uResult);''\<close>
    unfolding mi_def mn_def by blast
  have n1: \<open>CHR ''['' \<notin> set mn\<close> and n2: \<open>CHR ''['' \<notin> set mi\<close>
    and n3: \<open>\<forall>f\<in>set (keys ff). CHR ''['' \<notin> set f \<and> CHR ''['' \<notin> set (pascalCase u f)\<close>
    using names by (simp_all add: uploadNames_def Let_def ff mn_def mi_def)
  have blocks: \<open>firstIndex (CHR ''['' # ps)
                   (concat (map (uploadFieldBlock u mi) (keys ff)) @ rest) = None
                 \<longleftrightarrow> firstIndex (CHR ''['' # ps) rest = None\<close> for rest ps
    using n2 n3 by (rule uploadFieldBlocks_skip_bracket)
  from pat show ?thesis
  proof
    assume p: \<open>pat = ''[0].''\<close>
    show ?thesis
    proof (cases \<open>keys ff\<close>)
      case Nil
      show ?thesis
        using n1 n2 unfolding t Nil p
        by (simp add: firstIndex_Cons_None firstIndex_skip_free del: firstIndex.simps(2))
    next
      case (Cons f fs)
      show ?thesis
      proof (cases fs)
        case Nil
        from n3 Cons have \<open>CHR ''['' \<notin> set f\<close>
          by simp
        then show ?thesis
          using n1 n2 unfolding t Cons Nil p
          by (simp add: firstIndex_Cons_None firstIndex_skip_free del: firstIndex.simps(2))
      next
        case (Cons f2 fs2)
        with \<open>keys ff = f # fs\<close> have k: \<open>keys ff = f # f2 # fs2\<close>
          by simp
        have c: \<open>(case keys ff of
                    [x] \<Rightarrow> A x
                  | _ \<Rightarrow> B) = B\<close> for A :: \<open>string \<Rightarrow> string\<close> and B
          by (simp add: k)
        show ?thesis
          using n1 n2 blocks unfolding t c p
          by (simp add: firstIndex_Cons_None firstIndex_skip_free del: firstIndex.simps(2))
      qed
    qed
  next
    assume p: \<open>pat = ''[i].''\<close>
    show ?thesis
    proof (cases \<open>keys ff\<close>)
      case Nil
      show ?thesis
        using n1 n2 unfolding t Nil p
        by (simp add: firstIndex_Cons_None firstIndex_skip_free del: firstIndex.simps(2))
    next
      case (Cons f fs)
      show ?thesis
      proof (cases fs)
        case Nil
        from n3 Cons have \<open>CHR ''['' \<notin> set f\<close>
          by simp
        then show ?thesis
          using n1 n2 unfolding t Cons Nil p
          by (simp add: firstIndex_Cons_None firstIndex_skip_free del: firstIndex.simps(2))
      next
        case (Cons f2 fs2)
        with \<open>keys ff = f # fs\<close> have k: \<open>keys ff = f # f2 # fs2\<close>
          by simp
        have c: \<open>(case keys ff of
                    [x] \<Rightarrow> A x
                  | _ \<Rightarrow> B) = B\<close> for A :: \<open>string \<Rightarrow> string\<close> and B
          by (simp add: k)
        show ?thesis
          using n1 n2 blocks unfolding t c p
          by (simp add: firstIndex_Cons_None firstIndex_skip_free del: firstIndex.simps(2))
      qed
    qed
  qed
qed


text \<open>
  C9. The text of the upload handler does not depend on the security profile: changing
  the confidential and owner-verified fields of the generator, and what the schema
  reports for them, leaves the handler text (or the failure) as it is. And the handler
  has none of the checks: when the names interpolated into it are plain, its text
  mentions neither \<^verbatim>\<open>authUser\<close> nor \<^verbatim>\<open>isAdmin\<close>, so that it has no binding of the
  authenticated user (the statements of \<^verbatim>\<open>getAuthUserCode\<close>) and no comparison with
  \<^verbatim>\<open>authUser.id\<close>, and it reads no field of \<^verbatim>\<open>result.items[0]\<close> or \<^verbatim>\<open>result.items[i]\<close>, as
  every statement of \<^verbatim>\<open>getConfFieldRemovingCode\<close> and every ownership comparison does.
\<close>

theorem getUploadCode_ignores_security_profile:
  \<open>map_sum id fst
     (getUploadCode (u\<lparr>getConfidentialFields := cf', getOwnerVerifiedFields := ovf'\<rparr>)
        (g\<lparr>confidentialFields := cf, ownerVerifiedFields := ovf\<rparr>))
   = map_sum id fst (getUploadCode u g)
   \<and> (\<forall>t. map_sum id fst (getUploadCode u g) = Inr t
           \<and> list_all plainName (uploadNames u g)
        \<longrightarrow> firstIndex ''authUser'' t = None
            \<and> firstIndex ''isAdmin'' t = None
            \<and> firstIndex ''[0].'' t = None
            \<and> firstIndex ''[i].'' t = None
            \<and> (\<forall>h. ownerVerifiedFields h \<noteq> [] \<longrightarrow> firstIndex (getAuthUserCode h) t = None)
            \<and> (\<forall>f. firstIndex (''delete result.items[0].'' @ f @ '';'') t = None
                  \<and> firstIndex (''delete result.items[i].'' @ f @ '';'') t = None
                  \<and> firstIndex (ownerComparison f) t = None))\<close>
proof (intro conjI allI impI)
  show \<open>map_sum id fst
     (getUploadCode (u\<lparr>getConfidentialFields := cf', getOwnerVerifiedFields := ovf'\<rparr>)
        (g\<lparr>confidentialFields := cf, ownerVerifiedFields := ovf\<rparr>))
   = map_sum id fst (getUploadCode u g)\<close>
    by (simp add: getUploadCode_def addImport_def uploadFieldBlock_schema Let_def
             split: option.splits list.splits)
next
  fix t
  assume a: \<open>map_sum id fst (getUploadCode u g) = Inr t
             \<and> list_all plainName (uploadNames u g)\<close>
  then have run: \<open>map_sum id fst (getUploadCode u g) = Inr t\<close>
    and plain: \<open>\<forall>n\<in>set (uploadNames u g). plainName n\<close>
    by (simp_all add: list_all_iff)
  from plain have n1: \<open>\<forall>n\<in>set (uploadNames u g). firstIndex ''authUser'' n = None\<close>
    and n2: \<open>\<forall>n\<in>set (uploadNames u g). firstIndex ''isAdmin'' n = None\<close>
    by (simp_all add: plainName_def)
  have n3: \<open>\<forall>n\<in>set (uploadNames u g). CHR ''['' \<notin> set n\<close>
  proof
    fix n
    assume \<open>n \<in> set (uploadNames u g)\<close>
    with plain have \<open>list_all isIdentifierChar n\<close>
      by (simp add: plainName_def)
    then show \<open>CHR ''['' \<notin> set n\<close>
      by (rule bracket_not_identifier)
  qed
  show auth: \<open>firstIndex ''authUser'' t = None\<close>
    using run n1 by (rule getUploadCode_no_name_marker) simp
  show \<open>firstIndex ''isAdmin'' t = None\<close>
    using run n2 by (rule getUploadCode_no_name_marker) simp
  show single: \<open>firstIndex ''[0].'' t = None\<close>
    using run n3 by (rule getUploadCode_no_bracket_marker) simp
  show multi: \<open>firstIndex ''[i].'' t = None\<close>
    using run n3 by (rule getUploadCode_no_bracket_marker) simp
  {
    fix h :: ControllerGen
    assume \<open>ownerVerifiedFields h \<noteq> []\<close>
    then have \<open>getAuthUserCode h
                = ''const '' @ ''authUser''
                  @ ('' = this.getUserFromSession(req);\<newline>''
                     @ ''        const isAdmin = this.isAdmin(authUser);\<newline>'' @ tab2)\<close>
      by (simp add: getAuthUserCode_def)
    then have \<open>sublist ''authUser'' (getAuthUserCode h)\<close>
      unfolding sublist_def by blast
    with auth show \<open>firstIndex (getAuthUserCode h) t = None\<close>
      by (rule firstIndex_None_sublist)
  }
  {
    fix f :: string
    have \<open>''delete result.items[0].'' @ f @ '';''
          = ''delete result.items'' @ ''[0].'' @ (f @ '';'')\<close>
      by simp
    then have \<open>sublist ''[0].'' (''delete result.items[0].'' @ f @ '';'')\<close>
      unfolding sublist_def by blast
    with single show \<open>firstIndex (''delete result.items[0].'' @ f @ '';'') t = None\<close>
      by (rule firstIndex_None_sublist)
    have \<open>''delete result.items[i].'' @ f @ '';''
          = ''delete result.items'' @ ''[i].'' @ (f @ '';'')\<close>
      by simp
    then have \<open>sublist ''[i].'' (''delete result.items[i].'' @ f @ '';'')\<close>
      unfolding sublist_def by blast
    with multi show \<open>firstIndex (''delete result.items[i].'' @ f @ '';'') t = None\<close>
      by (rule firstIndex_None_sublist)
    have \<open>ownerComparison f = ''result.items'' @ ''[0].'' @ (f @ '' !== authUser.id'')\<close>
      by (simp add: ownerComparison_def)
    then have \<open>sublist ''[0].'' (ownerComparison f)\<close>
      unfolding sublist_def by blast
    with single show \<open>firstIndex (ownerComparison f) t = None\<close>
      by (rule firstIndex_None_sublist)
  }
qed

theorem getUploadCode_ignores_security_profile_witness:
  \<open>map_sum id fst (getUploadCode guardedAvatarUtil guardedAvatarGen) = Inr avatarUploadText
   \<and> list_all plainName (uploadNames guardedAvatarUtil guardedAvatarGen)
   \<and> confidentialFields guardedAvatarGen = [''password'']
   \<and> ownerVerifiedFields guardedAvatarGen = [''userId'']
   \<and> firstIndex ''authUser'' avatarUploadText = None
   \<and> firstIndex ''isAdmin'' avatarUploadText = None
   \<and> firstIndex ''[0].'' avatarUploadText = None
   \<and> firstIndex ''[i].'' avatarUploadText = None
   \<and> firstIndex (getAuthUserCode guardedAvatarGen) avatarUploadText = None
   \<and> firstIndex (''delete result.items[0].'' @ ''password'' @ '';'') avatarUploadText = None
   \<and> firstIndex (ownerComparison ''userId'') avatarUploadText = None\<close>
proof -
  have h: \<open>map_sum id fst (getUploadCode guardedAvatarUtil guardedAvatarGen)
           = Inr avatarUploadText
           \<and> list_all plainName (uploadNames guardedAvatarUtil guardedAvatarGen)\<close>
    by code_simp
  have p: \<open>confidentialFields guardedAvatarGen = [''password'']
           \<and> ownerVerifiedFields guardedAvatarGen = [''userId'']\<close>
    by (simp add: guardedAvatarGen_def)
  then have ne: \<open>ownerVerifiedFields guardedAvatarGen \<noteq> []\<close>
    by simp
  from getUploadCode_ignores_security_profile [where u = guardedAvatarUtil and g = guardedAvatarGen]
  have \<open>\<forall>t. map_sum id fst (getUploadCode guardedAvatarUtil guardedAvatarGen) = Inr t
           \<and> list_all plainName (uploadNames guardedAvatarUtil guardedAvatarGen)
        \<longrightarrow> firstIndex ''authUser'' t = None
            \<and> firstIndex ''isAdmin'' t = None
            \<and> firstIndex ''[0].'' t = None
            \<and> firstIndex ''[i].'' t = None
            \<and> (\<forall>h. ownerVerifiedFields h \<noteq> [] \<longrightarrow> firstIndex (getAuthUserCode h) t = None)
            \<and> (\<forall>f. firstIndex (''delete result.items[0].'' @ f @ '';'') t = None
                  \<and> firstIndex (''delete result.items[i].'' @ f @ '';'') t = None
                  \<and> firstIndex (ownerComparison f) t = None)\<close>
    by (rule conjunct2)
  with h p ne show ?thesis
    by blast
qed

end
